theory Spec2Isabelle
  imports Main "HOL-Library.Char_ord" "HOL-Library.List_Lexorder" "HOL-Library.Sublist"
begin

section \<open>The CTest handler-command framework (cmCTestHandlerCommand.cxx)\<close>

subsection \<open>Process-wide state touched by a ctest command\<close>

datatype MessageType =
  FATAL_ERROR | AUTHOR_WARNING | WARNING | ERROR_MESSAGE | DEBUG | HANDLER_VERBOSE_OUTPUT

text \<open>
  The state every command reads and writes: the error-occurred flag of cmSystemTools,
  the variable definitions of the cmMakefile, the error text of the cmExecutionStatus and
  the messages issued so far (IssueMessage and cmCTestLog), oldest first. A ctest command
  also has the cmCTest object: its configuration type, configuration table and time limit.
\<close>

record ExecState =
  ErrorOccurred :: bool
  Definitions :: "string \<rightharpoonup> string"
  StatusError :: string
  Messages :: "(MessageType \<times> string) list"

record CTestState = ExecState +
  ConfigType :: string
  CTestConfiguration :: "string \<Rightarrow> string"
  TimeLimit :: "string option"

text \<open>
  Modelled from the spec: cmSystemTools::GetErrorOccurredFlag, ResetErrorOccurredFlag,
  SetErrorOccurred and SetFatalErrorOccurred are not in the sources at hand. The spec
  describes one process-wide error-occurred flag; reading it, clearing it and raising it
  are the three operations.
\<close>

definition GetErrorOccurredFlag :: "'a ExecState_scheme \<Rightarrow> bool" where
  "GetErrorOccurredFlag w = ErrorOccurred w"

definition ResetErrorOccurredFlag :: "'a ExecState_scheme \<Rightarrow> 'a ExecState_scheme" where
  "ResetErrorOccurredFlag w = w\<lparr>ErrorOccurred := False\<rparr>"

definition SetErrorOccurred :: "'a ExecState_scheme \<Rightarrow> 'a ExecState_scheme" where
  "SetErrorOccurred w = w\<lparr>ErrorOccurred := True\<rparr>"

definition SetFatalErrorOccurred :: "'a ExecState_scheme \<Rightarrow> 'a ExecState_scheme" where
  "SetFatalErrorOccurred w = w\<lparr>ErrorOccurred := True\<rparr>"

text \<open>The cmMakefile accessors used by the commands.\<close>

definition GetDefinition :: "'a ExecState_scheme \<Rightarrow> string \<Rightarrow> string option" where
  "GetDefinition w name = Definitions w name"

definition GetSafeDefinition :: "'a ExecState_scheme \<Rightarrow> string \<Rightarrow> string" where
  "GetSafeDefinition w name = (case Definitions w name of None \<Rightarrow> [] | Some v \<Rightarrow> v)"

definition AddDefinition :: "string \<Rightarrow> string \<Rightarrow> 'a ExecState_scheme \<Rightarrow> 'a ExecState_scheme" where
  "AddDefinition name v w = w\<lparr>Definitions := (Definitions w)(name \<mapsto> v)\<rparr>"

definition SetError :: "string \<Rightarrow> 'a ExecState_scheme \<Rightarrow> 'a ExecState_scheme" where
  "SetError e w = w\<lparr>StatusError := e\<rparr>"

definition GetError :: "'a ExecState_scheme \<Rightarrow> string" where
  "GetError w = StatusError w"

text \<open>
  Modelled from the spec: cmMakefile::IssueMessage is not in the sources at hand. A
  FATAL_ERROR message is a fatal error of the configure pass: it is recorded and raises
  the error-occurred flag; every other message is only recorded.
\<close>

definition IssueMessage :: "MessageType \<Rightarrow> string \<Rightarrow> 'a ExecState_scheme \<Rightarrow> 'a ExecState_scheme" where
  "IssueMessage t text w =
     (let w1 = w\<lparr>Messages := Messages w @ [(t, text)]\<rparr>
      in if t = FATAL_ERROR then SetErrorOccurred w1 else w1)"

text \<open>
  Modelled from the spec: cmCTest::Log, behind the macros cmCTestLog and
  cmCTestOptionalLog, is not in the sources at hand. The spec treats a condition that a
  command reports as an error (a build directory that cannot be resolved is its example)
  as a failure of the command, which the capture contract intercepts: a message logged
  with type ERROR_MESSAGE is recorded and raises the error-occurred flag; a message of
  any other type is only recorded. The optional form logs nothing when it is suppressed.
\<close>

definition cmCTestLog :: "MessageType \<Rightarrow> string \<Rightarrow> 'a ExecState_scheme \<Rightarrow> 'a ExecState_scheme" where
  "cmCTestLog t text w =
     (let w1 = w\<lparr>Messages := Messages w @ [(t, text)]\<rparr>
      in if t = ERROR_MESSAGE then SetErrorOccurred w1 else w1)"

definition cmCTestOptionalLog ::
  "MessageType \<Rightarrow> string \<Rightarrow> bool \<Rightarrow> 'a ExecState_scheme \<Rightarrow> 'a ExecState_scheme" where
  "cmCTestOptionalLog t text suppress w = (if suppress then w else cmCTestLog t text w)"

definition SetConfigType :: "string \<Rightarrow> 'a CTestState_scheme \<Rightarrow> 'a CTestState_scheme" where
  "SetConfigType c w = w\<lparr>ConfigType := c\<rparr>"

definition GetConfigType :: "'a CTestState_scheme \<Rightarrow> string" where
  "GetConfigType w = ConfigType w"

definition SetCTestConfiguration ::
  "string \<Rightarrow> string \<Rightarrow> 'a CTestState_scheme \<Rightarrow> 'a CTestState_scheme" where
  "SetCTestConfiguration name v w = w\<lparr>CTestConfiguration := (CTestConfiguration w)(name := v)\<rparr>"

definition GetCTestConfiguration :: "'a CTestState_scheme \<Rightarrow> string \<Rightarrow> string" where
  "GetCTestConfiguration w name = CTestConfiguration w name"

definition SetTimeLimit :: "string option \<Rightarrow> 'a CTestState_scheme \<Rightarrow> 'a CTestState_scheme" where
  "SetTimeLimit t w = w\<lparr>TimeLimit := t\<rparr>"

text \<open>
  cmSystemTools::FindLastString reports whether the second string occurs in the first
  (the commands only test the result against null).
\<close>

definition FindLastString :: "string \<Rightarrow> string \<Rightarrow> bool" where
  "FindLastString s t = list_ex (\<lambda>i. prefix t (drop i s)) [0..<Suc (length s)]"

subsection \<open>SaveRestoreErrorState\<close>

record SaveRestoreErrorState =
  InitialErrorState :: bool
  CaptureCMakeErrorValue :: bool

text \<open>The constructor: remember the flag, then clear it.\<close>

definition SaveRestoreErrorState_ctor ::
  "'a ExecState_scheme \<Rightarrow> SaveRestoreErrorState \<times> 'a ExecState_scheme" where
  "SaveRestoreErrorState_ctor w =
     (\<lparr>InitialErrorState = GetErrorOccurredFlag w, CaptureCMakeErrorValue = False\<rparr>,
      ResetErrorOccurredFlag w)"

definition CaptureCMakeError_mark :: "SaveRestoreErrorState \<Rightarrow> SaveRestoreErrorState" where
  "CaptureCMakeError_mark es = es\<lparr>CaptureCMakeErrorValue := True\<rparr>"

text \<open>The destructor, run on every return path of InitialPass.\<close>

definition SaveRestoreErrorState_dtor ::
  "SaveRestoreErrorState \<Rightarrow> 'a ExecState_scheme \<Rightarrow> 'a ExecState_scheme" where
  "SaveRestoreErrorState_dtor es w =
     (if \<not> CaptureCMakeErrorValue es then
        (if InitialErrorState es then SetErrorOccurred w else w)
      else
        (let currentState = GetErrorOccurredFlag w
         in if currentState \<noteq> InitialErrorState es then
              (if InitialErrorState es then SetErrorOccurred w else ResetErrorOccurredFlag w)
            else w))"

subsection \<open>Arguments, handler and the collaborators outside these sources\<close>

record HandlerArguments =
  ParsedKeywords :: "string list"
  Append :: bool
  Quiet :: bool
  ReturnValue :: string
  CaptureCMakeError :: string
  Source :: string
  Build :: string
  SubmitIndex :: string

record Handler =
  AppendXML :: bool
  HandlerSubmitIndex :: int
  HandlerQuiet :: bool
  TotalErrors :: int
  TotalWarnings :: int

text \<open>
  What the command calls but these sources do not define, taken as parameters:
  the command's name, path normalisation, atoi, std::to_string, the scoped
  working-directory change (None when it succeeds, the error text when it fails) and
  the handler's ProcessHandler, which returns its status code, the handler with its
  counters, and whether it raised the error-occurred flag while running.
\<close>

record Collaborators =
  GetName :: string
  CollapseFullPath :: "string \<Rightarrow> string"
  atoi :: "string \<Rightarrow> int"
  to_string :: "int \<Rightarrow> string"
  cmWorkingDirectory :: "string \<Rightarrow> string option"
  ProcessHandler :: "Handler \<Rightarrow> CTestState \<Rightarrow> int \<times> Handler \<times> bool"

text \<open>std::adjacent_find, returning the first element equal to its successor.\<close>

fun adjacent_find :: "'a list \<Rightarrow> 'a option" where
  "adjacent_find (x # y # xs) = (if x = y then Some x else adjacent_find (y # xs))"
| "adjacent_find xs = None"

subsection \<open>cmCTestHandlerCommand::InitialPass\<close>

text \<open>
  Lines 124 to 165: the configuration type, the build and source directories and the
  change id are taken from the arguments or from the script variables. A build directory
  that is neither given nor defined is logged as an error, and the command goes on.
\<close>

definition ResolveConfiguration ::
  "Collaborators \<Rightarrow> 'a HandlerArguments_scheme \<Rightarrow> CTestState \<Rightarrow> CTestState" where
  "ResolveConfiguration c args w =
     (let w1 = (case GetDefinition w ''CTEST_CONFIGURATION_TYPE'' of
                  Some ctestConfigType \<Rightarrow> SetConfigType ctestConfigType w
                | None \<Rightarrow> w);
          w2 = (if Build args \<noteq> [] then
                  SetCTestConfiguration ''BuildDirectory'' (CollapseFullPath c (Build args)) w1
                else
                  (let bdir = GetSafeDefinition w1 ''CTEST_BINARY_DIRECTORY''
                   in if bdir \<noteq> [] then
                        SetCTestConfiguration ''BuildDirectory'' (CollapseFullPath c bdir) w1
                      else cmCTestLog ERROR_MESSAGE ''CTEST_BINARY_DIRECTORY not set\<newline>'' w1));
          w3 = (if Source args \<noteq> [] then
                  SetCTestConfiguration ''SourceDirectory'' (CollapseFullPath c (Source args))
                    (cmCTestLog DEBUG (''Set source directory to: '' @ Source args @ ''\<newline>'') w2)
                else
                  SetCTestConfiguration ''SourceDirectory''
                    (CollapseFullPath c (GetSafeDefinition w2 ''CTEST_SOURCE_DIRECTORY'')) w2)
      in case GetDefinition w3 ''CTEST_CHANGE_ID'' of
           Some changeId \<Rightarrow> SetCTestConfiguration ''ChangeId'' changeId w3
         | None \<Rightarrow> w3)"

text \<open>
  The value written to the capture variable when a step fails early, with the diagnostic
  that is logged unless the error text is the placeholder "unknown error.".
\<close>

definition CaptureFailure :: "string \<Rightarrow> string \<Rightarrow> CTestState \<Rightarrow> CTestState" where
  "CaptureFailure var err w =
     (let w1 = AddDefinition var ''-1'' w
      in if \<not> FindLastString err ''unknown error.'' then
           cmCTestLog ERROR_MESSAGE (err @ '' error from command\<newline>'') w1
         else w1)"

text \<open>The four places where InitialPass returns.\<close>

datatype Exit =
  BadArgument \<comment> \<open>lines 118 and 121\<close>
| NoHandler \<comment> \<open>lines 179 and 181\<close>
| WorkdirFailed \<comment> \<open>lines 199 and 201\<close>
| Completed \<comment> \<open>line 228\<close>

text \<open>
  Lines 124 to 167: the state in which InitializeHandler is called, given the state
  after the arguments are parsed.
\<close>

definition StateAtInitialize ::
  "Collaborators \<Rightarrow> 'a HandlerArguments_scheme \<Rightarrow> CTestState \<Rightarrow> CTestState" where
  "StateAtInitialize c args w =
     cmCTestLog DEBUG ''Initialize handler\<newline>'' (ResolveConfiguration c args w)"

text \<open>Lines 184 to 189: the settings passed on to the handler.\<close>

definition ConfigureHandler ::
  "Collaborators \<Rightarrow> 'a HandlerArguments_scheme \<Rightarrow> Handler \<Rightarrow> Handler" where
  "ConfigureHandler c args h =
     (let h1 = h\<lparr>AppendXML := Append args\<rparr>
      in if SubmitIndex args \<noteq> [] then
           h1\<lparr>HandlerSubmitIndex := atoi c (SubmitIndex args)\<rparr>
         else h1)"

text \<open>Line 205: the state in which ProcessHandler is called, with the time limit read
  again.\<close>

definition StateAtProcess :: "CTestState \<Rightarrow> CTestState" where
  "StateAtProcess w = SetTimeLimit (GetDefinition w ''CTEST_TIME_LIMIT'') w"

text \<open>
  Lines 208 to 212: the state after the handler ran, given the status code, the handler
  and the error indication it returned: the error is raised, the return value is
  defined when it was asked for, and the additional values are processed.
\<close>

definition StateAfterProcess ::
  "Collaborators \<Rightarrow> (Handler \<Rightarrow> 'a HandlerArguments_scheme \<Rightarrow> CTestState \<Rightarrow> CTestState) \<Rightarrow>
   'a HandlerArguments_scheme \<Rightarrow> CTestState \<Rightarrow> int \<Rightarrow> Handler \<Rightarrow> bool \<Rightarrow> CTestState" where
  "StateAfterProcess c ProcessAdditionalValues args w4 res h3 raised =
     (let w5 = (if raised then SetErrorOccurred w4 else w4);
          w6 = (if ReturnValue args \<noteq> [] then
                  AddDefinition (ReturnValue args) (to_string c res) w5
                else w5)
      in ProcessAdditionalValues h3 args w6)"

text \<open>
  Lines 108 to 228, everything after the arguments are parsed: the return statement
  taken, the value returned there and the state at that point. The two virtual hooks
  InitializeHandler and ProcessAdditionalValues are parameters; CheckArguments and
  PopulateCustomVectors change nothing that is modelled.
\<close>

definition RunHandler ::
  "Collaborators \<Rightarrow> ('a HandlerArguments_scheme \<Rightarrow> CTestState \<Rightarrow> Handler option \<times> CTestState) \<Rightarrow>
   (Handler \<Rightarrow> 'a HandlerArguments_scheme \<Rightarrow> CTestState \<Rightarrow> CTestState) \<Rightarrow>
   'a HandlerArguments_scheme \<Rightarrow> bool \<Rightarrow> bool \<Rightarrow> CTestState \<Rightarrow> Exit \<times> bool \<times> CTestState" where
  "RunHandler c InitializeHandler ProcessAdditionalValues args foundBadArgument captureCMakeError w =
     (if foundBadArgument then
        (if captureCMakeError then
           (BadArgument, True,
            CaptureFailure (CaptureCMakeError args) (GetName c @ '' '' @ GetError w) w)
         else (BadArgument, False, w))
      else
        (let (handler, w3) = InitializeHandler args (StateAtInitialize c args w)
         in case handler of
              None \<Rightarrow>
                (let w4 = cmCTestLog ERROR_MESSAGE
                            (''Cannot instantiate test handler '' @ GetName c @ ''\<newline>'') w3
                 in if captureCMakeError then
                      (NoHandler, True, CaptureFailure (CaptureCMakeError args) (GetError w4) w4)
                    else (NoHandler, False, w4))
            | Some h \<Rightarrow>
                (let h2 = ConfigureHandler c args h
                 in case cmWorkingDirectory c (GetCTestConfiguration w3 ''BuildDirectory'') of
                      Some workdirError \<Rightarrow>
                        (let w4 = SetError workdirError w3
                         in if captureCMakeError then
                              (WorkdirFailed, True,
                               cmCTestLog ERROR_MESSAGE (GetName c @ '' '' @ GetError w4 @ ''\<newline>'')
                                 (AddDefinition (CaptureCMakeError args) ''-1'' w4))
                            else (WorkdirFailed, False, w4))
                    | None \<Rightarrow>
                        (let w4 = StateAtProcess w3;
                             (res, h3, raised) = ProcessHandler c h2 w4;
                             w7 = StateAfterProcess c ProcessAdditionalValues args w4 res h3 raised
                         in if captureCMakeError then
                              (if GetErrorOccurredFlag w7 then
                                 (Completed, True,
                                  AddDefinition (CaptureCMakeError args) ''-1''
                                    (if \<not> FindLastString (GetError w7) ''unknown error.'' then
                                       cmCTestLog ERROR_MESSAGE (GetError w7) w7
                                     else w7))
                               else (Completed, True, AddDefinition (CaptureCMakeError args) ''0'' w7))
                            else (Completed, True, w7)))))"

text \<open>
  Lines 88 to 95: the keywords seen are sorted and the first adjacent pair of equal ones
  is reported; the command goes on after the message.
\<close>

definition CheckDuplicateKeywords :: "string list \<Rightarrow> CTestState \<Rightarrow> CTestState" where
  "CheckDuplicateKeywords parsedKeywords w =
     (case adjacent_find (sort parsedKeywords) of
        Some it \<Rightarrow> IssueMessage FATAL_ERROR (''Called with more than one value for '' @ it) w
      | None \<Rightarrow> w)"

definition UnknownArgument :: "string \<Rightarrow> string" where
  \<open>UnknownArgument front = ''called with unknown argument "'' @ front @ ''".''\<close>

text \<open>
  Lines 88 to 101: the state after the arguments are parsed, with the repeated keyword
  reported and the error text set for the first argument that was not parsed.
\<close>

definition StateAfterParse :: "string list \<Rightarrow> string list \<Rightarrow> CTestState \<Rightarrow> CTestState" where
  "StateAfterParse parsedKeywords unparsedArguments w =
     (let w1 = CheckDuplicateKeywords parsedKeywords w
      in case unparsedArguments of
           [] \<Rightarrow> w1
         | front # _ \<Rightarrow> SetError (UnknownArgument front) w1)"

text \<open>
  The body of InitialPass, lines 77 to 228. Parse, the argument parser bound by
  BindArguments, is outside these sources: it is a parameter that returns the bound
  values and the arguments it could not match. The result is the error-state guard, the
  return statement taken, the value returned and the state just before the guard is
  destroyed.
\<close>

definition InitialPass_body ::
  "Collaborators \<Rightarrow> (string list \<Rightarrow> 'a HandlerArguments_scheme \<times> string list) \<Rightarrow>
   ('a HandlerArguments_scheme \<Rightarrow> CTestState \<Rightarrow> Handler option \<times> CTestState) \<Rightarrow>
   (Handler \<Rightarrow> 'a HandlerArguments_scheme \<Rightarrow> CTestState \<Rightarrow> CTestState) \<Rightarrow>
   string list \<Rightarrow> CTestState \<Rightarrow> SaveRestoreErrorState \<times> Exit \<times> bool \<times> CTestState" where
  "InitialPass_body c Parse InitializeHandler ProcessAdditionalValues arguments w =
     (let (errorState, w0) = SaveRestoreErrorState_ctor w;
          (args, unparsedArguments) = Parse arguments;
          w2 = StateAfterParse (ParsedKeywords args) unparsedArguments w0;
          foundBadArgument = (unparsedArguments \<noteq> []);
          captureCMakeError = (CaptureCMakeError args \<noteq> []);
          errorState1 = (if captureCMakeError then CaptureCMakeError_mark errorState
                         else errorState)
      in (errorState1,
          RunHandler c InitializeHandler ProcessAdditionalValues args
            foundBadArgument captureCMakeError w2))"

text \<open>
  InitialPass: the body, then the destructor of the guard, which runs after every
  return statement.
\<close>

definition InitialPass ::
  "Collaborators \<Rightarrow> (string list \<Rightarrow> 'a HandlerArguments_scheme \<times> string list) \<Rightarrow>
   ('a HandlerArguments_scheme \<Rightarrow> CTestState \<Rightarrow> Handler option \<times> CTestState) \<Rightarrow>
   (Handler \<Rightarrow> 'a HandlerArguments_scheme \<Rightarrow> CTestState \<Rightarrow> CTestState) \<Rightarrow>
   string list \<Rightarrow> CTestState \<Rightarrow> bool \<times> CTestState" where
  "InitialPass c Parse InitializeHandler ProcessAdditionalValues arguments w =
     (case InitialPass_body c Parse InitializeHandler ProcessAdditionalValues arguments w of
        (errorState, exit, result, w1) \<Rightarrow> (result, SaveRestoreErrorState_dtor errorState w1))"

text \<open>Names for two parts of the body: the return statement and the state there.\<close>

definition ExitTaken ::
  "Collaborators \<Rightarrow> (string list \<Rightarrow> 'a HandlerArguments_scheme \<times> string list) \<Rightarrow>
   ('a HandlerArguments_scheme \<Rightarrow> CTestState \<Rightarrow> Handler option \<times> CTestState) \<Rightarrow>
   (Handler \<Rightarrow> 'a HandlerArguments_scheme \<Rightarrow> CTestState \<Rightarrow> CTestState) \<Rightarrow>
   string list \<Rightarrow> CTestState \<Rightarrow> Exit" where
  "ExitTaken c parser init pav arguments w =
     fst (snd (InitialPass_body c parser init pav arguments w))"

definition StateAtReturn ::
  "Collaborators \<Rightarrow> (string list \<Rightarrow> 'a HandlerArguments_scheme \<times> string list) \<Rightarrow>
   ('a HandlerArguments_scheme \<Rightarrow> CTestState \<Rightarrow> Handler option \<times> CTestState) \<Rightarrow>
   (Handler \<Rightarrow> 'a HandlerArguments_scheme \<Rightarrow> CTestState \<Rightarrow> CTestState) \<Rightarrow>
   string list \<Rightarrow> CTestState \<Rightarrow> CTestState" where
  "StateAtReturn c parser init pav arguments w =
     snd (snd (snd (InitialPass_body c parser init pav arguments w)))"

text \<open>The base class hooks (lines 247 to 255).\<close>

definition InitializeHandler_base ::
  "'a HandlerArguments_scheme \<Rightarrow> CTestState \<Rightarrow> Handler option \<times> CTestState" where
  "InitializeHandler_base args w = (None, w)"

definition ProcessAdditionalValues_base ::
  "Handler \<Rightarrow> 'a HandlerArguments_scheme \<Rightarrow> CTestState \<Rightarrow> CTestState" where
  "ProcessAdditionalValues_base h args w = w"

section \<open>The ctest build command (cmCTestBuildCommand.cxx)\<close>

record BuildArguments = HandlerArguments +
  NumberErrors :: string
  NumberWarnings :: string
  Target :: string
  Configuration :: string
  Flags :: string
  ProjectName :: string
  ParallelLevel :: "string option"

text \<open>
  A global generator is seen through GenerateCMakeBuildCommand only: target,
  configuration, parallel level, additional flags and the CMP0061 switch give the build
  command line. CreateGlobalGenerator returns no generator for a name it does not know.
\<close>

type_synonym GlobalGenerator =
  "string \<Rightarrow> string \<Rightarrow> string option \<Rightarrow> string \<Rightarrow> bool \<Rightarrow> string"

record BuildCollaborators =
  CreateGlobalGenerator :: "string \<Rightarrow> GlobalGenerator option"
  IgnoreErrorsCMP0061 :: bool

text \<open>cmNonempty on a cmValue (a possibly null pointer to a string), and its dereference.\<close>

definition cmNonempty :: "string option \<Rightarrow> bool" where
  "cmNonempty v = (case v of None \<Rightarrow> False | Some s \<Rightarrow> s \<noteq> [])"

definition deref :: "string option \<Rightarrow> string" where
  "deref v = (case v of None \<Rightarrow> [] | Some s \<Rightarrow> s)"

definition new_cmCTestBuildHandler :: Handler where
  "new_cmCTestBuildHandler =
     \<lparr>AppendXML = False, HandlerSubmitIndex = 0, HandlerQuiet = False,
      TotalErrors = 0, TotalWarnings = 0\<rparr>"

text \<open>Lines 71 to 83: the build configuration, flags and target that are in effect.\<close>

definition cmakeBuildConfiguration :: "BuildArguments \<Rightarrow> CTestState \<Rightarrow> string" where
  "cmakeBuildConfiguration args w =
     (let ctestBuildConfiguration = GetDefinition w ''CTEST_BUILD_CONFIGURATION''
      in if Configuration args \<noteq> [] then Configuration args
         else if cmNonempty ctestBuildConfiguration then deref ctestBuildConfiguration
         else GetConfigType w)"

definition cmakeBuildAdditionalFlags :: "BuildArguments \<Rightarrow> CTestState \<Rightarrow> string" where
  "cmakeBuildAdditionalFlags args w =
     (if Flags args \<noteq> [] then Flags args else GetSafeDefinition w ''CTEST_BUILD_FLAGS'')"

definition cmakeBuildTarget :: "BuildArguments \<Rightarrow> CTestState \<Rightarrow> string" where
  "cmakeBuildTarget args w =
     (if Target args \<noteq> [] then Target args else GetSafeDefinition w ''CTEST_BUILD_TARGET'')"

definition no_project_message :: string where
  \<open>no_project_message =
     ''has no project to build. If this is a "built with CMake" project, verify that CTEST_CMAKE_GENERATOR is set. Otherwise, set CTEST_BUILD_COMMAND to build the project with a custom command line.''\<close>

text \<open>Lines 126 to 139: the launcher and label settings, and the handler returned.\<close>

definition FinishBuildHandler ::
  "BuildArguments \<Rightarrow> Handler \<Rightarrow> CTestState \<Rightarrow> Handler option \<times> CTestState" where
  "FinishBuildHandler args handler w =
     (let w1 = (case GetDefinition w ''CTEST_USE_LAUNCHERS'' of
                  Some useLaunchers \<Rightarrow> SetCTestConfiguration ''UseLaunchers'' useLaunchers w
                | None \<Rightarrow> w);
          w2 = (case GetDefinition w1 ''CTEST_LABELS_FOR_SUBPROJECTS'' of
                  Some labelsForSubprojects \<Rightarrow>
                    SetCTestConfiguration ''LabelsForSubprojects'' labelsForSubprojects w1
                | None \<Rightarrow> w1)
      in (Some (handler\<lparr>HandlerQuiet := Quiet args\<rparr>), w2))"

text \<open>cmCTestBuildCommand::InitializeHandler, lines 51 to 140.\<close>

definition InitializeHandler ::
  "BuildCollaborators \<Rightarrow> BuildArguments \<Rightarrow> CTestState \<Rightarrow> Handler option \<times> CTestState" where
  \<open>InitializeHandler b args w =
     (let handler = new_cmCTestBuildHandler;
          ctestBuildCommand = GetDefinition w ''CTEST_BUILD_COMMAND''
      in if cmNonempty ctestBuildCommand then
           FinishBuildHandler args handler
             (SetCTestConfiguration ''MakeCommand'' (deref ctestBuildCommand) w)
         else
           (let cmakeGeneratorName = GetDefinition w ''CTEST_CMAKE_GENERATOR'';
                configuration = cmakeBuildConfiguration args w;
                flags = cmakeBuildAdditionalFlags args w;
                target = cmakeBuildTarget args w
            in if cmNonempty cmakeGeneratorName then
                 (let configuration1 = (if configuration = [] then ''Release'' else configuration)
                  in case CreateGlobalGenerator b (deref cmakeGeneratorName) of
                       None \<Rightarrow>
                         (None,
                          SetFatalErrorOccurred
                            (IssueMessage FATAL_ERROR
                               (''could not create generator named "'' @ deref cmakeGeneratorName @ ''"'') w))
                     | Some globalGenerator \<Rightarrow>
                         (let configuration2 =
                                (if configuration1 = [] then ''Debug'' else configuration1);
                              buildCommand =
                                globalGenerator target configuration2 (ParallelLevel args) flags
                                  (IgnoreErrorsCMP0061 b);
                              w1 = cmCTestOptionalLog HANDLER_VERBOSE_OUTPUT
                                     (''SetMakeCommand:'' @ buildCommand @ ''\<newline>'') (Quiet args) w
                          in FinishBuildHandler args handler
                               (SetCTestConfiguration ''MakeCommand'' buildCommand w1)))
               else (None, SetError no_project_message w)))\<close>

text \<open>cmCTestBuildCommand::ProcessAdditionalValues, lines 142 to 155.\<close>

definition ProcessAdditionalValues ::
  "Collaborators \<Rightarrow> Handler \<Rightarrow> BuildArguments \<Rightarrow> CTestState \<Rightarrow> CTestState" where
  "ProcessAdditionalValues c handler args w =
     (let w1 = (if NumberErrors args \<noteq> [] then
                  AddDefinition (NumberErrors args) (to_string c (TotalErrors handler)) w
                else w)
      in if NumberWarnings args \<noteq> [] then
           AddDefinition (NumberWarnings args) (to_string c (TotalWarnings handler)) w1
         else w1)"

text \<open>
  The build command as a whole: the generic pass with the two hooks of the build command.
\<close>

definition cmCTestBuildCommand_InitialPass ::
  "Collaborators \<Rightarrow> BuildCollaborators \<Rightarrow> (string list \<Rightarrow> BuildArguments \<times> string list) \<Rightarrow>
   string list \<Rightarrow> CTestState \<Rightarrow> bool \<times> CTestState" where
  "cmCTestBuildCommand_InitialPass c b Parse arguments w =
     InitialPass c Parse (InitializeHandler b) (ProcessAdditionalValues c) arguments w"

text \<open>
  The fallback chains in the words of the specification: the explicit argument, else
  the first script variable, else the configuration type of ctest (the script variable
  CTEST_CONFIGURATION_TYPE when it is defined, the command line value otherwise), else
  the default Release.
\<close>

definition spec_configuration ::
  "string \<Rightarrow> string option \<Rightarrow> string option \<Rightarrow> string \<Rightarrow> string" where
  "spec_configuration explicit buildConfigurationVar configurationTypeVar commandLine =
     (if explicit \<noteq> [] then explicit
      else case buildConfigurationVar of
             Some v \<Rightarrow> if v \<noteq> [] then v
                       else (let t = (case configurationTypeVar of Some t \<Rightarrow> t | None \<Rightarrow> commandLine)
                             in if t \<noteq> [] then t else ''Release'')
           | None \<Rightarrow> (let t = (case configurationTypeVar of Some t \<Rightarrow> t | None \<Rightarrow> commandLine)
                      in if t \<noteq> [] then t else ''Release''))"

definition spec_explicit_over_variable :: "string \<Rightarrow> string option \<Rightarrow> string" where
  "spec_explicit_over_variable explicit var =
     (if explicit \<noteq> [] then explicit else case var of Some v \<Rightarrow> v | None \<Rightarrow> [])"

section \<open>The export command (cmExportCommand.cxx)\<close>

subsection \<open>Data\<close>

datatype PolicyStatus = OLD | WARN | NEW

datatype TargetType =
  EXECUTABLE | STATIC_LIBRARY | SHARED_LIBRARY | MODULE_LIBRARY | OBJECT_LIBRARY
| UTILITY | GLOBAL_TARGET | INTERFACE_LIBRARY | UNKNOWN_LIBRARY

datatype PackageDependencyExportEnabled = Auto | Off | On

record PackageDependency =
  Enabled :: PackageDependencyExportEnabled
  ExtraArguments :: "string list"

record cmExportSet =
  PackageDependencies :: "string \<rightharpoonup> PackageDependency"
  TargetExports :: "(string \<times> string) list"

text \<open>
  The generator object set up at the end of the command. ExportOld and
  ExportPackageDependencies are only set on the CMake-config variant, so they are absent
  (None) on the Android one. ExportSetRef is the export set the generator points to, by
  name; a generator without one carries its own target list.
\<close>

record ExportBuildFileGenerator =
  Android :: bool
  AppendMode :: bool
  GenExportOld :: "bool option"
  GenExportPackageDependencies :: "bool option"
  ExportFile :: string
  GenNamespace :: string
  CxxModuleDirectory :: string
  ExportSetRef :: "string option"
  GenTargets :: "(string \<times> string) list"
  Configurations :: "string list"

datatype FsNode = Directory | RegularFile string

text \<open>
  The state of an export command: the common part, the export sets and the file
  bindings of the global generator, the generator objects owned by the makefile (a
  binding is an index into that list, since the binding and the makefile share the
  object), and the two stores a package registration can write to: the per-user files
  and the registry keys under HKEY_CURRENT_USER, each key with its named values.
\<close>

record ExportState = ExecState +
  ExportSets :: "string \<rightharpoonup> cmExportSet"
  BuildExportSets :: "string \<rightharpoonup> nat"
  BuildExportExportSets :: "string \<rightharpoonup> nat"
  Generators :: "ExportBuildFileGenerator list"
  Files :: "string \<rightharpoonup> FsNode"
  Registry :: "string \<rightharpoonup> (string \<rightharpoonup> string)"

record Arguments =
  ExportSetName :: string
  Targets :: "string list option"
  Namespace :: string
  Filename :: string
  AndroidMKFile :: string
  CxxModulesDirectory :: string
  ArgAppend :: bool
  ExportOld :: bool
  PackageDependencyArgs :: "string list list"
  ExportPackageDependencies :: bool
  TargetArgs :: "string list list"

record PackageDependencyArguments =
  EnabledArg :: string
  ExtraArgs :: "string list"

record TargetArguments =
  XcFrameworkLocation :: string

text \<open>
  What the command calls but these sources do not define, taken as parameters: the three
  argument parsers (each returns the bound values and the arguments it could not match;
  which keywords are bound for which form of the command is the parser's business), the
  truth tests cmIsOff and cmIsOn, the record that GetPackageDependencyForSetup creates
  for a package it has not seen, cmExportSet::SetXcFrameworkLocation, the path helpers,
  the target lookups, AppendTargets of a generator, the two policies and the text of the
  policy warning, the configurations of the generator, cmMakefile::IsOn and the digest.
\<close>

record ExportEnv =
  Parse :: "string list \<Rightarrow> Arguments \<times> string list"
  packageDependencyParser :: "string list \<Rightarrow> PackageDependencyArguments \<times> string list"
  targetParser :: "string list \<Rightarrow> TargetArguments \<times> string list"
  cmIsOff :: "string \<Rightarrow> bool"
  cmIsOn :: "string \<Rightarrow> bool"
  NewPackageDependency :: PackageDependency
  SetXcFrameworkLocation :: "string \<Rightarrow> string \<Rightarrow> cmExportSet \<Rightarrow> cmExportSet"
  GetFilenameLastExtension :: "string \<Rightarrow> string"
  FileIsFullPath :: "string \<Rightarrow> bool"
  CanIWriteThisFile :: "string \<Rightarrow> bool"
  GetCurrentBinaryDirectory :: string
  IsAlias :: "string \<Rightarrow> bool"
  FindTarget :: "string \<rightharpoonup> TargetType"
  AppendTargets :: "(string \<times> string) list \<Rightarrow> ExportBuildFileGenerator \<Rightarrow> ExportBuildFileGenerator"
  CMP0103 :: PolicyStatus
  CMP0090 :: PolicyStatus
  GetPolicyWarning :: string
  GetGeneratorConfigs :: "string list"
  IsOn :: "string \<Rightarrow> bool"
  HashString :: "string \<Rightarrow> string"

text \<open>
  The operating system under the package registry: the platform the command was compiled
  for, the HOME variable, the settings directory of Haiku, whether a file can be created
  at a path, the text of the last system error, and the status codes of the two registry
  calls (0 means success) with the text Windows gives for a code.
\<close>

datatype Platform = Win32 | Haiku | Unix

record RegistryEnv =
  platform :: Platform
  GetEnv_HOME :: "string option"
  find_directory :: "string option"
  ConvertToUnixSlashes :: "string \<Rightarrow> string"
  CanCreateFile :: "string \<Rightarrow> bool"
  GetLastSystemError :: string
  RegCreateKeyExW :: "string \<Rightarrow> int"
  RegSetValueExW :: "string \<Rightarrow> string \<Rightarrow> int"
  FormatMessageW :: "int \<Rightarrow> string option"

subsection \<open>The package registry (lines 427 to 507)\<close>

definition backslash :: string where
  "backslash = [CHR 0x5C]"

definition ReportRegistryError ::
  "RegistryEnv \<Rightarrow> string \<Rightarrow> string \<Rightarrow> int \<Rightarrow> ExportState \<Rightarrow> ExportState" where
  "ReportRegistryError r msg key err s =
     IssueMessage WARNING
       (msg @ ''\<newline>'' @ ''  HKEY_CURRENT_USER'' @ backslash @ key @ ''\<newline>'' @
        (case FormatMessageW r err of
           Some winmsg \<Rightarrow> ''Windows reported:\<newline>'' @ ''  '' @ winmsg
         | None \<Rightarrow> [])) s"

text \<open>The registry key of a package, line 448.\<close>

definition RegistryKey :: "string \<Rightarrow> string" where
  "RegistryKey package =
     ''Software'' @ backslash @ ''Kitware'' @ backslash @ ''CMake'' @ backslash @
     ''Packages'' @ backslash @ package"

text \<open>Reading the registry: the data of a named value of a key, if there is one.\<close>

definition RegQueryValue :: "ExportState \<Rightarrow> string \<Rightarrow> string \<Rightarrow> string option" where
  "RegQueryValue s key name = (case Registry s key of None \<Rightarrow> None | Some vs \<Rightarrow> vs name)"

text \<open>
  The Windows variant, lines 445 to 470: the key is created or opened, then the value
  named by the hash is set, whatever was there.
\<close>

definition StorePackageRegistry_Win32 ::
  "RegistryEnv \<Rightarrow> string \<Rightarrow> string \<Rightarrow> string \<Rightarrow> ExportState \<Rightarrow> ExportState" where
  \<open>StorePackageRegistry_Win32 r package content hash s =
     (let key = RegistryKey package;
          err = RegCreateKeyExW r key
      in if err \<noteq> 0 then ReportRegistryError r ''Cannot create/open registry key'' key err s
         else
           (let hKey = (case Registry s key of None \<Rightarrow> Map.empty | Some vs \<Rightarrow> vs);
                s1 = s\<lparr>Registry := (Registry s)(key \<mapsto> hKey)\<rparr>;
                err1 = RegSetValueExW r key hash
            in if err1 \<noteq> 0 then
                 ReportRegistryError r (''Cannot set registry value "'' @ hash @ ''" under key'')
                   key err1 s1
               else s1\<lparr>Registry := (Registry s1)(key \<mapsto> hKey(hash \<mapsto> content))\<rparr>))\<close>

definition MakeDirectory :: "string \<Rightarrow> ExportState \<Rightarrow> ExportState" where
  "MakeDirectory dir s =
     (case Files s dir of None \<Rightarrow> s\<lparr>Files := (Files s)(dir \<mapsto> Directory)\<rparr> | Some n \<Rightarrow> s)"

definition FileExists :: "ExportState \<Rightarrow> string \<Rightarrow> bool" where
  "FileExists s fname = (Files s fname \<noteq> None)"

text \<open>
  The other variant, lines 472 to 506. The directory of the package comes from the
  settings directory on Haiku and from HOME elsewhere; without it nothing is done. The
  entry is written only when no file of that name exists.
\<close>

definition PackageDirectory :: "RegistryEnv \<Rightarrow> string \<Rightarrow> string option" where
  "PackageDirectory r package =
     (if platform r = Haiku then
        (case find_directory r of
           None \<Rightarrow> None
         | Some dir \<Rightarrow> Some (dir @ ''/cmake/packages/'' @ package))
      else
        (case GetEnv_HOME r of
           None \<Rightarrow> None
         | Some home \<Rightarrow> Some (ConvertToUnixSlashes r home @ ''/.cmake/packages/'' @ package)))"

definition StorePackageRegistry_Posix ::
  "RegistryEnv \<Rightarrow> string \<Rightarrow> string \<Rightarrow> string \<Rightarrow> ExportState \<Rightarrow> ExportState" where
  "StorePackageRegistry_Posix r package content hash s =
     (case PackageDirectory r package of
        None \<Rightarrow> s
      | Some dir \<Rightarrow>
          (let s1 = MakeDirectory dir s;
               fname = dir @ ''/'' @ hash
           in if \<not> FileExists s1 fname then
                (if CanCreateFile r fname then
                   s1\<lparr>Files := (Files s1)(fname \<mapsto> RegularFile (content @ ''\<newline>''))\<rparr>
                 else
                   IssueMessage WARNING
                     (''Cannot create package registry file:\<newline>'' @ ''  '' @ fname @ ''\<newline>'' @
                      GetLastSystemError r @ ''\<newline>'') s1)
              else s1))"

text \<open>The variant compiled in is chosen by the platform.\<close>

definition StorePackageRegistry ::
  "RegistryEnv \<Rightarrow> string \<Rightarrow> string \<Rightarrow> string \<Rightarrow> ExportState \<Rightarrow> ExportState" where
  "StorePackageRegistry r package content hash s =
     (if platform r = Win32 then StorePackageRegistry_Win32 r package content hash s
      else StorePackageRegistry_Posix r package content hash s)"

subsection \<open>export(PACKAGE ...), lines 358 to 425\<close>

datatype Doing = DoingNone | DoingPackage

fun ParsePackageArguments :: "Doing \<Rightarrow> string \<Rightarrow> string list \<Rightarrow> string + string" where
  "ParsePackageArguments doing package [] = Inr package"
| "ParsePackageArguments doing package (arg # rest) =
     (if doing = DoingPackage then ParsePackageArguments DoingNone arg rest
      else Inl (''PACKAGE given unknown argument: '' @ arg))"

text \<open>
  Modelled from the spec: cmsys::RegularExpression is not in the sources at hand. The
  expression of the command matches a name that is one or more characters, each a
  letter, a digit, an underscore, a dot or a hyphen.
\<close>

definition packageExpr :: string where
  "packageExpr = ''^[A-Za-z0-9_.-]+$''"

definition packageChar :: "char \<Rightarrow> bool" where
  "packageChar ch =
     ((CHR ''A'' \<le> ch \<and> ch \<le> CHR ''Z'') \<or> (CHR ''a'' \<le> ch \<and> ch \<le> CHR ''z'') \<or>
      (CHR ''0'' \<le> ch \<and> ch \<le> CHR ''9'') \<or> ch = CHR ''_'' \<or> ch = CHR ''.'' \<or> ch = CHR ''-'')"

definition packageRegex_find :: "string \<Rightarrow> bool" where
  "packageRegex_find package = (package \<noteq> [] \<and> list_all packageChar package)"

definition HandlePackage ::
  "ExportEnv \<Rightarrow> RegistryEnv \<Rightarrow> string list \<Rightarrow> ExportState \<Rightarrow> bool \<times> ExportState" where
  \<open>HandlePackage e r args s =
     (case ParsePackageArguments DoingPackage [] (drop 1 args) of
        Inl err \<Rightarrow> (False, SetError err s)
      | Inr package \<Rightarrow>
          if package = [] then (False, SetError ''PACKAGE must be given a package name.'' s)
          else if \<not> packageRegex_find package then
            (False,
             SetError (''PACKAGE given invalid package name "'' @ package @ ''".  '' @
                       ''Package names must match "'' @ packageExpr @ ''".'') s)
          else
            (let skip = (case CMP0090 e of
                           WARN \<Rightarrow> IsOn e ''CMAKE_EXPORT_NO_PACKAGE_REGISTRY''
                         | OLD \<Rightarrow> IsOn e ''CMAKE_EXPORT_NO_PACKAGE_REGISTRY''
                         | NEW \<Rightarrow> \<not> IsOn e ''CMAKE_EXPORT_PACKAGE_REGISTRY'')
             in if skip then (True, s)
                else
                  (let outDir = GetCurrentBinaryDirectory e;
                       hash = HashString e outDir
                   in (True, StorePackageRegistry r package outDir hash s))))\<close>

subsection \<open>export(SETUP ...), lines 118 to 201\<close>

text \<open>
  Modelled from the spec: cmExportSet::GetPackageDependencyForSetup is not in the
  sources at hand. It returns the record of the package or creates it; a record it
  creates is in the export set from then on.
\<close>

definition GetPackageDependencyForSetup ::
  "ExportEnv \<Rightarrow> string \<Rightarrow> cmExportSet \<Rightarrow> PackageDependency \<times> cmExportSet" where
  "GetPackageDependencyForSetup e name exportSet =
     (case PackageDependencies exportSet name of
        Some packageDependency \<Rightarrow> (packageDependency, exportSet)
      | None \<Rightarrow>
          (NewPackageDependency e,
           exportSet\<lparr>PackageDependencies :=
             (PackageDependencies exportSet)(name \<mapsto> NewPackageDependency e)\<rparr>))"

text \<open>Lines 153 to 169: the ENABLED value of one group, applied to its record.\<close>

definition ApplyEnabled ::
  "ExportEnv \<Rightarrow> string \<Rightarrow> PackageDependency \<Rightarrow> string + PackageDependency" where
  \<open>ApplyEnabled e enabled packageDependency =
     (if enabled \<noteq> [] then
        (if enabled = ''AUTO'' then Inr (packageDependency\<lparr>Enabled := Auto\<rparr>)
         else if cmIsOff e enabled then Inr (packageDependency\<lparr>Enabled := Off\<rparr>)
         else if cmIsOn e enabled then Inr (packageDependency\<lparr>Enabled := On\<rparr>)
         else Inl (''Invalid enable setting for package dependency: "'' @ enabled @ ''"''))
      else Inr packageDependency)\<close>

text \<open>
  Lines 136 to 173: the loop over the PACKAGE_DEPENDENCY groups. The result is the
  error that ended the loop, if any, and the export set as the loop left it.
\<close>

fun SetupPackageDependencies ::
  "ExportEnv \<Rightarrow> string list list \<Rightarrow> cmExportSet \<Rightarrow> string option \<times> cmExportSet" where
  "SetupPackageDependencies e [] exportSet = (None, exportSet)"
| "SetupPackageDependencies e ([] # rest) exportSet = SetupPackageDependencies e rest exportSet"
| \<open>SetupPackageDependencies e ((front # others) # rest) exportSet =
     (let (packageDependencyArguments, unknownArgs) = packageDependencyParser e others
      in case unknownArgs of
           unknown # _ \<Rightarrow> (Some (''Unknown argument: "'' @ unknown @ ''".''), exportSet)
         | [] \<Rightarrow>
             (let (packageDependency, exportSet1) = GetPackageDependencyForSetup e front exportSet
              in case ApplyEnabled e (EnabledArg packageDependencyArguments) packageDependency of
                   Inl err \<Rightarrow> (Some err, exportSet1)
                 | Inr packageDependency1 \<Rightarrow>
                     SetupPackageDependencies e rest
                       (exportSet1\<lparr>PackageDependencies :=
                          (PackageDependencies exportSet1)(front \<mapsto>
                             packageDependency1\<lparr>ExtraArguments :=
                               ExtraArguments packageDependency1 @
                               ExtraArgs packageDependencyArguments\<rparr>)\<rparr>)))\<close>

text \<open>Lines 183 to 198: the loop over the TARGET groups.\<close>

fun SetupTargets ::
  "ExportEnv \<Rightarrow> string list list \<Rightarrow> cmExportSet \<Rightarrow> string option \<times> cmExportSet" where
  "SetupTargets e [] exportSet = (None, exportSet)"
| "SetupTargets e ([] # rest) exportSet = SetupTargets e rest exportSet"
| \<open>SetupTargets e ((front # others) # rest) exportSet =
     (let (targetArguments, unknownArgs) = targetParser e others
      in case unknownArgs of
           unknown # _ \<Rightarrow> (Some (''Unknown argument: "'' @ unknown @ ''".''), exportSet)
         | [] \<Rightarrow>
             SetupTargets e rest
               (SetXcFrameworkLocation e front (XcFrameworkLocation targetArguments) exportSet))\<close>

definition new_cmExportSet :: cmExportSet where
  "new_cmExportSet = \<lparr>PackageDependencies = Map.empty, TargetExports = []\<rparr>"

text \<open>
  The SETUP form. The export set is the entry of the map under the given name, created
  empty when the name is new; what the loops did to it stays in the map also when the
  command fails.
\<close>

definition Setup :: "ExportEnv \<Rightarrow> Arguments \<Rightarrow> ExportState \<Rightarrow> bool \<times> ExportState" where
  "Setup e arguments s =
     (let name = ExportSetName arguments;
          exportSet = (case ExportSets s name of Some es \<Rightarrow> es | None \<Rightarrow> new_cmExportSet)
      in case SetupPackageDependencies e (PackageDependencyArgs arguments) exportSet of
           (Some err, exportSet1) \<Rightarrow>
             (False, SetError err (s\<lparr>ExportSets := (ExportSets s)(name \<mapsto> exportSet1)\<rparr>))
         | (None, exportSet1) \<Rightarrow>
             (case SetupTargets e (TargetArgs arguments) exportSet1 of
                (Some err, exportSet2) \<Rightarrow>
                  (False, SetError err (s\<lparr>ExportSets := (ExportSets s)(name \<mapsto> exportSet2)\<rparr>))
              | (None, exportSet2) \<Rightarrow>
                  (True, s\<lparr>ExportSets := (ExportSets s)(name \<mapsto> exportSet2)\<rparr>)))"

subsection \<open>export(TARGETS ...) and export(EXPORT ...), lines 203 to 355\<close>

text \<open>Lines 230 to 243: an absolute path must be writable, a relative one is put under
  the current binary directory.\<close>

definition FileToWrite :: "ExportEnv \<Rightarrow> string \<Rightarrow> string + string" where
  \<open>FileToWrite e fname =
     (if FileIsFullPath e fname then
        (if \<not> CanIWriteThisFile e fname then
           Inl (''FILE option given filename "'' @ fname @ ''" which is in the source tree.\<newline>'')
         else Inr fname)
      else Inr (GetCurrentBinaryDirectory e @ ''/'' @ fname))\<close>

text \<open>Lines 203 to 243: the file to write and whether it is an Android file.\<close>

definition ResolveExportFile ::
  "ExportEnv \<Rightarrow> string \<Rightarrow> Arguments \<Rightarrow> string + (string \<times> bool)" where
  \<open>ResolveExportFile e mode arguments =
     (let android = (AndroidMKFile arguments \<noteq> []);
          fname = (if android then AndroidMKFile arguments else []);
          named =
            (if Filename arguments = [] \<and> fname = [] then
               (if mode \<noteq> ''EXPORT'' then Inl ''FILE <filename> option missing.''
                else Inr (ExportSetName arguments @ ''.cmake''))
             else if fname = [] then
               (if GetFilenameLastExtension e (Filename arguments) \<noteq> ''.cmake'' then
                  Inl (''FILE option given filename "'' @ Filename arguments @
                       ''" which does not have an extension of ".cmake".\<newline>'')
                else Inr (Filename arguments))
             else Inr fname)
      in case named of
           Inl err \<Rightarrow> Inl err
         | Inr fname1 \<Rightarrow>
             (case FileToWrite e fname1 of
                Inl err \<Rightarrow> Inl err
              | Inr fname2 \<Rightarrow> Inr (fname2, android)))\<close>

text \<open>Lines 262 to 282: the checks on one name given to TARGETS; None when it passes.\<close>

definition CheckTarget :: "ExportEnv \<Rightarrow> string \<Rightarrow> string option" where
  \<open>CheckTarget e currentTarget =
     (if IsAlias e currentTarget then
        Some (''given ALIAS target "'' @ currentTarget @ ''" which may not be exported.'')
      else
        (case FindTarget e currentTarget of
           Some targetType \<Rightarrow>
             if targetType = UTILITY then
               Some (''given custom target "'' @ currentTarget @ ''" which may not be exported.'')
             else None
         | None \<Rightarrow>
             Some (''given target "'' @ currentTarget @ ''" which is not built by this project.'')))\<close>

text \<open>Lines 261 to 284: the loop over the names, which stops at the first that fails.\<close>

fun CollectTargets ::
  "ExportEnv \<Rightarrow> string list \<Rightarrow> (string \<times> string) list \<Rightarrow> string + (string \<times> string) list" where
  "CollectTargets e [] targets = Inr targets"
| "CollectTargets e (currentTarget # rest) targets =
     (case CheckTarget e currentTarget of
        Some err \<Rightarrow> Inl err
      | None \<Rightarrow> CollectTargets e rest (targets @ [(currentTarget, [])]))"

text \<open>
  Modelled from the spec: cmGlobalGenerator::GetExportedTargetsFile, AddBuildExportSet
  and AddBuildExportExportSet are not in the sources at hand. An output file is bound to
  at most one generator; binding a file again replaces the binding.
\<close>

definition GetExportedTargetsFile :: "ExportState \<Rightarrow> string \<Rightarrow> nat option" where
  "GetExportedTargetsFile s fname = BuildExportSets s fname"

definition AddBuildExportSet :: "string \<Rightarrow> nat \<Rightarrow> ExportState \<Rightarrow> ExportState" where
  "AddBuildExportSet fname ebfg s = s\<lparr>BuildExportSets := (BuildExportSets s)(fname \<mapsto> ebfg)\<rparr>"

definition AddBuildExportExportSet :: "string \<Rightarrow> nat \<Rightarrow> ExportState \<Rightarrow> ExportState" where
  "AddBuildExportExportSet fname ebfg s =
     AddBuildExportSet fname ebfg
       (s\<lparr>BuildExportExportSets := (BuildExportExportSets s)(fname \<mapsto> ebfg)\<rparr>)"

text \<open>Lines 319 to 355: the generator is set up, bound to the file and handed to the
  makefile.\<close>

definition SetupGenerator ::
  "ExportEnv \<Rightarrow> Arguments \<Rightarrow> string \<Rightarrow> bool \<Rightarrow> string option \<Rightarrow> (string \<times> string) list \<Rightarrow>
   ExportState \<Rightarrow> bool \<times> ExportState" where
  "SetupGenerator e arguments fname android exportSet targets s =
     (let ebfg =
            \<lparr>Android = android,
             AppendMode = ArgAppend arguments,
             GenExportOld = (if android then None else Some (ExportOld arguments)),
             GenExportPackageDependencies =
               (if android then None else Some (ExportPackageDependencies arguments)),
             ExportFile = fname,
             GenNamespace = Namespace arguments,
             CxxModuleDirectory = CxxModulesDirectory arguments,
             ExportSetRef = exportSet,
             GenTargets = (if exportSet = None then targets else []),
             Configurations = GetGeneratorConfigs e\<rparr>;
          index = length (Generators s);
          s1 = (if exportSet \<noteq> None then AddBuildExportExportSet fname index s
                else AddBuildExportSet fname index s)
      in (True, s1\<lparr>Generators := Generators s1 @ [ebfg]\<rparr>))"

definition AlreadySpecified :: "string \<Rightarrow> string" where
  "AlreadySpecified filename =
     ''command already specified for the file\<newline>  '' @ filename @
     ''\<newline>Did you miss 'APPEND' keyword?''"

text \<open>Lines 297 to 317: a file that is bound already, decided by policy CMP0103.\<close>

definition CheckAlreadyExported ::
  "ExportEnv \<Rightarrow> Arguments \<Rightarrow> string \<Rightarrow> ExportState \<Rightarrow> ExportState + ExportState" where
  "CheckAlreadyExported e arguments fname s =
     (if GetExportedTargetsFile s fname \<noteq> None then
        (case CMP0103 e of
           WARN \<Rightarrow>
             Inr (IssueMessage AUTHOR_WARNING
                    (GetPolicyWarning e @ ''\<newline>'' @ ''export() '' @
                     AlreadySpecified (Filename arguments)) s)
         | OLD \<Rightarrow> Inr s
         | NEW \<Rightarrow>
             Inl (SetError (AlreadySpecified (Filename arguments)) s))
      else Inr s)"

text \<open>Lines 245 to 355, once the file is known.\<close>

definition ExportToFile ::
  "ExportEnv \<Rightarrow> string \<Rightarrow> Arguments \<Rightarrow> string \<Rightarrow> bool \<Rightarrow> ExportState \<Rightarrow> bool \<times> ExportState" where
  \<open>ExportToFile e mode arguments fname android s =
     (let collected =
            (if mode = ''EXPORT'' then
               (case ExportSets s (ExportSetName arguments) of
                  None \<Rightarrow> Inl (False, SetError (''Export set "'' @ ExportSetName arguments @
                                                ''" not found.'') s)
                | Some _ \<Rightarrow> Inr (Some (ExportSetName arguments), []))
             else
               (case Targets arguments of
                  Some names \<Rightarrow>
                    (case CollectTargets e names [] of
                       Inl err \<Rightarrow> Inl (False, SetError err s)
                     | Inr targets \<Rightarrow>
                         (case (if ArgAppend arguments then GetExportedTargetsFile s fname
                                else None) of
                            Some ebfg \<Rightarrow>
                              (if ebfg < length (Generators s) then
                                 Inl (True,
                                      s\<lparr>Generators :=
                                          (Generators s)[ebfg := AppendTargets e targets
                                                                   (Generators s ! ebfg)]\<rparr>)
                               else Inl (True, s))
                          | None \<Rightarrow> Inr (None, targets)))
                | None \<Rightarrow> Inl (False, SetError ''EXPORT or TARGETS specifier missing.'' s)))
      in case collected of
           Inl done \<Rightarrow> done
         | Inr (exportSet, targets) \<Rightarrow>
             (case CheckAlreadyExported e arguments fname s of
                Inl failed \<Rightarrow> (False, failed)
              | Inr s1 \<Rightarrow> SetupGenerator e arguments fname android exportSet targets s1))\<close>

text \<open>cmExportCommand, lines 52 to 356.\<close>

definition cmExportCommand ::
  "ExportEnv \<Rightarrow> RegistryEnv \<Rightarrow> string list \<Rightarrow> ExportState \<Rightarrow> bool \<times> ExportState" where
  \<open>cmExportCommand e r args s =
     (if length args < 2 then (False, SetError ''called with too few arguments'' s)
      else if hd args = ''PACKAGE'' then HandlePackage e r args s
      else
        (let (arguments, unknownArgs) = Parse e args
         in case unknownArgs of
              unknown # _ \<Rightarrow> (False, SetError (''Unknown argument: "'' @ unknown @ ''".'') s)
            | [] \<Rightarrow>
                if hd args = ''SETUP'' then Setup e arguments s
                else
                  (case ResolveExportFile e (hd args) arguments of
                     Inl err \<Rightarrow> (False, SetError err s)
                   | Inr (fname, android) \<Rightarrow>
                       ExportToFile e (hd args) arguments fname android s)))\<close>

section \<open>Sample inputs\<close>

text \<open>
  Concrete collaborators and states, used where a theorem is tried on an input. The
  sample parser knows one flag and four single-value keywords and records each keyword
  it sees; everything else is left unparsed.
\<close>

definition sample_arguments :: BuildArguments where
  "sample_arguments =
     \<lparr>ParsedKeywords = [], Append = False, Quiet = False, ReturnValue = [],
      CaptureCMakeError = [], Source = [], Build = [], SubmitIndex = [],
      NumberErrors = [], NumberWarnings = [], Target = [], Configuration = [], Flags = [],
      ProjectName = [], ParallelLevel = None\<rparr>"

fun sample_Parse_loop ::
  "string list \<Rightarrow> BuildArguments \<Rightarrow> string list \<Rightarrow> BuildArguments \<times> string list" where
  "sample_Parse_loop [] args unparsed = (args, unparsed)"
| "sample_Parse_loop [k] args unparsed =
     (if k = ''QUIET'' then
        (args\<lparr>ParsedKeywords := ParsedKeywords args @ [k], Quiet := True\<rparr>, unparsed)
      else (args, unparsed @ [k]))"
| "sample_Parse_loop (k # v # rest) args unparsed =
     (if k = ''QUIET'' then
        sample_Parse_loop (v # rest)
          (args\<lparr>ParsedKeywords := ParsedKeywords args @ [k], Quiet := True\<rparr>) unparsed
      else if k = ''CAPTURE_CMAKE_ERROR'' then
        sample_Parse_loop rest
          (args\<lparr>ParsedKeywords := ParsedKeywords args @ [k], CaptureCMakeError := v\<rparr>) unparsed
      else if k = ''CONFIGURATION'' then
        sample_Parse_loop rest
          (args\<lparr>ParsedKeywords := ParsedKeywords args @ [k], Configuration := v\<rparr>) unparsed
      else if k = ''TARGET'' then
        sample_Parse_loop rest
          (args\<lparr>ParsedKeywords := ParsedKeywords args @ [k], Target := v\<rparr>) unparsed
      else if k = ''FLAGS'' then
        sample_Parse_loop rest
          (args\<lparr>ParsedKeywords := ParsedKeywords args @ [k], Flags := v\<rparr>) unparsed
      else sample_Parse_loop (v # rest) args (unparsed @ [k]))"

definition sample_Parse :: "string list \<Rightarrow> BuildArguments \<times> string list" where
  "sample_Parse arguments = sample_Parse_loop arguments sample_arguments []"

definition sample_ProcessHandler :: "Handler \<Rightarrow> CTestState \<Rightarrow> int \<times> Handler \<times> bool" where
  "sample_ProcessHandler h w = (0, h, False)"

definition sample_workdir :: "string \<Rightarrow> string option" where
  "sample_workdir dir =
     (if dir = [] then Some ''Failed to change working directory'' else None)"

definition sample_to_string :: "int \<Rightarrow> string" where
  "sample_to_string i = (if i = 0 then ''0'' else ''?'')"

definition sample_atoi :: "string \<Rightarrow> int" where
  "sample_atoi text = 0"

definition sample_collaborators :: Collaborators where
  "sample_collaborators =
     \<lparr>GetName = ''ctest_build'', CollapseFullPath = id, atoi = sample_atoi,
      to_string = sample_to_string, cmWorkingDirectory = sample_workdir,
      ProcessHandler = sample_ProcessHandler\<rparr>"

definition sample_generator :: GlobalGenerator where
  "sample_generator target configuration parallelLevel flags ignoreErrors =
     ''cmake --build . --target '' @ target @ '' --config '' @ configuration @ '' -- '' @ flags"

definition sample_CreateGlobalGenerator :: "string \<Rightarrow> GlobalGenerator option" where
  "sample_CreateGlobalGenerator name =
     (if name = ''Ninja'' then Some sample_generator else None)"

definition sample_build_collaborators :: BuildCollaborators where
  "sample_build_collaborators =
     \<lparr>CreateGlobalGenerator = sample_CreateGlobalGenerator, IgnoreErrorsCMP0061 = False\<rparr>"

definition no_configuration :: "string \<Rightarrow> string" where
  "no_configuration name = []"

text \<open>A fresh script: nothing defined, no error, the placeholder as error text.\<close>

definition sample_state :: CTestState where
  "sample_state =
     \<lparr>ErrorOccurred = False, Definitions = Map.empty, StatusError = ''unknown error.'',
      Messages = [], ConfigType = [], CTestConfiguration = no_configuration, TimeLimit = None\<rparr>"

text \<open>
  A script that had an error before the command, with a build directory and a build
  command of its own; and one that names a generator instead.
\<close>

definition sample_script_state :: CTestState where
  "sample_script_state =
     sample_state\<lparr>ErrorOccurred := True,
       Definitions := [''CTEST_BINARY_DIRECTORY'' \<mapsto> ''/build'',
                       ''CTEST_BUILD_COMMAND'' \<mapsto> ''make'']\<rparr>"

definition sample_generator_state :: CTestState where
  "sample_generator_state =
     sample_state\<lparr>
       Definitions := [''CTEST_BINARY_DIRECTORY'' \<mapsto> ''/build'',
                       ''CTEST_CMAKE_GENERATOR'' \<mapsto> ''Ninja'',
                       ''CTEST_BUILD_FLAGS'' \<mapsto> ''-k'']\<rparr>"

text \<open>
  A script that defines its build command but no binary directory, run after an earlier
  command had configured the build directory.
\<close>

definition previous_configuration :: "string \<Rightarrow> string" where
  "previous_configuration name = (if name = ''BuildDirectory'' then ''/previous'' else [])"

definition sample_configured_state :: CTestState where
  "sample_configured_state =
     sample_state\<lparr>Definitions := [''CTEST_BUILD_COMMAND'' \<mapsto> ''make''],
       CTestConfiguration := previous_configuration\<rparr>"

text \<open>
  For the export command: a parser that knows TARGETS, FILE, APPEND, EXPORT, SETUP and
  PACKAGE_DEPENDENCY, a parser for the ENABLED and EXTRA_ARGS of one group, a project
  with a library, an alias and a custom target, and an empty state.
\<close>

datatype sample_mode = NoList | InTargets | InPackageDependency | ExpectFile | ExpectName

definition sample_export_step ::
  "sample_mode \<times> Arguments \<times> string list \<Rightarrow> string \<Rightarrow> sample_mode \<times> Arguments \<times> string list" where
  "sample_export_step st x =
     (case st of (m, a, unknown) \<Rightarrow>
        if m = ExpectFile then (NoList, a\<lparr>Filename := x\<rparr>, unknown)
        else if m = ExpectName then (NoList, a\<lparr>ExportSetName := x\<rparr>, unknown)
        else if x = ''TARGETS'' then (InTargets, a\<lparr>Targets := Some []\<rparr>, unknown)
        else if x = ''APPEND'' then (NoList, a\<lparr>ArgAppend := True\<rparr>, unknown)
        else if x = ''PACKAGE_DEPENDENCY'' then
          (InPackageDependency,
           a\<lparr>PackageDependencyArgs := PackageDependencyArgs a @ [[]]\<rparr>, unknown)
        else if x = ''FILE'' then (ExpectFile, a, unknown)
        else if x = ''EXPORT'' \<or> x = ''SETUP'' then (ExpectName, a, unknown)
        else if m = InTargets then
          (m, a\<lparr>Targets := Some ((case Targets a of None \<Rightarrow> [] | Some ts \<Rightarrow> ts) @ [x])\<rparr>,
           unknown)
        else if m = InPackageDependency then
          (m, a\<lparr>PackageDependencyArgs :=
                  butlast (PackageDependencyArgs a) @ [last (PackageDependencyArgs a) @ [x]]\<rparr>,
           unknown)
        else (m, a, unknown @ [x]))"

definition sample_export_arguments :: Arguments where
  "sample_export_arguments =
     \<lparr>ExportSetName = [], Targets = None, Namespace = [], Filename = [], AndroidMKFile = [],
      CxxModulesDirectory = [], ArgAppend = False, ExportOld = False,
      PackageDependencyArgs = [], ExportPackageDependencies = False, TargetArgs = []\<rparr>"

definition sample_export_Parse :: "string list \<Rightarrow> Arguments \<times> string list" where
  "sample_export_Parse args =
     snd (foldl sample_export_step (NoList, sample_export_arguments, []) args)"

datatype sample_group_mode = NoValue | ExpectEnabled | InExtraArgs

definition sample_group_step ::
  "sample_group_mode \<times> PackageDependencyArguments \<times> string list \<Rightarrow> string \<Rightarrow>
   sample_group_mode \<times> PackageDependencyArguments \<times> string list" where
  "sample_group_step st x =
     (case st of (m, parsed, unknown) \<Rightarrow>
        if m = ExpectEnabled then (NoValue, parsed\<lparr>EnabledArg := x\<rparr>, unknown)
        else if x = ''ENABLED'' then (ExpectEnabled, parsed, unknown)
        else if x = ''EXTRA_ARGS'' then (InExtraArgs, parsed, unknown)
        else if m = InExtraArgs then (m, parsed\<lparr>ExtraArgs := ExtraArgs parsed @ [x]\<rparr>, unknown)
        else (m, parsed, unknown @ [x]))"

definition sample_packageDependencyParser ::
  "string list \<Rightarrow> PackageDependencyArguments \<times> string list" where
  "sample_packageDependencyParser args =
     snd (foldl sample_group_step (NoValue, \<lparr>EnabledArg = [], ExtraArgs = []\<rparr>, []) args)"

definition sample_targetParser :: "string list \<Rightarrow> TargetArguments \<times> string list" where
  "sample_targetParser args =
     (case args of
        [k, v] \<Rightarrow> if k = ''XCFRAMEWORK_LOCATION'' then (\<lparr>XcFrameworkLocation = v\<rparr>, [])
                  else (\<lparr>XcFrameworkLocation = []\<rparr>, args)
      | _ \<Rightarrow> (\<lparr>XcFrameworkLocation = []\<rparr>, args))"

definition sample_cmIsOff :: "string \<Rightarrow> bool" where
  "sample_cmIsOff v = (v = ''OFF'' \<or> v = ''0'' \<or> v = ''NO'' \<or> v = ''FALSE'')"

definition sample_cmIsOn :: "string \<Rightarrow> bool" where
  "sample_cmIsOn v = (v = ''ON'' \<or> v = ''1'' \<or> v = ''YES'' \<or> v = ''TRUE'')"

definition sample_SetXcFrameworkLocation :: "string \<Rightarrow> string \<Rightarrow> cmExportSet \<Rightarrow> cmExportSet" where
  "sample_SetXcFrameworkLocation name location exportSet =
     exportSet\<lparr>TargetExports :=
       map (\<lambda>te. if fst te = name then (name, location) else te) (TargetExports exportSet)\<rparr>"

definition sample_extension :: "string \<Rightarrow> string" where
  "sample_extension fname =
     (if CHR ''.'' \<in> set fname then
        CHR ''.'' # rev (takeWhile (\<lambda>ch. ch \<noteq> CHR ''.'') (rev fname))
      else [])"

definition sample_FileIsFullPath :: "string \<Rightarrow> bool" where
  "sample_FileIsFullPath fname = prefix ''/'' fname"

definition sample_CanIWriteThisFile :: "string \<Rightarrow> bool" where
  "sample_CanIWriteThisFile fname = (\<not> prefix ''/src/'' fname)"

definition sample_IsAlias :: "string \<Rightarrow> bool" where
  "sample_IsAlias name = (name = ''myalias'')"

definition sample_FindTarget :: "string \<rightharpoonup> TargetType" where
  "sample_FindTarget =
     [''mylib'' \<mapsto> STATIC_LIBRARY, ''myalias'' \<mapsto> STATIC_LIBRARY, ''docs'' \<mapsto> UTILITY]"

definition sample_AppendTargets ::
  "(string \<times> string) list \<Rightarrow> ExportBuildFileGenerator \<Rightarrow> ExportBuildFileGenerator" where
  "sample_AppendTargets targets ebfg = ebfg\<lparr>GenTargets := GenTargets ebfg @ targets\<rparr>"

definition sample_IsOn :: "string \<Rightarrow> bool" where
  "sample_IsOn name = False"

definition sample_HashString :: "string \<Rightarrow> string" where
  "sample_HashString text = ''d41d8cd9''"

definition sample_env :: ExportEnv where
  "sample_env =
     \<lparr>Parse = sample_export_Parse,
      packageDependencyParser = sample_packageDependencyParser,
      targetParser = sample_targetParser,
      cmIsOff = sample_cmIsOff,
      cmIsOn = sample_cmIsOn,
      NewPackageDependency = \<lparr>Enabled = Auto, ExtraArguments = []\<rparr>,
      SetXcFrameworkLocation = sample_SetXcFrameworkLocation,
      GetFilenameLastExtension = sample_extension,
      FileIsFullPath = sample_FileIsFullPath,
      CanIWriteThisFile = sample_CanIWriteThisFile,
      GetCurrentBinaryDirectory = ''/build'',
      IsAlias = sample_IsAlias,
      FindTarget = sample_FindTarget,
      AppendTargets = sample_AppendTargets,
      CMP0103 = NEW,
      CMP0090 = OLD,
      GetPolicyWarning = ''Policy CMP0103 is not set.'',
      GetGeneratorConfigs = [[]],
      IsOn = sample_IsOn,
      HashString = sample_HashString\<rparr>"

definition sample_no_error :: "string \<Rightarrow> int" where
  "sample_no_error key = 0"

definition sample_no_error2 :: "string \<Rightarrow> string \<Rightarrow> int" where
  "sample_no_error2 key name = 0"

definition sample_CanCreateFile :: "string \<Rightarrow> bool" where
  "sample_CanCreateFile fname = True"

definition sample_FormatMessageW :: "int \<Rightarrow> string option" where
  "sample_FormatMessageW err = None"

definition sample_unix :: RegistryEnv where
  "sample_unix =
     \<lparr>platform = Unix, GetEnv_HOME = Some ''/home/user'', find_directory = None,
      ConvertToUnixSlashes = id, CanCreateFile = sample_CanCreateFile,
      GetLastSystemError = ''Permission denied'',
      RegCreateKeyExW = sample_no_error, RegSetValueExW = sample_no_error2,
      FormatMessageW = sample_FormatMessageW\<rparr>"

definition sample_win32 :: RegistryEnv where
  "sample_win32 = sample_unix\<lparr>platform := Win32\<rparr>"

definition sample_export_state :: ExportState where
  "sample_export_state =
     \<lparr>ErrorOccurred = False, Definitions = Map.empty, StatusError = ''unknown error.'',
      Messages = [], ExportSets = Map.empty, BuildExportSets = Map.empty,
      BuildExportExportSets = Map.empty, Generators = [], Files = Map.empty,
      Registry = Map.empty\<rparr>"

definition sample_exported_state :: ExportState where
  "sample_exported_state =
     snd (cmExportCommand sample_env sample_unix [''TARGETS'', ''mylib'', ''FILE'', ''out.cmake'']
            sample_export_state)"

definition sample_registered_state :: ExportState where
  "sample_registered_state =
     sample_export_state\<lparr>Registry := [RegistryKey ''Foo'' \<mapsto> [''d41d8cd9'' \<mapsto> ''/elsewhere'']]\<rparr>"

section \<open>Properties of the ctest commands\<close>

subsection \<open>Auxiliary facts\<close>

lemmas state_defs =
  GetErrorOccurredFlag_def ResetErrorOccurredFlag_def SetErrorOccurred_def
  SetFatalErrorOccurred_def GetDefinition_def GetSafeDefinition_def AddDefinition_def
  SetError_def GetError_def IssueMessage_def cmCTestLog_def cmCTestOptionalLog_def
  SetConfigType_def GetConfigType_def SetCTestConfiguration_def GetCTestConfiguration_def
  SetTimeLimit_def

lemma cmCTestLog_simps:
  "ErrorOccurred (cmCTestLog t text w) = (ErrorOccurred w \<or> t = ERROR_MESSAGE)"
  "Definitions (cmCTestLog t text w) = Definitions w"
  "StatusError (cmCTestLog t text w) = StatusError w"
  "Messages (cmCTestLog t text w) = Messages w @ [(t, text)]"
  "ConfigType (cmCTestLog t text w) = ConfigType w"
  "CTestConfiguration (cmCTestLog t text w) = CTestConfiguration w"
  by (auto simp add: cmCTestLog_def SetErrorOccurred_def Let_def)

lemma CaptureFailure_simps:
  "ErrorOccurred (CaptureFailure var err w) =
     (ErrorOccurred w \<or> \<not> FindLastString err ''unknown error.'')"
  "Definitions (CaptureFailure var err w) = (Definitions w)(var \<mapsto> ''-1'')"
  "CTestConfiguration (CaptureFailure var err w) = CTestConfiguration w"
  "StatusError (CaptureFailure var err w) = StatusError w"
  "Messages (CaptureFailure var err w) =
     (if \<not> FindLastString err ''unknown error.'' then
        Messages w @ [(ERROR_MESSAGE, err @ '' error from command\<newline>'')]
      else Messages w)"
  by (simp_all add: CaptureFailure_def AddDefinition_def cmCTestLog_simps Let_def)

lemma dtor_simps:
  "Definitions (SaveRestoreErrorState_dtor es w) = Definitions w"
  "CTestConfiguration (SaveRestoreErrorState_dtor es w) = CTestConfiguration w"
  "StatusError (SaveRestoreErrorState_dtor es w) = StatusError w"
  "Messages (SaveRestoreErrorState_dtor es w) = Messages w"
  "ErrorOccurred (SaveRestoreErrorState_dtor es w) =
     (if CaptureCMakeErrorValue es then InitialErrorState es
      else (InitialErrorState es \<or> ErrorOccurred w))"
  by (auto simp add: SaveRestoreErrorState_dtor_def state_defs Let_def)

lemma adjacent_find_sorted_None:
  "sorted xs \<Longrightarrow> (adjacent_find xs = None) = distinct xs"
proof (induction xs rule: adjacent_find.induct)
  case (1 x y xs)
  then show ?case by (auto simp: less_le)
qed simp_all

lemma adjacent_find_Some_count:
  "adjacent_find xs = Some k \<Longrightarrow> 2 \<le> count_list xs k"
  by (induction xs rule: adjacent_find.induct) (auto split: if_splits)

lemma count_list_insort: "count_list (insort x xs) k = count_list (x # xs) k"
  by (induction xs) auto

lemma count_list_sort: "count_list (sort xs) k = count_list xs k"
  by (induction xs) (simp_all add: count_list_insort)

lemma adjacent_find_sort_None: "(adjacent_find (sort xs) = None) = distinct xs"
  by (simp add: adjacent_find_sorted_None)

lemma CheckDuplicateKeywords_simps:
  "Definitions (CheckDuplicateKeywords seen w) = Definitions w"
  "CTestConfiguration (CheckDuplicateKeywords seen w) = CTestConfiguration w"
  "ConfigType (CheckDuplicateKeywords seen w) = ConfigType w"
  "StatusError (CheckDuplicateKeywords seen w) = StatusError w"
  by (simp_all add: CheckDuplicateKeywords_def state_defs Let_def split: option.splits)

lemma CheckDuplicateKeywords_flag:
  "ErrorOccurred (CheckDuplicateKeywords seen w) = (ErrorOccurred w \<or> \<not> distinct seen)"
  by (cases "adjacent_find (sort seen)")
     (simp_all add: CheckDuplicateKeywords_def state_defs adjacent_find_sort_None [symmetric])

lemma CheckDuplicateKeywords_distinct:
  "distinct seen \<Longrightarrow> CheckDuplicateKeywords seen w = w"
  using adjacent_find_sort_None [of seen] by (simp add: CheckDuplicateKeywords_def)

lemma CheckDuplicateKeywords_repeated:
  assumes "\<not> distinct seen"
  shows "\<exists>k. 2 \<le> count_list seen k \<and> adjacent_find (sort seen) = Some k \<and>
             CheckDuplicateKeywords seen w =
               IssueMessage FATAL_ERROR (''Called with more than one value for '' @ k) w"
proof -
  from assms obtain k where k: "adjacent_find (sort seen) = Some k"
    using adjacent_find_sort_None [of seen] by (cases "adjacent_find (sort seen)") simp_all
  then have "2 \<le> count_list seen k"
    using adjacent_find_Some_count [OF k] by (simp add: count_list_sort)
  with k show ?thesis by (auto simp add: CheckDuplicateKeywords_def)
qed

lemma StateAfterParse_simps:
  "Definitions (StateAfterParse seen unparsed w) = Definitions w"
  "ConfigType (StateAfterParse seen unparsed w) = ConfigType w"
  "CTestConfiguration (StateAfterParse seen unparsed w) = CTestConfiguration w"
  "ErrorOccurred (StateAfterParse seen unparsed w) = (ErrorOccurred w \<or> \<not> distinct seen)"
  "Messages (StateAfterParse seen unparsed w) = Messages (CheckDuplicateKeywords seen w)"
  "StatusError (StateAfterParse seen unparsed w) =
     (case unparsed of [] \<Rightarrow> StatusError w | front # _ \<Rightarrow> UnknownArgument front)"
  by (simp_all add: StateAfterParse_def Let_def CheckDuplicateKeywords_simps
      CheckDuplicateKeywords_flag SetError_def split: list.splits)

lemma ResolveConfiguration_simps:
  "ErrorOccurred (ResolveConfiguration c args w) =
     (ErrorOccurred w \<or> (Build args = [] \<and> GetSafeDefinition w ''CTEST_BINARY_DIRECTORY'' = []))"
  "Definitions (ResolveConfiguration c args w) = Definitions w"
  "StatusError (ResolveConfiguration c args w) = StatusError w"
  "ConfigType (ResolveConfiguration c args w) =
     (case Definitions w ''CTEST_CONFIGURATION_TYPE'' of Some t \<Rightarrow> t | None \<Rightarrow> ConfigType w)"
  by (auto simp add: ResolveConfiguration_def state_defs Let_def split: option.splits)

lemma StateAtInitialize_simps:
  "ErrorOccurred (StateAtInitialize c args w) =
     (ErrorOccurred w \<or> (Build args = [] \<and> GetSafeDefinition w ''CTEST_BINARY_DIRECTORY'' = []))"
  "Definitions (StateAtInitialize c args w) = Definitions w"
  "StatusError (StateAtInitialize c args w) = StatusError w"
  "ConfigType (StateAtInitialize c args w) =
     (case Definitions w ''CTEST_CONFIGURATION_TYPE'' of Some t \<Rightarrow> t | None \<Rightarrow> ConfigType w)"
  by (simp_all add: StateAtInitialize_def cmCTestLog_simps ResolveConfiguration_simps)

lemma StateAtInitialize_BuildDirectory:
  "CTestConfiguration (StateAtInitialize c args w) ''BuildDirectory'' =
     (if Build args \<noteq> [] then CollapseFullPath c (Build args)
      else if GetSafeDefinition w ''CTEST_BINARY_DIRECTORY'' \<noteq> [] then
        CollapseFullPath c (GetSafeDefinition w ''CTEST_BINARY_DIRECTORY'')
      else CTestConfiguration w ''BuildDirectory'')"
  by (simp add: StateAtInitialize_def ResolveConfiguration_def state_defs Let_def
      split: option.splits)

lemma StateAtInitialize_messages:
  "m \<in> set (Messages w) \<Longrightarrow> m \<in> set (Messages (StateAtInitialize c args w))"
  by (simp add: StateAtInitialize_def ResolveConfiguration_def state_defs Let_def
      split: option.splits)

lemma StateAtProcess_simps:
  "ErrorOccurred (StateAtProcess v) = ErrorOccurred v"
  "CTestConfiguration (StateAtProcess v) = CTestConfiguration v"
  "Messages (StateAtProcess v) = Messages v"
  "Definitions (StateAtProcess v) = Definitions v"
  "StatusError (StateAtProcess v) = StatusError v"
  by (simp_all add: StateAtProcess_def SetTimeLimit_def)

lemma StateAfterProcess_flag:
  assumes "\<forall>h v. ErrorOccurred v \<longrightarrow> ErrorOccurred (pav h args v)"
      and "ErrorOccurred w4 \<or> raised"
  shows "ErrorOccurred (StateAfterProcess c pav args w4 res h3 raised)"
proof -
  let ?w5 = "if raised then SetErrorOccurred w4 else w4"
  let ?w6 = "if ReturnValue args \<noteq> [] then
               AddDefinition (ReturnValue args) (to_string c res) ?w5
             else ?w5"
  have "ErrorOccurred ?w6"
    using assms(2) by (auto simp add: state_defs)
  then have "ErrorOccurred (pav h3 args ?w6)"
    by (rule assms(1) [rule_format])
  then show ?thesis
    by (simp add: StateAfterProcess_def Let_def)
qed

lemma StateAfterProcess_quiet:
  assumes "\<forall>h v. ErrorOccurred (pav h args v) \<longrightarrow> ErrorOccurred v"
      and "\<not> ErrorOccurred w4" and "\<not> raised"
  shows "\<not> ErrorOccurred (StateAfterProcess c pav args w4 res h3 raised)"
proof
  assume "ErrorOccurred (StateAfterProcess c pav args w4 res h3 raised)"
  then have "ErrorOccurred (pav h3 args
     (if ReturnValue args \<noteq> [] then AddDefinition (ReturnValue args) (to_string c res) w4
      else w4))"
    by (simp add: StateAfterProcess_def Let_def assms(3))
  then have "ErrorOccurred
     (if ReturnValue args \<noteq> [] then AddDefinition (ReturnValue args) (to_string c res) w4
      else w4)"
    by (rule assms(1) [rule_format])
  with assms(2) show False by (simp add: state_defs split: if_splits)
qed

lemma StateAfterProcess_configuration:
  assumes "\<forall>h v. CTestConfiguration (pav h args v) = CTestConfiguration v"
  shows "CTestConfiguration (StateAfterProcess c pav args w4 res h3 raised) = CTestConfiguration w4"
  unfolding StateAfterProcess_def Let_def
  by (subst assms [rule_format]) (simp add: state_defs)

lemma StateAfterProcess_messages:
  assumes "\<forall>h v. m \<in> set (Messages v) \<longrightarrow> m \<in> set (Messages (pav h args v))"
      and "m \<in> set (Messages w4)"
  shows "m \<in> set (Messages (StateAfterProcess c pav args w4 res h3 raised))"
  unfolding StateAfterProcess_def Let_def
  by (rule assms(1) [rule_format]) (simp add: state_defs assms(2))

lemma entry_simps:
  "ErrorOccurred (ResetErrorOccurredFlag w) = False"
  "Definitions (ResetErrorOccurredFlag w) = Definitions w"
  "CTestConfiguration (ResetErrorOccurredFlag w) = CTestConfiguration w"
  "ConfigType (ResetErrorOccurredFlag w) = ConfigType w"
  "StatusError (ResetErrorOccurredFlag w) = StatusError w"
  "Messages (ResetErrorOccurredFlag w) = Messages w"
  "GetSafeDefinition (StateAfterParse seen unparsed (ResetErrorOccurredFlag w)) name =
     GetSafeDefinition w name"
  "ErrorOccurred (StateAfterParse seen unparsed (ResetErrorOccurredFlag w)) = (\<not> distinct seen)"
  "Definitions (StateAfterParse seen unparsed (ResetErrorOccurredFlag w)) = Definitions w"
  "ErrorOccurred (StateAtInitialize c args (StateAfterParse seen unparsed (ResetErrorOccurredFlag w))) =
     (\<not> distinct seen \<or> (Build args = [] \<and> GetSafeDefinition w ''CTEST_BINARY_DIRECTORY'' = []))"
  by (simp_all add: StateAfterParse_simps StateAtInitialize_simps ResetErrorOccurredFlag_def
      GetSafeDefinition_def)

subsection \<open>The four return statements\<close>

lemma RunHandler_bad:
  "bad \<Longrightarrow> RunHandler c init pav args bad capture w =
     (BadArgument, capture,
      if capture then CaptureFailure (CaptureCMakeError args) (GetName c @ '' '' @ GetError w) w
      else w)"
  by (simp add: RunHandler_def)

lemma RunHandler_NoHandler:
  assumes "\<not> bad" and "init args (StateAtInitialize c args w) = (None, v1)"
  shows "RunHandler c init pav args bad capture w =
     (NoHandler, capture,
      if capture then
        CaptureFailure (CaptureCMakeError args)
          (GetError (cmCTestLog ERROR_MESSAGE
             (''Cannot instantiate test handler '' @ GetName c @ ''\<newline>'') v1))
          (cmCTestLog ERROR_MESSAGE
             (''Cannot instantiate test handler '' @ GetName c @ ''\<newline>'') v1)
      else cmCTestLog ERROR_MESSAGE
             (''Cannot instantiate test handler '' @ GetName c @ ''\<newline>'') v1)"
  using assms by (simp add: RunHandler_def Let_def)

lemma RunHandler_WorkdirFailed:
  assumes "\<not> bad" and "init args (StateAtInitialize c args w) = (Some h, v1)"
      and "cmWorkingDirectory c (GetCTestConfiguration v1 ''BuildDirectory'') = Some workdirError"
  shows "RunHandler c init pav args bad capture w =
     (WorkdirFailed, capture,
      if capture then
        cmCTestLog ERROR_MESSAGE
          (GetName c @ '' '' @ GetError (SetError workdirError v1) @ ''\<newline>'')
          (AddDefinition (CaptureCMakeError args) ''-1'' (SetError workdirError v1))
      else SetError workdirError v1)"
  using assms by (simp add: RunHandler_def Let_def)

lemma RunHandler_Completed:
  assumes "\<not> bad" and "init args (StateAtInitialize c args w) = (Some h, v1)"
      and "cmWorkingDirectory c (GetCTestConfiguration v1 ''BuildDirectory'') = None"
      and "ProcessHandler c (ConfigureHandler c args h) (StateAtProcess v1) = (res, h3, raised)"
  shows "RunHandler c init pav args bad capture w =
     (Completed, True,
      if capture then
        (if ErrorOccurred (StateAfterProcess c pav args (StateAtProcess v1) res h3 raised) then
           AddDefinition (CaptureCMakeError args) ''-1''
             (if \<not> FindLastString (GetError (StateAfterProcess c pav args (StateAtProcess v1) res h3 raised)) ''unknown error.''
              then cmCTestLog ERROR_MESSAGE (GetError (StateAfterProcess c pav args (StateAtProcess v1) res h3 raised))
                     (StateAfterProcess c pav args (StateAtProcess v1) res h3 raised)
              else StateAfterProcess c pav args (StateAtProcess v1) res h3 raised)
         else AddDefinition (CaptureCMakeError args) ''0'' (StateAfterProcess c pav args (StateAtProcess v1) res h3 raised))
      else StateAfterProcess c pav args (StateAtProcess v1) res h3 raised)"
  using assms by (simp add: RunHandler_def Let_def GetErrorOccurredFlag_def)

lemma RunHandler_cases:
  obtains
    (Bad) "bad"
  | (NoHandler) v1 where "\<not> bad" "init args (StateAtInitialize c args w) = (None, v1)"
  | (Workdir) h v1 workdirError where "\<not> bad"
      "init args (StateAtInitialize c args w) = (Some h, v1)"
      "cmWorkingDirectory c (GetCTestConfiguration v1 ''BuildDirectory'') = Some workdirError"
  | (Completed) h v1 res h3 raised where "\<not> bad"
      "init args (StateAtInitialize c args w) = (Some h, v1)"
      "cmWorkingDirectory c (GetCTestConfiguration v1 ''BuildDirectory'') = None"
      "ProcessHandler c (ConfigureHandler c args h) (StateAtProcess v1) = (res, h3, raised)"
proof (cases bad)
  case True
  then show ?thesis by (rule Bad)
next
  case False
  obtain handler v1 where iv: "init args (StateAtInitialize c args w) = (handler, v1)"
    by (cases "init args (StateAtInitialize c args w)")
  show ?thesis
  proof (cases handler)
    case None
    with False iv show ?thesis by (auto intro: NoHandler)
  next
    case (Some h)
    show ?thesis
    proof (cases "cmWorkingDirectory c (GetCTestConfiguration v1 ''BuildDirectory'')")
      case None
      obtain res h3 raised where
        "ProcessHandler c (ConfigureHandler c args h) (StateAtProcess v1) = (res, h3, raised)"
        by (cases "ProcessHandler c (ConfigureHandler c args h) (StateAtProcess v1)")
      with False iv Some None show ?thesis by (auto intro: Completed)
    next
      case (Some e)
      with False iv \<open>handler = Some h\<close> show ?thesis by (auto intro: Workdir)
    qed
  qed
qed

lemma RunHandler_result:
  assumes run: "RunHandler c init pav args bad capture w = (exit, result, w1)"
  shows "result = (capture \<or> exit = Completed)"
    and "(exit = BadArgument) = bad"
    and "capture \<Longrightarrow> Definitions w1 (CaptureCMakeError args) =
           Some (if exit = Completed \<and> \<not> ErrorOccurred w1 then ''0'' else ''-1'')"
proof -
  have "result = (capture \<or> exit = Completed) \<and> (exit = BadArgument) = bad \<and>
     (capture \<longrightarrow> Definitions w1 (CaptureCMakeError args) =
           Some (if exit = Completed \<and> \<not> ErrorOccurred w1 then ''0'' else ''-1''))"
  proof (cases rule: RunHandler_cases [where bad = bad and init = init and args = args and c = c and w = w])
    case Bad
    with run show ?thesis
      by (auto simp add: RunHandler_bad CaptureFailure_simps)
  next
    case (NoHandler v1)
    with run show ?thesis
      by (auto simp add: RunHandler_NoHandler CaptureFailure_simps)
  next
    case (Workdir h v1 workdirError)
    with run show ?thesis
      by (auto simp add: RunHandler_WorkdirFailed cmCTestLog_simps AddDefinition_def)
  next
    case (Completed h v1 res h3 raised)
    with run show ?thesis
      by (auto simp add: RunHandler_Completed cmCTestLog_simps AddDefinition_def
            split: if_splits)
  qed
  then show "result = (capture \<or> exit = Completed)"
    and "(exit = BadArgument) = bad"
    and "capture \<Longrightarrow> Definitions w1 (CaptureCMakeError args) =
           Some (if exit = Completed \<and> \<not> ErrorOccurred w1 then ''0'' else ''-1'')"
    by simp_all
qed

lemma RunHandler_messages:
  assumes run: "RunHandler c init pav args bad capture w = (exit, result, w1)"
      and i: "\<forall>v. m \<in> set (Messages v) \<longrightarrow> m \<in> set (Messages (snd (init args v)))"
      and p: "\<forall>h v. m \<in> set (Messages v) \<longrightarrow> m \<in> set (Messages (pav h args v))"
      and m: "m \<in> set (Messages w)"
  shows "m \<in> set (Messages w1)"
proof -
  have mi: "m \<in> set (Messages (snd (init args (StateAtInitialize c args w))))"
    using i m by (simp add: StateAtInitialize_messages)
  show ?thesis
  proof (cases rule: RunHandler_cases [where bad = bad and init = init and args = args
        and c = c and w = w])
    case Bad
    with run m show ?thesis
      by (auto simp add: RunHandler_bad CaptureFailure_simps)
  next
    case (NoHandler v1)
    with run mi show ?thesis
      by (auto simp add: RunHandler_NoHandler CaptureFailure_simps cmCTestLog_simps)
  next
    case (Workdir h v1 workdirError)
    with run mi show ?thesis
      by (auto simp add: RunHandler_WorkdirFailed cmCTestLog_simps AddDefinition_def SetError_def)
  next
    case (Completed h v1 res h3 raised)
    from mi Completed have "m \<in> set (Messages (StateAtProcess v1))"
      by (simp add: StateAtProcess_simps)
    then have "m \<in> set (Messages (StateAfterProcess c pav args (StateAtProcess v1) res h3 raised))"
      by (rule StateAfterProcess_messages [where pav = pav and args = args, OF p])
    with run Completed show ?thesis
      by (auto simp add: RunHandler_Completed cmCTestLog_simps AddDefinition_def
          split: if_splits)
  qed
qed

lemma RunHandler_flag_kept:
  assumes run: "RunHandler c init pav args bad capture w = (exit, result, w1)"
      and i: "\<forall>v. ErrorOccurred v \<longrightarrow> ErrorOccurred (snd (init args v))"
      and p: "\<forall>h v. ErrorOccurred v \<longrightarrow> ErrorOccurred (pav h args v)"
      and f: "ErrorOccurred w"
  shows "ErrorOccurred w1"
proof -
  have fi: "ErrorOccurred (snd (init args (StateAtInitialize c args w)))"
    using i f by (simp add: StateAtInitialize_simps)
  show ?thesis
  proof (cases rule: RunHandler_cases [where bad = bad and init = init and args = args
        and c = c and w = w])
    case Bad
    with run f show ?thesis
      by (auto simp add: RunHandler_bad CaptureFailure_simps)
  next
    case (NoHandler v1)
    with run show ?thesis
      by (auto simp add: RunHandler_NoHandler CaptureFailure_simps cmCTestLog_simps)
  next
    case (Workdir h v1 workdirError)
    with run fi show ?thesis
      by (auto simp add: RunHandler_WorkdirFailed cmCTestLog_simps AddDefinition_def SetError_def)
  next
    case (Completed h v1 res h3 raised)
    from fi Completed have "ErrorOccurred (StateAtProcess v1) \<or> raised"
      by (simp add: StateAtProcess_simps)
    then have "ErrorOccurred (StateAfterProcess c pav args (StateAtProcess v1) res h3 raised)"
      by (rule StateAfterProcess_flag [where pav = pav and args = args, OF p])
    with run Completed show ?thesis
      by (auto simp add: RunHandler_Completed cmCTestLog_simps AddDefinition_def
          split: if_splits)
  qed
qed

lemma RunHandler_configuration:
  assumes run: "RunHandler c init pav args False capture w = (exit, result, w1)"
      and init: "init args (StateAtInitialize c args w) = (Some h, v1)"
      and pav: "\<forall>h v. CTestConfiguration (pav h args v) = CTestConfiguration v"
  shows "CTestConfiguration w1 = CTestConfiguration v1"
proof (cases "cmWorkingDirectory c (GetCTestConfiguration v1 ''BuildDirectory'')")
  case (Some workdirError)
  have nb: "\<not> False" by simp
  from run RunHandler_WorkdirFailed [where bad = False and c = c and init = init
      and args = args and w = w and pav = pav and capture = capture, OF nb init Some]
  show ?thesis
    by (auto simp add: cmCTestLog_simps AddDefinition_def SetError_def)
next
  case None
  obtain res h3 raised where
    ph: "ProcessHandler c (ConfigureHandler c args h) (StateAtProcess v1) = (res, h3, raised)"
    by (cases "ProcessHandler c (ConfigureHandler c args h) (StateAtProcess v1)")
  have nb: "\<not> False" by simp
  have "CTestConfiguration (StateAfterProcess c pav args (StateAtProcess v1) res h3 raised) =
          CTestConfiguration v1"
    using StateAfterProcess_configuration [where pav = pav and args = args, OF pav]
    by (simp add: StateAtProcess_simps)
  with run RunHandler_Completed [where bad = False and c = c and init = init
      and args = args and w = w and pav = pav and capture = capture, OF nb init None ph]
  show ?thesis
    by (auto simp add: cmCTestLog_simps AddDefinition_def split: if_splits)
qed

lemma InitialPass_body_unfold:
  assumes "parser arguments = (args, unparsed)"
  shows "InitialPass_body c parser init pav arguments w =
    (\<lparr>InitialErrorState = ErrorOccurred w, CaptureCMakeErrorValue = (CaptureCMakeError args \<noteq> [])\<rparr>,
     RunHandler c init pav args (unparsed \<noteq> []) (CaptureCMakeError args \<noteq> [])
       (StateAfterParse (ParsedKeywords args) unparsed (ResetErrorOccurredFlag w)))"
  using assms
  by (simp add: InitialPass_body_def SaveRestoreErrorState_ctor_def CaptureCMakeError_mark_def
      GetErrorOccurredFlag_def Let_def)

lemma InitialPass_parts:
  assumes "parser arguments = (args, unparsed)"
      and "RunHandler c init pav args (unparsed \<noteq> []) (CaptureCMakeError args \<noteq> [])
             (StateAfterParse (ParsedKeywords args) unparsed (ResetErrorOccurredFlag w)) =
           (exit, result, w1)"
  shows "ExitTaken c parser init pav arguments w = exit"
    and "StateAtReturn c parser init pav arguments w = w1"
    and "InitialPass c parser init pav arguments w =
           (result, SaveRestoreErrorState_dtor
              \<lparr>InitialErrorState = ErrorOccurred w,
               CaptureCMakeErrorValue = (CaptureCMakeError args \<noteq> [])\<rparr> w1)"
  using assms
  by (simp_all add: ExitTaken_def StateAtReturn_def InitialPass_def
      InitialPass_body_unfold [where parser = parser and arguments = arguments and args = args
        and unparsed = unparsed])

subsection \<open>The hooks of the build command\<close>

lemma ProcessAdditionalValues_simps:
  "CTestConfiguration (ProcessAdditionalValues c h args v) = CTestConfiguration v"
  "ErrorOccurred (ProcessAdditionalValues c h args v) = ErrorOccurred v"
  "Messages (ProcessAdditionalValues c h args v) = Messages v"
  "StatusError (ProcessAdditionalValues c h args v) = StatusError v"
  by (simp_all add: ProcessAdditionalValues_def AddDefinition_def Let_def)

lemma FinishBuildHandler_simps:
  "fst (FinishBuildHandler args h v) = Some (h\<lparr>HandlerQuiet := Quiet args\<rparr>)"
  "CTestConfiguration (snd (FinishBuildHandler args h v)) ''MakeCommand'' =
     CTestConfiguration v ''MakeCommand''"
  "CTestConfiguration (snd (FinishBuildHandler args h v)) ''BuildDirectory'' =
     CTestConfiguration v ''BuildDirectory''"
  "ErrorOccurred (snd (FinishBuildHandler args h v)) = ErrorOccurred v"
  "Messages (snd (FinishBuildHandler args h v)) = Messages v"
  by (simp_all add: FinishBuildHandler_def Let_def state_defs split: option.splits)

lemma InitializeHandler_flag_kept:
  "ErrorOccurred v \<Longrightarrow> ErrorOccurred (snd (InitializeHandler b args v))"
  by (simp add: InitializeHandler_def Let_def FinishBuildHandler_simps state_defs
      split: option.splits)

lemma InitializeHandler_messages:
  "m \<in> set (Messages v) \<Longrightarrow> m \<in> set (Messages (snd (InitializeHandler b args v)))"
  by (simp add: InitializeHandler_def Let_def FinishBuildHandler_simps state_defs
      split: option.splits)

lemma InitializeHandler_build_command:
  assumes "Definitions v ''CTEST_BUILD_COMMAND'' = Some command" and "command \<noteq> []"
  shows "fst (InitializeHandler b args v) =
           Some (new_cmCTestBuildHandler\<lparr>HandlerQuiet := Quiet args\<rparr>)"
    and "ErrorOccurred (snd (InitializeHandler b args v)) = ErrorOccurred v"
    and "CTestConfiguration (snd (InitializeHandler b args v)) ''BuildDirectory'' =
           CTestConfiguration v ''BuildDirectory''"
    and "CTestConfiguration (snd (InitializeHandler b args v)) ''MakeCommand'' = command"
  using assms
  by (simp_all add: InitializeHandler_def Let_def GetDefinition_def cmNonempty_def deref_def
      FinishBuildHandler_simps SetCTestConfiguration_def)

lemma InitializeHandler_no_project:
  assumes "\<not> cmNonempty (Definitions v ''CTEST_BUILD_COMMAND'')"
      and "\<not> cmNonempty (Definitions v ''CTEST_CMAKE_GENERATOR'')"
  shows "InitializeHandler b args v = (None, SetError no_project_message v)"
  using assms by (simp add: InitializeHandler_def Let_def GetDefinition_def)

lemma InitializeHandler_generated:
  assumes cmd: "\<not> cmNonempty (Definitions v ''CTEST_BUILD_COMMAND'')"
      and gen: "Definitions v ''CTEST_CMAKE_GENERATOR'' = Some g" "g \<noteq> []"
      and create: "CreateGlobalGenerator b g = Some generator"
  shows "fst (InitializeHandler b args v) =
           Some (new_cmCTestBuildHandler\<lparr>HandlerQuiet := Quiet args\<rparr>)"
    and "CTestConfiguration (snd (InitializeHandler b args v)) ''MakeCommand'' =
           generator (cmakeBuildTarget args v)
             (if cmakeBuildConfiguration args v = [] then ''Release''
              else cmakeBuildConfiguration args v)
             (ParallelLevel args) (cmakeBuildAdditionalFlags args v) (IgnoreErrorsCMP0061 b)"
  using assms
  by (simp_all add: InitializeHandler_def Let_def GetDefinition_def cmNonempty_def deref_def
      FinishBuildHandler_simps SetCTestConfiguration_def cmCTestOptionalLog_def cmCTestLog_def)

lemma no_project_message_not_unknown:
  "\<not> FindLastString no_project_message ''unknown error.''"
  by code_simp

lemma no_project_message_prefix: "prefix ''has no project to build'' no_project_message"
  by code_simp

lemmas sample_defs = sample_Parse_def sample_arguments_def sample_state_def
  sample_collaborators_def sample_build_collaborators_def sample_ProcessHandler_def
  sample_workdir_def sample_to_string_def sample_atoi_def sample_CreateGlobalGenerator_def
  no_configuration_def

subsection \<open>Duplicate keywords\<close>

text \<open>
  Claim C9. For every ctest handler command, InitialPass checks the keywords the parser
  recorded as seen: they are sorted and the first pair of equal neighbours is reported.
  The check finds a pair exactly when a keyword was supplied more than once; it then
  issues the fatal error "Called with more than one value for ..." naming a keyword that
  occurs at least twice, which raises the error-occurred flag; without a repetition it
  changes nothing.

  For the command as a whole, with the parser returning the arguments and the unparsed
  rest: when a keyword is repeated and the two hooks only add to the messages, that
  fatal error, naming the keyword the sorted search finds, is among the messages when
  InitialPass returns; when the hooks never clear the flag, the flag is set on return
  without a capture variable, and with one the command returns success and the capture
  variable holds "-1". When no keyword is repeated and an argument was left unparsed, a
  command without capture variable returns failure, has issued no message, and returns
  the flag as it was on entry.
\<close>

theorem duplicate_keyword_detected:
  assumes parse: "parser arguments = (args, unparsed)"
  shows
   "(distinct ks \<longrightarrow> CheckDuplicateKeywords ks v = v) \<and>
    (\<not> distinct ks \<longrightarrow>
       (\<exists>k. 2 \<le> count_list ks k \<and>
            adjacent_find (sort ks) = Some k \<and>
            CheckDuplicateKeywords ks v =
              IssueMessage FATAL_ERROR (''Called with more than one value for '' @ k) v \<and>
            GetErrorOccurredFlag (CheckDuplicateKeywords ks v))) \<and>
    (let seen = ParsedKeywords args;
         R = InitialPass c parser init pav arguments w;
         V = CaptureCMakeError args;
         extends = ((\<forall>m v. m \<in> set (Messages v) \<longrightarrow> m \<in> set (Messages (snd (init args v)))) \<and>
                    (\<forall>m h v. m \<in> set (Messages v) \<longrightarrow> m \<in> set (Messages (pav h args v))));
         keeps = ((\<forall>v. ErrorOccurred v \<longrightarrow> ErrorOccurred (snd (init args v))) \<and>
                  (\<forall>h v. ErrorOccurred v \<longrightarrow> ErrorOccurred (pav h args v)))
     in (\<not> distinct seen \<and> extends \<longrightarrow>
           (\<exists>k. 2 \<le> count_list seen k \<and>
                adjacent_find (sort seen) = Some k \<and>
                (FATAL_ERROR, ''Called with more than one value for '' @ k)
                  \<in> set (Messages (snd R)))) \<and>
        (\<not> distinct seen \<and> keeps \<and> V = [] \<longrightarrow> ErrorOccurred (snd R)) \<and>
        (\<not> distinct seen \<and> keeps \<and> V \<noteq> [] \<longrightarrow>
           fst R \<and> Definitions (snd R) V = Some ''-1'') \<and>
        (distinct seen \<and> unparsed \<noteq> [] \<and> V = [] \<longrightarrow>
           \<not> fst R \<and> Messages (snd R) = Messages w \<and>
           ErrorOccurred (snd R) = ErrorOccurred w))"
proof -
  let ?seen = "ParsedKeywords args"
  let ?w2 = "StateAfterParse ?seen unparsed (ResetErrorOccurredFlag w)"
  let ?V = "CaptureCMakeError args"
  have A: "distinct ks \<longrightarrow> CheckDuplicateKeywords ks v = v"
    by (simp add: CheckDuplicateKeywords_distinct)
  have B: "\<not> distinct ks \<longrightarrow>
       (\<exists>k. 2 \<le> count_list ks k \<and>
            adjacent_find (sort ks) = Some k \<and>
            CheckDuplicateKeywords ks v =
              IssueMessage FATAL_ERROR (''Called with more than one value for '' @ k) v \<and>
            GetErrorOccurredFlag (CheckDuplicateKeywords ks v))"
    using CheckDuplicateKeywords_repeated [of ks v]
    by (auto simp add: GetErrorOccurredFlag_def CheckDuplicateKeywords_flag)
  obtain exit result w1 where
    run: "RunHandler c init pav args (unparsed \<noteq> []) (?V \<noteq> []) ?w2 = (exit, result, w1)"
    by (cases "RunHandler c init pav args (unparsed \<noteq> []) (?V \<noteq> []) ?w2")
  note parts = InitialPass_parts [where parser = parser and arguments = arguments and args = args
      and unparsed = unparsed and c = c and init = init and pav = pav and w = w, OF parse run]
  note r = RunHandler_result [OF run]
  have C: "\<not> distinct ?seen \<and>
      ((\<forall>m v. m \<in> set (Messages v) \<longrightarrow> m \<in> set (Messages (snd (init args v)))) \<and>
       (\<forall>m h v. m \<in> set (Messages v) \<longrightarrow> m \<in> set (Messages (pav h args v)))) \<longrightarrow>
      (\<exists>k. 2 \<le> count_list ?seen k \<and> adjacent_find (sort ?seen) = Some k \<and>
           (FATAL_ERROR, ''Called with more than one value for '' @ k) \<in> set (Messages w1))"
  proof (intro impI, elim conjE)
    assume nd: "\<not> distinct ?seen"
      and i: "\<forall>m v. m \<in> set (Messages v) \<longrightarrow> m \<in> set (Messages (snd (init args v)))"
      and p: "\<forall>m h v. m \<in> set (Messages v) \<longrightarrow> m \<in> set (Messages (pav h args v))"
    from CheckDuplicateKeywords_repeated [OF nd, of "ResetErrorOccurredFlag w"]
    obtain k where k: "2 \<le> count_list ?seen k" "adjacent_find (sort ?seen) = Some k"
      and eq: "CheckDuplicateKeywords ?seen (ResetErrorOccurredFlag w) =
         IssueMessage FATAL_ERROR (''Called with more than one value for '' @ k)
           (ResetErrorOccurredFlag w)"
      by blast
    let ?m = "(FATAL_ERROR, ''Called with more than one value for '' @ k)"
    have "?m \<in> set (Messages ?w2)"
      by (simp add: StateAfterParse_simps eq IssueMessage_def SetErrorOccurred_def)
    then have "?m \<in> set (Messages w1)"
      using RunHandler_messages [OF run, of ?m] i p by blast
    with k show "\<exists>k. 2 \<le> count_list ?seen k \<and> adjacent_find (sort ?seen) = Some k \<and>
           (FATAL_ERROR, ''Called with more than one value for '' @ k) \<in> set (Messages w1)"
      by blast
  qed
  have D: "\<not> distinct ?seen \<and>
      ((\<forall>v. ErrorOccurred v \<longrightarrow> ErrorOccurred (snd (init args v))) \<and>
       (\<forall>h v. ErrorOccurred v \<longrightarrow> ErrorOccurred (pav h args v))) \<longrightarrow> ErrorOccurred w1"
    using RunHandler_flag_kept [OF run] by (simp add: entry_simps)
  have E: "distinct ?seen \<and> unparsed \<noteq> [] \<and> ?V = [] \<longrightarrow>
      \<not> result \<and> Messages w1 = Messages w \<and> \<not> ErrorOccurred w1"
    using run
    by (auto simp add: RunHandler_bad StateAfterParse_simps CheckDuplicateKeywords_distinct
        entry_simps)
  show ?thesis
    unfolding Let_def parts fst_conv snd_conv dtor_simps
    using A B C D E r(1) r(3) by (simp add: dtor_simps)
qed

theorem duplicate_keyword_detected_witness:
  "sample_Parse [''TARGET'', ''a'', ''TARGET'', ''b''] =
     (sample_arguments\<lparr>ParsedKeywords := [''TARGET'', ''TARGET''], Target := ''b''\<rparr>, []) \<and>
   \<not> ErrorOccurred sample_generator_state \<and>
   (FATAL_ERROR, ''Called with more than one value for TARGET'')
     \<in> set (Messages (snd (InitialPass sample_collaborators sample_Parse
           (InitializeHandler sample_build_collaborators)
           (ProcessAdditionalValues sample_collaborators)
           [''TARGET'', ''a'', ''TARGET'', ''b''] sample_generator_state))) \<and>
   ErrorOccurred (snd (InitialPass sample_collaborators sample_Parse
           (InitializeHandler sample_build_collaborators)
           (ProcessAdditionalValues sample_collaborators)
           [''TARGET'', ''a'', ''TARGET'', ''b''] sample_generator_state)) \<and>
   CheckDuplicateKeywords [''QUIET'', ''TARGET'', ''BUILD'', ''TARGET''] sample_state =
     IssueMessage FATAL_ERROR ''Called with more than one value for TARGET'' sample_state"
proof -
  let ?args = "sample_arguments\<lparr>ParsedKeywords := [''TARGET'', ''TARGET''], Target := ''b''\<rparr>"
  let ?init = "InitializeHandler sample_build_collaborators"
  let ?pav = "ProcessAdditionalValues sample_collaborators"
  let ?ks = "[''QUIET'', ''TARGET'', ''BUILD'', ''TARGET'']"
  have parse: "sample_Parse [''TARGET'', ''a'', ''TARGET'', ''b''] = (?args, [])"
    by (simp add: sample_Parse_def sample_arguments_def)
  have cap: "CaptureCMakeError ?args = []" "ParsedKeywords ?args = [''TARGET'', ''TARGET'']"
    by (simp_all add: sample_arguments_def)
  have en: "\<not> ErrorOccurred sample_generator_state"
    by (simp add: sample_generator_state_def sample_state_def)
  have extends: "((\<forall>m v. m \<in> set (Messages v) \<longrightarrow> m \<in> set (Messages (snd (?init ?args v)))) \<and>
      (\<forall>m h v. m \<in> set (Messages v) \<longrightarrow> m \<in> set (Messages (?pav h ?args v)))) = True"
    by (simp add: InitializeHandler_messages ProcessAdditionalValues_simps)
  have keeps: "((\<forall>v. ErrorOccurred v \<longrightarrow> ErrorOccurred (snd (?init ?args v))) \<and>
      (\<forall>h v. ErrorOccurred v \<longrightarrow> ErrorOccurred (?pav h ?args v))) = True"
    by (simp add: InitializeHandler_flag_kept ProcessAdditionalValues_simps)
  have nd: "\<not> distinct [''TARGET'', ''TARGET'']" "\<not> distinct ?ks" by simp_all
  have first: "adjacent_find (sort [''TARGET'', ''TARGET'']) = Some ''TARGET''"
    "adjacent_find (sort ?ks) = Some ''TARGET''"
    by code_simp+
  note t = duplicate_keyword_detected [where parser = sample_Parse
      and arguments = "[''TARGET'', ''a'', ''TARGET'', ''b'']" and args = ?args and unparsed = "[]"
      and c = sample_collaborators and init = ?init and pav = ?pav and w = sample_generator_state
      and ks = ?ks and v = sample_state,
      OF parse, unfolded Let_def cap extends keeps]
  show ?thesis
    using t parse en nd first by auto
qed

subsection \<open>The error-capture contract\<close>

text \<open>
  Claim C1, as amended. Let the parser return the arguments and the unparsed rest.
  InitialPass leaves by one of four return statements: the one for a bad argument
  exactly when something was left unparsed; else the one for an absent handler exactly
  when InitializeHandler returned none; else the one for the working directory exactly
  when the change failed; else the last line. The flag is raised when InitializeHandler
  is called exactly when a keyword was repeated or the build directory is neither given
  nor defined.

  With a capture variable, as claimed: the command returns success, the error-occurred
  flag is back at its value on entry, and the capture variable holds "-1" after each of
  the three early returns and after a run to the last line that ends with the flag
  raised, and "0" otherwise. When the hooks never clear the flag, a repeated keyword, a
  missing build directory, an error left by InitializeHandler and an error raised by the
  handler run each give "-1". When ProcessAdditionalValues raises no error, a run to the
  last line in which InitializeHandler left the flag clear and the handler run raised
  no error gives "0".

  Without a capture variable, where the claim is amended: the command returns success
  exactly when it ran to its last line, and the flag on return is set exactly when it
  was set on entry or is raised at the return statement; so a flag set on entry is never
  cleared. An absent handler leaves the flag set; when the hooks never clear the flag,
  so do a repeated keyword, a missing build directory, and an error left by
  InitializeHandler or raised by the handler run in a command that ran to its last line.
  An unknown argument and a failed change of the working directory set the error text
  and make the command return failure, but raise no flag: after an unknown argument the
  flag on return is set only if it was set on entry or a keyword was repeated, and after
  a failed change of directory only if it was set on entry or InitializeHandler left it
  raised. When ProcessAdditionalValues raises no error, a run to the last line without
  error returns the flag as it was on entry.
\<close>

theorem capture_contract:
  assumes parse: "parser arguments = (args, unparsed)"
  shows
   "(let R = InitialPass c parser init pav arguments w;
         exit = ExitTaken c parser init pav arguments w;
         w1 = StateAtReturn c parser init pav arguments w;
         V = CaptureCMakeError args;
         seen = ParsedKeywords args;
         P1 = StateAtInitialize c args (StateAfterParse seen unparsed (ResetErrorOccurredFlag w));
         handler = fst (init args P1);
         P2 = snd (init args P1);
         workdir = cmWorkingDirectory c (GetCTestConfiguration P2 ''BuildDirectory'');
         raised = (case handler of
                     None \<Rightarrow> False
                   | Some h \<Rightarrow> snd (snd (ProcessHandler c (ConfigureHandler c args h)
                                            (StateAtProcess P2))));
         nodir = (Build args = [] \<and> GetSafeDefinition w ''CTEST_BINARY_DIRECTORY'' = []);
         keeps = ((\<forall>v. ErrorOccurred v \<longrightarrow> ErrorOccurred (snd (init args v))) \<and>
                  (\<forall>h v. ErrorOccurred v \<longrightarrow> ErrorOccurred (pav h args v)));
         quiet = (\<forall>h v. ErrorOccurred (pav h args v) \<longrightarrow> ErrorOccurred v)
     in ((exit = BadArgument) = (unparsed \<noteq> [])) \<and>
        ((exit = NoHandler) = (unparsed = [] \<and> handler = None)) \<and>
        ((exit = WorkdirFailed) = (unparsed = [] \<and> handler \<noteq> None \<and> workdir \<noteq> None)) \<and>
        ((exit = Completed) = (unparsed = [] \<and> handler \<noteq> None \<and> workdir = None)) \<and>
        (ErrorOccurred P1 = (\<not> distinct seen \<or> nodir)) \<and>
        (V \<noteq> [] \<longrightarrow>
           fst R \<and> ErrorOccurred (snd R) = ErrorOccurred w \<and>
           Definitions (snd R) V =
             Some (if exit = Completed \<and> \<not> ErrorOccurred w1 then ''0'' else ''-1'')) \<and>
        (V \<noteq> [] \<and> exit \<noteq> Completed \<longrightarrow> Definitions (snd R) V = Some ''-1'') \<and>
        (V \<noteq> [] \<and> keeps \<and> (\<not> distinct seen \<or> nodir \<or> ErrorOccurred P2 \<or> raised) \<longrightarrow>
           Definitions (snd R) V = Some ''-1'') \<and>
        (V \<noteq> [] \<and> quiet \<and> exit = Completed \<and> \<not> ErrorOccurred P2 \<and> \<not> raised \<longrightarrow>
           Definitions (snd R) V = Some ''0'') \<and>
        (V = [] \<longrightarrow>
           fst R = (exit = Completed) \<and>
           ErrorOccurred (snd R) = (ErrorOccurred w \<or> ErrorOccurred w1)) \<and>
        (V = [] \<and> exit = NoHandler \<longrightarrow> ErrorOccurred (snd R)) \<and>
        (V = [] \<and> keeps \<and> (\<not> distinct seen \<or> (unparsed = [] \<and> nodir) \<or>
                              (exit = Completed \<and> (ErrorOccurred P2 \<or> raised))) \<longrightarrow>
           ErrorOccurred (snd R)) \<and>
        (V = [] \<and> exit = BadArgument \<longrightarrow>
           StatusError (snd R) = UnknownArgument (hd unparsed) \<and>
           ErrorOccurred (snd R) = (ErrorOccurred w \<or> \<not> distinct seen)) \<and>
        (V = [] \<and> exit = WorkdirFailed \<longrightarrow>
           StatusError (snd R) = the workdir \<and>
           ErrorOccurred (snd R) = (ErrorOccurred w \<or> ErrorOccurred P2)) \<and>
        (V = [] \<and> quiet \<and> exit = Completed \<and> \<not> ErrorOccurred P2 \<and> \<not> raised \<longrightarrow>
           ErrorOccurred (snd R) = ErrorOccurred w))"
proof -
  let ?w2 = "StateAfterParse (ParsedKeywords args) unparsed (ResetErrorOccurredFlag w)"
  let ?V = "CaptureCMakeError args"
  note entry = entry_simps
  have k: "(\<forall>v. ErrorOccurred v \<longrightarrow> ErrorOccurred (snd (init args v))) \<Longrightarrow>
           \<not> distinct (ParsedKeywords args) \<or>
             (Build args = [] \<and> GetSafeDefinition w ''CTEST_BINARY_DIRECTORY'' = []) \<Longrightarrow>
           ErrorOccurred (snd (init args (StateAtInitialize c args ?w2)))"
  proof -
    assume a: "\<forall>v. ErrorOccurred v \<longrightarrow> ErrorOccurred (snd (init args v))"
      and b: "\<not> distinct (ParsedKeywords args) \<or>
             (Build args = [] \<and> GetSafeDefinition w ''CTEST_BINARY_DIRECTORY'' = [])"
    from b have "ErrorOccurred (StateAtInitialize c args ?w2)" by (simp add: entry)
    with a show "ErrorOccurred (snd (init args (StateAtInitialize c args ?w2)))" by blast
  qed
  show ?thesis
  proof (cases rule: RunHandler_cases [where bad = "unparsed \<noteq> []" and init = init
        and args = args and c = c and w = ?w2])
    case Bad
    note run = RunHandler_bad [where bad = "unparsed \<noteq> []" and c = c and init = init
        and pav = pav and args = args and capture = "?V \<noteq> []" and w = ?w2, OF Bad]
    note parts = InitialPass_parts [where parser = parser and arguments = arguments and args = args and unparsed = unparsed and c = c and init = init and pav = pav and w = w, OF parse run]
    from Bad obtain front rest where u: "unparsed = front # rest" by (cases unparsed) auto
    show ?thesis
      unfolding Let_def parts fst_conv snd_conv
      using Bad
      by (simp add: dtor_simps CaptureFailure_simps entry StateAfterParse_simps u)
  next
    case (NoHandler v1)
    note run = RunHandler_NoHandler [where bad = "unparsed \<noteq> []" and c = c and init = init
        and pav = pav and args = args and capture = "?V \<noteq> []" and w = ?w2, OF NoHandler]
    note parts = InitialPass_parts [where parser = parser and arguments = arguments and args = args and unparsed = unparsed and c = c and init = init and pav = pav and w = w, OF parse run]
    show ?thesis
      unfolding Let_def parts fst_conv snd_conv
      using NoHandler
      by (simp add: dtor_simps CaptureFailure_simps entry cmCTestLog_simps)
  next
    case (Workdir h v1 workdirError)
    note run = RunHandler_WorkdirFailed [where bad = "unparsed \<noteq> []" and c = c and init = init
        and pav = pav and args = args and capture = "?V \<noteq> []" and w = ?w2, OF Workdir]
    note parts = InitialPass_parts [where parser = parser and arguments = arguments and args = args and unparsed = unparsed and c = c and init = init and pav = pav and w = w, OF parse run]
    show ?thesis
      unfolding Let_def parts fst_conv snd_conv
      using Workdir k
      by (auto simp add: dtor_simps entry cmCTestLog_simps AddDefinition_def SetError_def)
  next
    case (Completed h v1 res h3 raised)
    note run = RunHandler_Completed [where bad = "unparsed \<noteq> []" and c = c and init = init
        and pav = pav and args = args and capture = "?V \<noteq> []" and w = ?w2, OF Completed]
    note parts = InitialPass_parts [where parser = parser and arguments = arguments and args = args and unparsed = unparsed and c = c and init = init and pav = pav and w = w, OF parse run]
    note pf = StateAfterProcess_flag [where pav = pav and args = args and ?w4.0 = "StateAtProcess v1"
        and raised = raised and c = c and res = res and ?h3.0 = h3, unfolded StateAtProcess_simps]
      StateAfterProcess_quiet [where pav = pav and args = args and ?w4.0 = "StateAtProcess v1"
        and raised = raised and c = c and res = res and ?h3.0 = h3, unfolded StateAtProcess_simps]
    show ?thesis
      unfolding Let_def parts fst_conv snd_conv
      using Completed pf k
      by (auto simp add: dtor_simps entry cmCTestLog_simps AddDefinition_def)
  qed
qed

theorem capture_contract_witness:
  "sample_Parse [''CAPTURE_CMAKE_ERROR'', ''ERR''] =
     (sample_arguments\<lparr>ParsedKeywords := [''CAPTURE_CMAKE_ERROR''], CaptureCMakeError := ''ERR''\<rparr>, []) \<and>
   fst (InitialPass sample_collaborators sample_Parse (InitializeHandler sample_build_collaborators)
          (ProcessAdditionalValues sample_collaborators) [''CAPTURE_CMAKE_ERROR'', ''ERR'']
          sample_script_state) \<and>
   ErrorOccurred (snd (InitialPass sample_collaborators sample_Parse
          (InitializeHandler sample_build_collaborators)
          (ProcessAdditionalValues sample_collaborators) [''CAPTURE_CMAKE_ERROR'', ''ERR'']
          sample_script_state)) \<and>
   Definitions (snd (InitialPass sample_collaborators sample_Parse
          (InitializeHandler sample_build_collaborators)
          (ProcessAdditionalValues sample_collaborators) [''CAPTURE_CMAKE_ERROR'', ''ERR'']
          sample_script_state)) ''ERR'' = Some ''0'' \<and>
   sample_Parse [''CAPTURE_CMAKE_ERROR'', ''ERR'', ''BOGUS''] =
     (sample_arguments\<lparr>ParsedKeywords := [''CAPTURE_CMAKE_ERROR''], CaptureCMakeError := ''ERR''\<rparr>,
      [''BOGUS'']) \<and>
   fst (InitialPass sample_collaborators sample_Parse (InitializeHandler sample_build_collaborators)
          (ProcessAdditionalValues sample_collaborators) [''CAPTURE_CMAKE_ERROR'', ''ERR'', ''BOGUS'']
          sample_script_state) \<and>
   ErrorOccurred (snd (InitialPass sample_collaborators sample_Parse
          (InitializeHandler sample_build_collaborators)
          (ProcessAdditionalValues sample_collaborators) [''CAPTURE_CMAKE_ERROR'', ''ERR'', ''BOGUS'']
          sample_script_state)) \<and>
   Definitions (snd (InitialPass sample_collaborators sample_Parse
          (InitializeHandler sample_build_collaborators)
          (ProcessAdditionalValues sample_collaborators) [''CAPTURE_CMAKE_ERROR'', ''ERR'', ''BOGUS'']
          sample_script_state)) ''ERR'' = Some ''-1'' \<and>
   GetSafeDefinition sample_configured_state ''CTEST_BINARY_DIRECTORY'' = [] \<and>
   fst (InitialPass sample_collaborators sample_Parse (InitializeHandler sample_build_collaborators)
          (ProcessAdditionalValues sample_collaborators) [''CAPTURE_CMAKE_ERROR'', ''ERR'']
          sample_configured_state) \<and>
   \<not> ErrorOccurred (snd (InitialPass sample_collaborators sample_Parse
          (InitializeHandler sample_build_collaborators)
          (ProcessAdditionalValues sample_collaborators) [''CAPTURE_CMAKE_ERROR'', ''ERR'']
          sample_configured_state)) \<and>
   Definitions (snd (InitialPass sample_collaborators sample_Parse
          (InitializeHandler sample_build_collaborators)
          (ProcessAdditionalValues sample_collaborators) [''CAPTURE_CMAKE_ERROR'', ''ERR'']
          sample_configured_state)) ''ERR'' = Some ''-1'' \<and>
   sample_Parse [] = (sample_arguments, []) \<and>
   fst (InitialPass sample_collaborators sample_Parse (InitializeHandler sample_build_collaborators)
          (ProcessAdditionalValues sample_collaborators) [] sample_configured_state) \<and>
   ErrorOccurred (snd (InitialPass sample_collaborators sample_Parse
          (InitializeHandler sample_build_collaborators)
          (ProcessAdditionalValues sample_collaborators) [] sample_configured_state))"
proof -
  let ?args = "sample_arguments\<lparr>ParsedKeywords := [''CAPTURE_CMAKE_ERROR''], CaptureCMakeError := ''ERR''\<rparr>"
  let ?c = sample_collaborators
  let ?init = "InitializeHandler sample_build_collaborators"
  let ?pav = "ProcessAdditionalValues sample_collaborators"
  have parse: "sample_Parse [''CAPTURE_CMAKE_ERROR'', ''ERR''] = (?args, [])"
    by (simp add: sample_Parse_def sample_arguments_def)
  have parse2: "sample_Parse [''CAPTURE_CMAKE_ERROR'', ''ERR'', ''BOGUS''] = (?args, [''BOGUS''])"
    by (simp add: sample_Parse_def sample_arguments_def)
  have parse3: "sample_Parse [] = (sample_arguments, [])"
    by (simp add: sample_Parse_def)
  have cap: "CaptureCMakeError ?args = ''ERR''" "ParsedKeywords ?args = [''CAPTURE_CMAKE_ERROR'']"
    "Build ?args = []" "CaptureCMakeError sample_arguments = []"
    "ParsedKeywords sample_arguments = []" "Build sample_arguments = []"
    by (simp_all add: sample_arguments_def)
  have en: "ErrorOccurred sample_script_state" "\<not> ErrorOccurred sample_configured_state"
    by (simp_all add: sample_script_state_def sample_configured_state_def sample_state_def)
  have dir: "GetSafeDefinition sample_script_state ''CTEST_BINARY_DIRECTORY'' = ''/build''"
    "GetSafeDefinition sample_configured_state ''CTEST_BINARY_DIRECTORY'' = []"
    by (simp_all add: GetSafeDefinition_def sample_script_state_def sample_configured_state_def
        sample_state_def)
  have cmd: "Definitions sample_script_state ''CTEST_BUILD_COMMAND'' = Some ''make''"
    "Definitions sample_configured_state ''CTEST_BUILD_COMMAND'' = Some ''make''"
    by (simp_all add: sample_script_state_def sample_configured_state_def sample_state_def)
  have cfg: "CTestConfiguration sample_configured_state ''BuildDirectory'' = ''/previous''"
    by (simp add: sample_configured_state_def sample_state_def previous_configuration_def)
  have keeps: "\<And>a. ((\<forall>v. ErrorOccurred v \<longrightarrow> ErrorOccurred (snd (?init a v))) \<and>
      (\<forall>h v. ErrorOccurred v \<longrightarrow> ErrorOccurred (?pav h a v))) = True"
    by (simp add: InitializeHandler_flag_kept ProcessAdditionalValues_simps)
  have quiet: "\<And>a. (\<forall>h v. ErrorOccurred (?pav h a v) \<longrightarrow> ErrorOccurred v) = True"
    by (simp add: ProcessAdditionalValues_simps)
  have c: "CollapseFullPath ?c = id" "cmWorkingDirectory ?c ''/build'' = None"
    "cmWorkingDirectory ?c ''/previous'' = None"
    "\<And>h v. \<not> snd (snd (ProcessHandler ?c h v))"
    by (simp_all add: sample_collaborators_def sample_workdir_def sample_ProcessHandler_def)
  note hook = InitializeHandler_build_command [where command = "''make''" and b = sample_build_collaborators]
  note facts = entry_simps StateAtInitialize_simps StateAfterParse_simps
    StateAtInitialize_BuildDirectory GetCTestConfiguration_def
  note first = capture_contract [where parser = sample_Parse
      and arguments = "[''CAPTURE_CMAKE_ERROR'', ''ERR'']"
      and args = ?args and unparsed = "[]" and c = ?c and init = ?init and pav = ?pav
      and w = sample_script_state, OF parse, unfolded Let_def cap keeps quiet]
  note second = capture_contract [where parser = sample_Parse
      and arguments = "[''CAPTURE_CMAKE_ERROR'', ''ERR'', ''BOGUS'']"
      and args = ?args and unparsed = "[''BOGUS'']" and c = ?c and init = ?init and pav = ?pav
      and w = sample_script_state, OF parse2, unfolded Let_def cap keeps quiet]
  note third = capture_contract [where parser = sample_Parse
      and arguments = "[''CAPTURE_CMAKE_ERROR'', ''ERR'']"
      and args = ?args and unparsed = "[]" and c = ?c and init = ?init and pav = ?pav
      and w = sample_configured_state, OF parse, unfolded Let_def cap keeps quiet]
  note fourth = capture_contract [where parser = sample_Parse and arguments = "[]"
      and args = sample_arguments and unparsed = "[]" and c = ?c and init = ?init and pav = ?pav
      and w = sample_configured_state, OF parse3, unfolded Let_def cap keeps quiet]
  let ?P = "\<lambda>args w. StateAtInitialize ?c args
      (StateAfterParse (ParsedKeywords args) [] (ResetErrorOccurredFlag w))"
  have h1: "fst (?init ?args (?P ?args sample_script_state)) \<noteq> None"
       "\<not> ErrorOccurred (snd (?init ?args (?P ?args sample_script_state)))"
       "cmWorkingDirectory ?c (GetCTestConfiguration
           (snd (?init ?args (?P ?args sample_script_state))) ''BuildDirectory'') = None"
    by (simp_all add: hook facts cap cmd dir c)
  have h3: "fst (?init ?args (?P ?args sample_configured_state)) \<noteq> None"
       "cmWorkingDirectory ?c (GetCTestConfiguration
           (snd (?init ?args (?P ?args sample_configured_state))) ''BuildDirectory'') = None"
    by (simp_all add: hook facts cap cmd dir c cfg)
  have h4: "fst (?init sample_arguments (?P sample_arguments sample_configured_state)) \<noteq> None"
       "cmWorkingDirectory ?c (GetCTestConfiguration
           (snd (?init sample_arguments (?P sample_arguments sample_configured_state)))
           ''BuildDirectory'') = None"
    by (simp_all add: hook facts cap cmd dir c cfg)
  have a: "fst (InitialPass ?c sample_Parse ?init ?pav [''CAPTURE_CMAKE_ERROR'', ''ERR'']
             sample_script_state) \<and>
     ErrorOccurred (snd (InitialPass ?c sample_Parse ?init ?pav [''CAPTURE_CMAKE_ERROR'', ''ERR'']
             sample_script_state)) \<and>
     Definitions (snd (InitialPass ?c sample_Parse ?init ?pav [''CAPTURE_CMAKE_ERROR'', ''ERR'']
             sample_script_state)) ''ERR'' = Some ''0''"
    using first h1 [unfolded cap] en c(4) by (auto split: option.splits)
  have b: "fst (InitialPass ?c sample_Parse ?init ?pav [''CAPTURE_CMAKE_ERROR'', ''ERR'', ''BOGUS'']
             sample_script_state) \<and>
     ErrorOccurred (snd (InitialPass ?c sample_Parse ?init ?pav
             [''CAPTURE_CMAKE_ERROR'', ''ERR'', ''BOGUS''] sample_script_state)) \<and>
     Definitions (snd (InitialPass ?c sample_Parse ?init ?pav
             [''CAPTURE_CMAKE_ERROR'', ''ERR'', ''BOGUS''] sample_script_state)) ''ERR'' = Some ''-1''"
    using second en by auto
  have c3: "fst (InitialPass ?c sample_Parse ?init ?pav [''CAPTURE_CMAKE_ERROR'', ''ERR'']
             sample_configured_state) \<and>
     \<not> ErrorOccurred (snd (InitialPass ?c sample_Parse ?init ?pav [''CAPTURE_CMAKE_ERROR'', ''ERR'']
             sample_configured_state)) \<and>
     Definitions (snd (InitialPass ?c sample_Parse ?init ?pav [''CAPTURE_CMAKE_ERROR'', ''ERR'']
             sample_configured_state)) ''ERR'' = Some ''-1''"
    using third dir(2) en(2) by auto
  have d: "fst (InitialPass ?c sample_Parse ?init ?pav [] sample_configured_state) \<and>
     ErrorOccurred (snd (InitialPass ?c sample_Parse ?init ?pav [] sample_configured_state))"
    using fourth h4 [unfolded cap] dir(2) by auto
  show ?thesis using parse parse2 parse3 dir(2) a b c3 d by simp
qed

text \<open>
  The claim as it was written fails for a command without capture variable: the build
  command given an unknown argument returns failure with the error text set, yet the
  flag, clear on entry, is not set on return.
\<close>

theorem no_capture_failure_counterexample:
  \<open>\<not> fst (cmCTestBuildCommand_InitialPass sample_collaborators sample_build_collaborators
            sample_Parse [''BOGUS''] sample_state) \<and>
   StatusError (snd (cmCTestBuildCommand_InitialPass sample_collaborators
            sample_build_collaborators sample_Parse [''BOGUS''] sample_state)) =
     ''called with unknown argument "BOGUS".'' \<and>
   \<not> ErrorOccurred (snd (cmCTestBuildCommand_InitialPass sample_collaborators
            sample_build_collaborators sample_Parse [''BOGUS''] sample_state))\<close>
  by (simp add: cmCTestBuildCommand_InitialPass_def InitialPass_def InitialPass_body_def
      sample_defs RunHandler_def SaveRestoreErrorState_ctor_def StateAfterParse_def
      CheckDuplicateKeywords_def UnknownArgument_def dtor_simps state_defs Let_def)

subsection \<open>The build command without a project\<close>

text \<open>
  Claim C8. When neither CTEST_BUILD_COMMAND nor CTEST_CMAKE_GENERATOR is set to a
  non-empty value, the handler initialisation of the build command returns no handler
  and leaves the error text that starts with "has no project to build"; the build
  command returns failure without a capture variable, and returns success with the
  capture variable set to "-1" with one. When all arguments were parsed, the command
  returns at the statement for an absent handler, with that error text, and under
  capture the diagnostic is the last message logged.
\<close>

theorem no_project_to_build:
  assumes cmd: "\<not> cmNonempty (Definitions w ''CTEST_BUILD_COMMAND'')"
      and gen: "\<not> cmNonempty (Definitions w ''CTEST_CMAKE_GENERATOR'')"
      and parse: "parser arguments = (args, unparsed)"
  shows
   "fst (InitializeHandler b args w) = None \<and>
    StatusError (snd (InitializeHandler b args w)) = no_project_message \<and>
    prefix ''has no project to build'' no_project_message \<and>
    (let R = cmCTestBuildCommand_InitialPass c b parser arguments w;
         V = CaptureCMakeError args
     in (V = [] \<longrightarrow> \<not> fst R) \<and>
        (V \<noteq> [] \<longrightarrow> fst R \<and> Definitions (snd R) V = Some ''-1'') \<and>
        (unparsed = [] \<longrightarrow>
           ExitTaken c parser (InitializeHandler b) (ProcessAdditionalValues c) arguments w = NoHandler \<and>
           StatusError (snd R) = no_project_message) \<and>
        (unparsed = [] \<and> V \<noteq> [] \<longrightarrow>
           last (Messages (snd R)) =
             (ERROR_MESSAGE, no_project_message @ '' error from command\<newline>'')))"
proof -
  let ?w2 = "StateAfterParse (ParsedKeywords args) unparsed (ResetErrorOccurredFlag w)"
  let ?V = "CaptureCMakeError args"
  let ?P1 = "StateAtInitialize c args ?w2"
  have d: "Definitions ?P1 = Definitions w"
    by (simp add: StateAtInitialize_simps entry_simps)
  have iv: "InitializeHandler b args ?P1 = (None, SetError no_project_message ?P1)"
    by (rule InitializeHandler_no_project) (simp_all only: d cmd gen not_False_eq_True)
  have init: "fst (InitializeHandler b args w) = None \<and>
    StatusError (snd (InitializeHandler b args w)) = no_project_message"
    by (simp add: InitializeHandler_no_project [OF cmd gen] SetError_def)
  show ?thesis
  proof (cases "unparsed = []")
    case True
    then have nb: "\<not> unparsed \<noteq> []" by simp
    note run = RunHandler_NoHandler [where bad = "unparsed \<noteq> []" and c = c
        and init = "InitializeHandler b" and pav = "ProcessAdditionalValues c" and args = args
        and capture = "?V \<noteq> []" and w = ?w2, OF nb iv]
    note parts = InitialPass_parts [where parser = parser and arguments = arguments and args = args
        and unparsed = unparsed and c = c and init = "InitializeHandler b"
        and pav = "ProcessAdditionalValues c" and w = w, OF parse run]
    show ?thesis
      unfolding Let_def cmCTestBuildCommand_InitialPass_def parts fst_conv snd_conv
      using init no_project_message_prefix no_project_message_not_unknown True
      by (simp add: dtor_simps CaptureFailure_simps cmCTestLog_simps SetError_def GetError_def)
  next
    case False
    note run = RunHandler_bad [where bad = "unparsed \<noteq> []" and c = c
        and init = "InitializeHandler b" and pav = "ProcessAdditionalValues c" and args = args
        and capture = "?V \<noteq> []" and w = ?w2, OF False]
    note parts = InitialPass_parts [where parser = parser and arguments = arguments and args = args
        and unparsed = unparsed and c = c and init = "InitializeHandler b"
        and pav = "ProcessAdditionalValues c" and w = w, OF parse run]
    show ?thesis
      unfolding Let_def cmCTestBuildCommand_InitialPass_def parts fst_conv snd_conv
      using init no_project_message_prefix False
      by (simp add: dtor_simps CaptureFailure_simps)
  qed
qed

theorem no_project_to_build_witness:
  "\<not> cmNonempty (Definitions sample_state ''CTEST_BUILD_COMMAND'') \<and>
   \<not> cmNonempty (Definitions sample_state ''CTEST_CMAKE_GENERATOR'') \<and>
   sample_Parse [] = (sample_arguments, []) \<and>
   \<not> fst (cmCTestBuildCommand_InitialPass sample_collaborators sample_build_collaborators
            sample_Parse [] sample_state) \<and>
   StatusError (snd (cmCTestBuildCommand_InitialPass sample_collaborators
            sample_build_collaborators sample_Parse [] sample_state)) = no_project_message"
proof -
  have cmd: "\<not> cmNonempty (Definitions sample_state ''CTEST_BUILD_COMMAND'')"
    and gen: "\<not> cmNonempty (Definitions sample_state ''CTEST_CMAKE_GENERATOR'')"
    by (simp_all add: cmNonempty_def sample_state_def)
  have parse: "sample_Parse [] = (sample_arguments, [])"
    by (simp add: sample_Parse_def)
  have cap: "CaptureCMakeError sample_arguments = []"
    by (simp add: sample_arguments_def)
  from no_project_to_build [where w = sample_state and parser = sample_Parse
      and arguments = "[]" and args = sample_arguments and unparsed = "[]"
      and b = sample_build_collaborators and c = sample_collaborators, OF cmd gen parse]
  show ?thesis
    unfolding Let_def cap using cmd gen parse by simp
qed

subsection \<open>The fallback chains of the build command\<close>

lemma chain_refines:
  "cmakeBuildTarget args v = spec_explicit_over_variable (Target args) (Definitions v ''CTEST_BUILD_TARGET'')"
  "cmakeBuildAdditionalFlags args v = spec_explicit_over_variable (Flags args) (Definitions v ''CTEST_BUILD_FLAGS'')"
  "(if cmakeBuildConfiguration args v = [] then ''Release'' else cmakeBuildConfiguration args v) =
     spec_configuration (Configuration args) (Definitions v ''CTEST_BUILD_CONFIGURATION'') None (ConfigType v)"
  by (simp_all add: cmakeBuildTarget_def cmakeBuildAdditionalFlags_def cmakeBuildConfiguration_def
      spec_explicit_over_variable_def spec_configuration_def state_defs cmNonempty_def deref_def
      Let_def split: option.splits)

lemma spec_configuration_seed:
  "spec_configuration e v None (case s of Some t \<Rightarrow> t | None \<Rightarrow> l) = spec_configuration e v s l"
  by (simp add: spec_configuration_def split: option.splits)

text \<open>
  Claim C7. When the build command has to generate the build command line (no
  CTEST_BUILD_COMMAND, a generator named by CTEST_CMAKE_GENERATOR that can be created)
  and all arguments were parsed, the MakeCommand it configures is the generator's
  command line for: the target, which is the TARGET argument if non-empty and else
  CTEST_BUILD_TARGET; the configuration, which is the CONFIGURATION argument if
  non-empty, else CTEST_BUILD_CONFIGURATION if non-empty, else the configuration type of
  ctest (CTEST_CONFIGURATION_TYPE when defined, else the value from the command line)
  if non-empty, else Release; and the flags, which are the FLAGS argument if non-empty
  and else CTEST_BUILD_FLAGS.
\<close>

theorem build_configuration_chain:
  assumes parse: "parser arguments = (args, [])"
      and cmd: "\<not> cmNonempty (Definitions w ''CTEST_BUILD_COMMAND'')"
      and gen: "Definitions w ''CTEST_CMAKE_GENERATOR'' = Some g" "g \<noteq> []"
      and create: "CreateGlobalGenerator b g = Some generator"
  shows
   "CTestConfiguration (snd (cmCTestBuildCommand_InitialPass c b parser arguments w)) ''MakeCommand'' =
      generator
        (spec_explicit_over_variable (Target args) (Definitions w ''CTEST_BUILD_TARGET''))
        (spec_configuration (Configuration args) (Definitions w ''CTEST_BUILD_CONFIGURATION'')
           (Definitions w ''CTEST_CONFIGURATION_TYPE'') (ConfigType w))
        (ParallelLevel args)
        (spec_explicit_over_variable (Flags args) (Definitions w ''CTEST_BUILD_FLAGS''))
        (IgnoreErrorsCMP0061 b)"
proof -
  let ?w2 = "StateAfterParse (ParsedKeywords args) [] (ResetErrorOccurredFlag w)"
  let ?V = "CaptureCMakeError args"
  define v0 where "v0 = StateAtInitialize c args ?w2"
  have dv: "Definitions v0 = Definitions w"
    and cv: "ConfigType v0 =
       (case Definitions w ''CTEST_CONFIGURATION_TYPE'' of Some t \<Rightarrow> t | None \<Rightarrow> ConfigType w)"
    by (simp_all add: v0_def StateAtInitialize_simps StateAfterParse_simps entry_simps
        split: option.splits)
  obtain exit result w1 where
    run: "RunHandler c (InitializeHandler b) (ProcessAdditionalValues c) args (([]::string list) \<noteq> [])
            (?V \<noteq> []) ?w2 = (exit, result, w1)"
    by (cases "RunHandler c (InitializeHandler b) (ProcessAdditionalValues c) args (([]::string list) \<noteq> [])
            (?V \<noteq> []) ?w2")
  note parts = InitialPass_parts [where parser = parser and arguments = arguments and args = args
      and unparsed = "[]" and c = c and init = "InitializeHandler b"
      and pav = "ProcessAdditionalValues c" and w = w, OF parse run]
  obtain h v1 where iv: "InitializeHandler b args v0 = (Some h, v1)"
    using InitializeHandler_generated(1) [of v0 g b generator args] cmd gen create
    by (cases "InitializeHandler b args v0") (simp add: dv)
  have mk: "CTestConfiguration v1 ''MakeCommand'' =
      generator (cmakeBuildTarget args v0)
        (if cmakeBuildConfiguration args v0 = [] then ''Release'' else cmakeBuildConfiguration args v0)
        (ParallelLevel args) (cmakeBuildAdditionalFlags args v0) (IgnoreErrorsCMP0061 b)"
    using InitializeHandler_generated(2) [of v0 g b generator args] cmd gen create iv
    by (simp add: dv)
  have "CTestConfiguration w1 = CTestConfiguration v1"
    using RunHandler_configuration [where init = "InitializeHandler b"
        and pav = "ProcessAdditionalValues c", OF run [simplified] iv [unfolded v0_def]]
    by (simp add: ProcessAdditionalValues_simps)
  then show ?thesis
    by (simp add: cmCTestBuildCommand_InitialPass_def parts dtor_simps mk
        chain_refines dv cv spec_configuration_seed)
qed

theorem build_configuration_chain_witness:
  "sample_Parse [''TARGET'', ''all''] =
     (sample_arguments\<lparr>ParsedKeywords := [''TARGET''], Target := ''all''\<rparr>, []) \<and>
   Definitions sample_generator_state ''CTEST_CMAKE_GENERATOR'' = Some ''Ninja'' \<and>
   CreateGlobalGenerator sample_build_collaborators ''Ninja'' = Some sample_generator \<and>
   CTestConfiguration (snd (cmCTestBuildCommand_InitialPass sample_collaborators
       sample_build_collaborators sample_Parse [''TARGET'', ''all''] sample_generator_state))
     ''MakeCommand'' = ''cmake --build . --target all --config Release -- -k''"
proof -
  let ?args = "sample_arguments\<lparr>ParsedKeywords := [''TARGET''], Target := ''all''\<rparr>"
  have parse: "sample_Parse [''TARGET'', ''all''] = (?args, [])"
    by (simp add: sample_Parse_def sample_arguments_def)
  have cmd: "\<not> cmNonempty (Definitions sample_generator_state ''CTEST_BUILD_COMMAND'')"
    by (simp add: cmNonempty_def sample_generator_state_def sample_state_def)
  have gen: "Definitions sample_generator_state ''CTEST_CMAKE_GENERATOR'' = Some ''Ninja''"
    by (simp add: sample_generator_state_def sample_state_def)
  have ne: "''Ninja'' \<noteq> []" by simp
  have create: "CreateGlobalGenerator sample_build_collaborators ''Ninja'' = Some sample_generator"
    by (simp add: sample_build_collaborators_def sample_CreateGlobalGenerator_def)
  from build_configuration_chain [where parser = sample_Parse and arguments = "[''TARGET'', ''all'']"
      and args = ?args and w = sample_generator_state and g = "''Ninja''"
      and b = sample_build_collaborators and generator = sample_generator
      and c = sample_collaborators, OF parse cmd gen ne create]
  show ?thesis
    using parse gen create
    by (simp add: sample_generator_def spec_configuration_def spec_explicit_over_variable_def
        sample_generator_state_def sample_state_def sample_arguments_def)
qed

section \<open>Properties of the export command\<close>

lemmas sample_export_defs =
  sample_env_def sample_export_Parse_def sample_export_step_def sample_export_arguments_def
  sample_packageDependencyParser_def sample_group_step_def sample_targetParser_def
  sample_cmIsOff_def sample_cmIsOn_def sample_extension_def sample_FileIsFullPath_def
  sample_CanIWriteThisFile_def sample_IsAlias_def sample_FindTarget_def sample_AppendTargets_def
  sample_IsOn_def sample_HashString_def sample_unix_def sample_win32_def sample_no_error_def
  sample_no_error2_def sample_CanCreateFile_def sample_FormatMessageW_def sample_export_state_def

subsection \<open>The package name\<close>

lemma space_not_packageChar: "\<not> packageChar CHR '' ''"
  by (simp add: packageChar_def less_eq_char_def)

lemma packageRegex_find_iff:
  "packageRegex_find name = (name \<noteq> [] \<and> (\<forall>ch \<in> set name. packageChar ch))"
  by (simp add: packageRegex_find_def list_all_iff)

text \<open>
  Claim C6. export(PACKAGE name) checks the name first. An empty name fails with
  exactly "PACKAGE must be given a package name."; a non-empty name that does not match
  the expression fails with the message that quotes the name and the expression; either
  way the command returns failure and neither the files nor the registry change. A name
  matches exactly when it is not empty and made of letters, digits, underscore, dot and
  hyphen, so a name with a space in it does not.
\<close>

theorem package_name_validated:
  "cmExportCommand e r [''PACKAGE'', []] s =
     (False, SetError ''PACKAGE must be given a package name.'' s) \<and>
   (name \<noteq> [] \<and> \<not> packageRegex_find name \<longrightarrow>
      cmExportCommand e r [''PACKAGE'', name] s =
        (False, SetError (''PACKAGE given invalid package name '' @ [CHR 0x22] @ name @ [CHR 0x22] @
                          ''.  Package names must match '' @ [CHR 0x22] @ ''^[A-Za-z0-9_.-]+$'' @
                          [CHR 0x22] @ ''.'') s)) \<and>
   (\<not> packageRegex_find name \<longrightarrow>
      \<not> fst (cmExportCommand e r [''PACKAGE'', name] s) \<and>
      Files (snd (cmExportCommand e r [''PACKAGE'', name] s)) = Files s \<and>
      Registry (snd (cmExportCommand e r [''PACKAGE'', name] s)) = Registry s) \<and>
   (CHR '' '' \<in> set name \<longrightarrow> \<not> packageRegex_find name) \<and>
   packageRegex_find name = (name \<noteq> [] \<and> (\<forall>ch \<in> set name. packageChar ch))"
proof -
  have 1: "cmExportCommand e r [''PACKAGE'', []] s =
     (False, SetError ''PACKAGE must be given a package name.'' s)"
    by (simp add: cmExportCommand_def HandlePackage_def)
  have 2: "name \<noteq> [] \<and> \<not> packageRegex_find name \<longrightarrow>
      cmExportCommand e r [''PACKAGE'', name] s =
        (False, SetError (''PACKAGE given invalid package name '' @ [CHR 0x22] @ name @ [CHR 0x22] @
                          ''.  Package names must match '' @ [CHR 0x22] @ ''^[A-Za-z0-9_.-]+$'' @
                          [CHR 0x22] @ ''.'') s)"
    by (simp add: cmExportCommand_def HandlePackage_def packageExpr_def)
  have 3: "\<not> packageRegex_find name \<longrightarrow>
      \<not> fst (cmExportCommand e r [''PACKAGE'', name] s) \<and>
      Files (snd (cmExportCommand e r [''PACKAGE'', name] s)) = Files s \<and>
      Registry (snd (cmExportCommand e r [''PACKAGE'', name] s)) = Registry s"
    by (simp add: cmExportCommand_def HandlePackage_def SetError_def)
  have 4: "CHR '' '' \<in> set name \<longrightarrow> \<not> packageRegex_find name"
    using space_not_packageChar by (auto simp add: packageRegex_find_iff)
  show ?thesis using 1 2 3 4 packageRegex_find_iff by blast
qed

theorem package_name_validated_witness:
  \<open>\<not> packageRegex_find ''Foo Bar'' \<and>
   cmExportCommand sample_env sample_unix [''PACKAGE'', ''Foo Bar''] sample_export_state =
     (False,
      SetError ''PACKAGE given invalid package name "Foo Bar".  Package names must match "^[A-Za-z0-9_.-]+$".''
        sample_export_state)\<close>
proof -
  have sp: "CHR '' '' \<in> set ''Foo Bar''" by simp
  from package_name_validated [where name = "''Foo Bar''" and e = sample_env and r = sample_unix
      and s = sample_export_state] sp
  show ?thesis by simp
qed

subsection \<open>The policy gate of the package registry\<close>

text \<open>
  Claim C3. For export(PACKAGE name) with a valid name the command returns success in
  every case. When CMP0090 is OLD or WARN, nothing is stored if
  CMAKE_EXPORT_NO_PACKAGE_REGISTRY is on, and otherwise the build directory is stored
  under its digest; when CMP0090 is NEW, nothing is stored unless
  CMAKE_EXPORT_PACKAGE_REGISTRY is on, in which case it is stored.
\<close>

theorem package_registry_gate:
  assumes valid: "packageRegex_find name"
  shows
   "fst (cmExportCommand e r [''PACKAGE'', name] s) \<and>
    ((CMP0090 e = OLD \<or> CMP0090 e = WARN) \<and> IsOn e ''CMAKE_EXPORT_NO_PACKAGE_REGISTRY'' \<longrightarrow>
       cmExportCommand e r [''PACKAGE'', name] s = (True, s)) \<and>
    ((CMP0090 e = OLD \<or> CMP0090 e = WARN) \<and> \<not> IsOn e ''CMAKE_EXPORT_NO_PACKAGE_REGISTRY'' \<longrightarrow>
       cmExportCommand e r [''PACKAGE'', name] s =
         (True, StorePackageRegistry r name (GetCurrentBinaryDirectory e)
                  (HashString e (GetCurrentBinaryDirectory e)) s)) \<and>
    (CMP0090 e = NEW \<and> \<not> IsOn e ''CMAKE_EXPORT_PACKAGE_REGISTRY'' \<longrightarrow>
       cmExportCommand e r [''PACKAGE'', name] s = (True, s)) \<and>
    (CMP0090 e = NEW \<and> IsOn e ''CMAKE_EXPORT_PACKAGE_REGISTRY'' \<longrightarrow>
       cmExportCommand e r [''PACKAGE'', name] s =
         (True, StorePackageRegistry r name (GetCurrentBinaryDirectory e)
                  (HashString e (GetCurrentBinaryDirectory e)) s))"
proof -
  from valid have "name \<noteq> []" by (simp add: packageRegex_find_def)
  with valid show ?thesis
    by (cases "CMP0090 e") (simp_all add: cmExportCommand_def HandlePackage_def Let_def)
qed

lemma sample_Foo_valid: "packageRegex_find ''Foo''"
  by (simp add: packageRegex_find_def packageChar_def less_eq_char_def)

theorem package_registry_gate_witness:
  "packageRegex_find ''Foo'' \<and> CMP0090 sample_env = OLD \<and>
   \<not> IsOn sample_env ''CMAKE_EXPORT_NO_PACKAGE_REGISTRY'' \<and>
   cmExportCommand sample_env sample_unix [''PACKAGE'', ''Foo''] sample_export_state =
     (True, StorePackageRegistry sample_unix ''Foo'' ''/build'' ''d41d8cd9'' sample_export_state)"
  using package_registry_gate [OF sample_Foo_valid, of sample_env sample_unix sample_export_state]
    sample_Foo_valid
  by (simp add: sample_env_def sample_IsOn_def sample_HashString_def)

subsection \<open>The targets of the TARGETS form\<close>

lemma CollectTargets_pass:
  "\<forall>n \<in> set names. CheckTarget e n = None \<Longrightarrow>
   CollectTargets e names targets = Inr (targets @ map (\<lambda>n. (n, [])) names)"
  by (induction names arbitrary: targets) simp_all

lemma CollectTargets_fail:
  "\<forall>n \<in> set before. CheckTarget e n = None \<Longrightarrow> CheckTarget e name = Some err \<Longrightarrow>
   CollectTargets e (before @ name # rest) targets = Inl err"
  by (induction before arbitrary: targets) simp_all

lemma CheckTarget_cases:
  "IsAlias e name \<Longrightarrow>
     CheckTarget e name =
       Some (''given ALIAS target '' @ [CHR 0x22] @ name @ [CHR 0x22] @ '' which may not be exported.'')"
  "\<not> IsAlias e name \<Longrightarrow> FindTarget e name = Some UTILITY \<Longrightarrow>
     CheckTarget e name =
       Some (''given custom target '' @ [CHR 0x22] @ name @ [CHR 0x22] @ '' which may not be exported.'')"
  "\<not> IsAlias e name \<Longrightarrow> FindTarget e name = None \<Longrightarrow>
     CheckTarget e name =
       Some (''given target '' @ [CHR 0x22] @ name @ [CHR 0x22] @ '' which is not built by this project.'')"
  "\<not> IsAlias e name \<Longrightarrow> FindTarget e name = Some t \<Longrightarrow> t \<noteq> UTILITY \<Longrightarrow>
     CheckTarget e name = None"
  by (simp_all add: CheckTarget_def)

lemma cmExportCommand_targets:
  assumes len: "2 \<le> length args"
      and mode: "hd args \<noteq> ''PACKAGE''" "hd args \<noteq> ''SETUP''" "hd args \<noteq> ''EXPORT''"
      and parse: "Parse e args = (arguments, [])"
      and names: "Targets arguments = Some names"
      and fname: "ResolveExportFile e (hd args) arguments = Inr (fname, android)"
  shows "cmExportCommand e r args s =
     (case CollectTargets e names [] of
        Inl err \<Rightarrow> (False, SetError err s)
      | Inr targets \<Rightarrow>
          (case (if ArgAppend arguments then GetExportedTargetsFile s fname else None) of
             Some ebfg \<Rightarrow>
               (if ebfg < length (Generators s) then
                  (True, s\<lparr>Generators := (Generators s)[ebfg := AppendTargets e targets (Generators s ! ebfg)]\<rparr>)
                else (True, s))
           | None \<Rightarrow>
               (case CheckAlreadyExported e arguments fname s of
                  Inl failed \<Rightarrow> (False, failed)
                | Inr s1 \<Rightarrow> SetupGenerator e arguments fname android None targets s1)))"
  using assms
  by (simp add: cmExportCommand_def ExportToFile_def Let_def split: sum.splits option.splits)

lemma sample_targets_parse:
  "Parse sample_env [''TARGETS'', ''mylib'', ''FILE'', ''out.cmake''] =
     (sample_export_arguments\<lparr>Targets := Some [''mylib''], Filename := ''out.cmake''\<rparr>, [])"
  by (simp add: sample_export_defs)

lemma sample_targets_file:
  "ResolveExportFile sample_env ''TARGETS''
     (sample_export_arguments\<lparr>Targets := Some names, Filename := ''out.cmake''\<rparr>) =
     Inr (''/build/out.cmake'', False)"
  by (simp add: ResolveExportFile_def FileToWrite_def sample_export_defs Let_def)

lemma sample_CheckTarget:
  "CheckTarget sample_env ''mylib'' = None"
  \<open>CheckTarget sample_env ''myalias'' =
     Some ''given ALIAS target "myalias" which may not be exported.''\<close>
  by (simp_all add: CheckTarget_def sample_export_defs)

text \<open>
  Claim C5. In the TARGETS form, once the arguments are parsed and the file is
  resolved, the names are checked in order and the command fails with the error of the
  first name that does not pass: "given ALIAS target ... which may not be exported." for
  an alias, "given custom target ... which may not be exported." for a utility target,
  and "given target ... which is not built by this project." for a name that no target
  has. Names of other targets pass, and when all names pass (no APPEND, file not bound
  yet) the new generator carries exactly the names given, in order.
\<close>

theorem targets_checked:
  assumes len: "2 \<le> length args"
      and mode: "hd args \<noteq> ''PACKAGE''" "hd args \<noteq> ''SETUP''" "hd args \<noteq> ''EXPORT''"
      and parse: "Parse e args = (arguments, [])"
      and names: "Targets arguments = Some names"
      and fname: "ResolveExportFile e (hd args) arguments = Inr (fname, android)"
  shows
   "(\<forall>before name rest err.
       names = before @ name # rest \<and> (\<forall>n \<in> set before. CheckTarget e n = None) \<and>
       CheckTarget e name = Some err \<longrightarrow>
         cmExportCommand e r args s = (False, SetError err s)) \<and>
    (\<forall>name. IsAlias e name \<longrightarrow>
       CheckTarget e name =
         Some (''given ALIAS target '' @ [CHR 0x22] @ name @ [CHR 0x22] @
               '' which may not be exported.'')) \<and>
    (\<forall>name. \<not> IsAlias e name \<and> FindTarget e name = Some UTILITY \<longrightarrow>
       CheckTarget e name =
         Some (''given custom target '' @ [CHR 0x22] @ name @ [CHR 0x22] @
               '' which may not be exported.'')) \<and>
    (\<forall>name. \<not> IsAlias e name \<and> FindTarget e name = None \<longrightarrow>
       CheckTarget e name =
         Some (''given target '' @ [CHR 0x22] @ name @ [CHR 0x22] @
               '' which is not built by this project.'')) \<and>
    (\<forall>name t. \<not> IsAlias e name \<and> FindTarget e name = Some t \<and> t \<noteq> UTILITY \<longrightarrow>
       CheckTarget e name = None) \<and>
    ((\<forall>n \<in> set names. CheckTarget e n = None) \<and> \<not> ArgAppend arguments \<and>
     GetExportedTargetsFile s fname = None \<longrightarrow>
       fst (cmExportCommand e r args s) \<and>
       GenTargets (last (Generators (snd (cmExportCommand e r args s)))) =
         map (\<lambda>n. (n, [])) names \<and>
       BuildExportSets (snd (cmExportCommand e r args s)) fname = Some (length (Generators s)))"
proof -
  note cmd = cmExportCommand_targets [OF len mode parse names fname, of r s]
  have 1: "\<forall>before name rest err.
       names = before @ name # rest \<and> (\<forall>n \<in> set before. CheckTarget e n = None) \<and>
       CheckTarget e name = Some err \<longrightarrow>
         cmExportCommand e r args s = (False, SetError err s)"
    by (auto simp add: cmd CollectTargets_fail)
  have 6: "(\<forall>n \<in> set names. CheckTarget e n = None) \<and> \<not> ArgAppend arguments \<and>
     GetExportedTargetsFile s fname = None \<longrightarrow>
       fst (cmExportCommand e r args s) \<and>
       GenTargets (last (Generators (snd (cmExportCommand e r args s)))) =
         map (\<lambda>n. (n, [])) names \<and>
       BuildExportSets (snd (cmExportCommand e r args s)) fname = Some (length (Generators s))"
    by (auto simp add: cmd CollectTargets_pass CheckAlreadyExported_def SetupGenerator_def
        AddBuildExportSet_def Let_def)
  show ?thesis
    using 1 6 CheckTarget_cases [of e] by (intro conjI) blast+
qed

theorem targets_checked_witness:
  \<open>Parse sample_env [''TARGETS'', ''mylib'', ''myalias'', ''FILE'', ''out.cmake''] =
     (sample_export_arguments\<lparr>Targets := Some [''mylib'', ''myalias''], Filename := ''out.cmake''\<rparr>, []) \<and>
   IsAlias sample_env ''myalias'' \<and>
   cmExportCommand sample_env sample_unix [''TARGETS'', ''mylib'', ''myalias'', ''FILE'', ''out.cmake'']
     sample_export_state =
     (False, SetError ''given ALIAS target "myalias" which may not be exported.'' sample_export_state)\<close>
proof -
  let ?args = "[''TARGETS'', ''mylib'', ''myalias'', ''FILE'', ''out.cmake'']"
  let ?arguments = "sample_export_arguments\<lparr>Targets := Some [''mylib'', ''myalias''], Filename := ''out.cmake''\<rparr>"
  have len: "2 \<le> length ?args" and m1: "hd ?args \<noteq> ''PACKAGE''" and m2: "hd ?args \<noteq> ''SETUP''"
    and m3: "hd ?args \<noteq> ''EXPORT''"
    by simp_all
  have parse: "Parse sample_env ?args = (?arguments, [])"
    by (simp add: sample_export_defs)
  have names: "Targets ?arguments = Some [''mylib'', ''myalias'']" by simp
  have rf: "ResolveExportFile sample_env (hd ?args) ?arguments = Inr (''/build/out.cmake'', False)"
    using sample_targets_file [of "[''mylib'', ''myalias'']"] by simp
  have al: "IsAlias sample_env ''myalias''"
    by (simp add: sample_env_def sample_IsAlias_def)
  from targets_checked [OF len m1 m2 m3 parse names rf, of sample_unix sample_export_state]
  have "\<forall>before name rest err.
       [''mylib'', ''myalias''] = before @ name # rest \<and>
       (\<forall>n \<in> set before. CheckTarget sample_env n = None) \<and>
       CheckTarget sample_env name = Some err \<longrightarrow>
         cmExportCommand sample_env sample_unix ?args sample_export_state =
           (False, SetError err sample_export_state)"
    by blast
  from this [rule_format, of "[''mylib'']" "''myalias''" "[]"] sample_CheckTarget
  show ?thesis using parse al by simp
qed

subsection \<open>A file that is already bound\<close>

lemma SetupGenerator_simps:
  "fst (SetupGenerator e arguments fname android exportSet targets s)"
  "Messages (snd (SetupGenerator e arguments fname android exportSet targets s)) = Messages s"
  "BuildExportSets (snd (SetupGenerator e arguments fname android exportSet targets s)) fname =
     Some (length (Generators s))"
  by (simp_all add: SetupGenerator_def AddBuildExportSet_def AddBuildExportExportSet_def Let_def)

lemma cmExportCommand_bound:
  assumes len: "2 \<le> length args"
      and mode: "hd args \<noteq> ''PACKAGE''" "hd args \<noteq> ''SETUP''"
      and parse: "Parse e args = (arguments, [])"
      and fname: "ResolveExportFile e (hd args) arguments = Inr (fname, android)"
      and collected:
        "hd args = ''EXPORT'' \<and> ExportSets s (ExportSetName arguments) \<noteq> None \<or>
         hd args \<noteq> ''EXPORT'' \<and> \<not> ArgAppend arguments \<and>
         (\<exists>names targets. Targets arguments = Some names \<and> CollectTargets e names [] = Inr targets)"
  shows "\<exists>exportSet targets. cmExportCommand e r args s =
     (case CheckAlreadyExported e arguments fname s of
        Inl failed \<Rightarrow> (False, failed)
      | Inr s1 \<Rightarrow> SetupGenerator e arguments fname android exportSet targets s1)"
  using assms
  by (auto simp add: cmExportCommand_def ExportToFile_def Let_def split: sum.splits option.splits)

lemma sample_exported_state_simps:
  "BuildExportSets sample_exported_state = [''/build/out.cmake'' \<mapsto> 0]"
  "ExportSets sample_exported_state = Map.empty"
  "Messages sample_exported_state = []"
  "length (Generators sample_exported_state) = 1"
proof -
  have "cmExportCommand sample_env sample_unix [''TARGETS'', ''mylib'', ''FILE'', ''out.cmake'']
          sample_export_state =
        SetupGenerator sample_env
          (sample_export_arguments\<lparr>Targets := Some [''mylib''], Filename := ''out.cmake''\<rparr>)
          ''/build/out.cmake'' False None [(''mylib'', [])] sample_export_state"
    using cmExportCommand_targets [where args = "[''TARGETS'', ''mylib'', ''FILE'', ''out.cmake'']"
        and e = sample_env and r = sample_unix and s = sample_export_state
        and arguments = "sample_export_arguments\<lparr>Targets := Some [''mylib''], Filename := ''out.cmake''\<rparr>"
        and names = "[''mylib'']" and fname = "''/build/out.cmake''" and android = False]
      sample_targets_parse sample_targets_file [of "[''mylib'']"]
    by (simp add: sample_CheckTarget sample_export_arguments_def CheckAlreadyExported_def
        GetExportedTargetsFile_def sample_export_state_def)
  then show "BuildExportSets sample_exported_state = [''/build/out.cmake'' \<mapsto> 0]"
    "ExportSets sample_exported_state = Map.empty"
    "Messages sample_exported_state = []"
    "length (Generators sample_exported_state) = 1"
    by (simp_all add: sample_exported_state_def SetupGenerator_def AddBuildExportSet_def Let_def
        sample_export_state_def)
qed

text \<open>
  Claim C2. In the TARGETS form without APPEND and in the EXPORT form, when the
  arguments pass the earlier checks and the resolved file already has a generator: under
  CMP0103 NEW the command fails with "command already specified for the file ... Did
  you miss 'APPEND' keyword?"; under OLD it succeeds without any message and binds the
  file to the new generator; under WARN it succeeds the same way after an author
  warning with that text.
\<close>

theorem duplicate_export_file:
  assumes len: "2 \<le> length args"
      and mode: "hd args \<noteq> ''PACKAGE''" "hd args \<noteq> ''SETUP''"
      and parse: "Parse e args = (arguments, [])"
      and fname: "ResolveExportFile e (hd args) arguments = Inr (fname, android)"
      and collected:
        "hd args = ''EXPORT'' \<and> ExportSets s (ExportSetName arguments) \<noteq> None \<or>
         hd args \<noteq> ''EXPORT'' \<and> \<not> ArgAppend arguments \<and>
         (\<exists>names targets. Targets arguments = Some names \<and> CollectTargets e names [] = Inr targets)"
      and bound: "GetExportedTargetsFile s fname \<noteq> None"
  shows
   "(CMP0103 e = NEW \<longrightarrow>
       cmExportCommand e r args s = (False, SetError (AlreadySpecified (Filename arguments)) s)) \<and>
    (CMP0103 e = OLD \<longrightarrow>
       fst (cmExportCommand e r args s) \<and>
       Messages (snd (cmExportCommand e r args s)) = Messages s \<and>
       BuildExportSets (snd (cmExportCommand e r args s)) fname = Some (length (Generators s))) \<and>
    (CMP0103 e = WARN \<longrightarrow>
       fst (cmExportCommand e r args s) \<and>
       Messages (snd (cmExportCommand e r args s)) =
         Messages s @ [(AUTHOR_WARNING, GetPolicyWarning e @ ''\<newline>'' @ ''export() '' @
                                        AlreadySpecified (Filename arguments))] \<and>
       BuildExportSets (snd (cmExportCommand e r args s)) fname = Some (length (Generators s))) \<and>
    AlreadySpecified (Filename arguments) =
      ''command already specified for the file\<newline>  '' @ Filename arguments @
      ''\<newline>Did you miss 'APPEND' keyword?''"
proof -
  from cmExportCommand_bound [OF len mode parse fname collected, of r]
  obtain exportSet targets where cmd: "cmExportCommand e r args s =
     (case CheckAlreadyExported e arguments fname s of
        Inl failed \<Rightarrow> (False, failed)
      | Inr s1 \<Rightarrow> SetupGenerator e arguments fname android exportSet targets s1)"
    by blast
  show ?thesis
    using bound
    by (cases "CMP0103 e")
       (simp_all add: cmd CheckAlreadyExported_def SetupGenerator_simps IssueMessage_def
          AlreadySpecified_def)
qed

theorem duplicate_export_file_witness:
  "fst (cmExportCommand sample_env sample_unix [''TARGETS'', ''mylib'', ''FILE'', ''out.cmake'']
          sample_export_state) \<and>
   CMP0103 sample_env = NEW \<and>
   cmExportCommand sample_env sample_unix [''TARGETS'', ''mylib'', ''FILE'', ''out.cmake'']
     sample_exported_state =
     (False,
      SetError ''command already specified for the file\<newline>  out.cmake\<newline>Did you miss 'APPEND' keyword?''
        sample_exported_state) \<and>
   fst (cmExportCommand (sample_env\<lparr>CMP0103 := OLD\<rparr>) sample_unix
          [''TARGETS'', ''mylib'', ''FILE'', ''out.cmake''] sample_exported_state)"
proof -
  let ?args = "[''TARGETS'', ''mylib'', ''FILE'', ''out.cmake'']"
  let ?arguments = "sample_export_arguments\<lparr>Targets := Some [''mylib''], Filename := ''out.cmake''\<rparr>"
  have len: "2 \<le> length ?args" and m1: "hd ?args \<noteq> ''PACKAGE''" and m2: "hd ?args \<noteq> ''SETUP''"
    by simp_all
  have collected: "hd ?args = ''EXPORT'' \<and> ExportSets sample_exported_state (ExportSetName ?arguments) \<noteq> None \<or>
         hd ?args \<noteq> ''EXPORT'' \<and> \<not> ArgAppend ?arguments \<and>
         (\<exists>names targets. Targets ?arguments = Some names \<and>
            CollectTargets sample_env names [] = Inr targets)"
    by (simp add: sample_CheckTarget sample_export_arguments_def)
  have collected': "hd ?args = ''EXPORT'' \<and> ExportSets sample_exported_state (ExportSetName ?arguments) \<noteq> None \<or>
         hd ?args \<noteq> ''EXPORT'' \<and> \<not> ArgAppend ?arguments \<and>
         (\<exists>names targets. Targets ?arguments = Some names \<and>
            CollectTargets (sample_env\<lparr>CMP0103 := OLD\<rparr>) names [] = Inr targets)"
    by (simp add: CheckTarget_def sample_export_defs)
  have bound: "GetExportedTargetsFile sample_exported_state ''/build/out.cmake'' \<noteq> None"
    by (simp add: GetExportedTargetsFile_def sample_exported_state_simps)
  have parse': "Parse (sample_env\<lparr>CMP0103 := OLD\<rparr>) ?args = (?arguments, [])"
    using sample_targets_parse by (simp add: sample_env_def)
  have rf': "ResolveExportFile (sample_env\<lparr>CMP0103 := OLD\<rparr>) (hd ?args) ?arguments =
      Inr (''/build/out.cmake'', False)"
    by (simp add: ResolveExportFile_def FileToWrite_def sample_export_defs Let_def)
  have rf: "ResolveExportFile sample_env (hd ?args) ?arguments = Inr (''/build/out.cmake'', False)"
    using sample_targets_file [of "[''mylib'']"] by simp
  have first: "fst (cmExportCommand sample_env sample_unix ?args sample_export_state)"
    using cmExportCommand_targets [OF len m1 m2 _ sample_targets_parse _ rf, of "[''mylib'']"
        sample_unix sample_export_state]
    by (simp add: sample_CheckTarget sample_export_arguments_def CheckAlreadyExported_def
        GetExportedTargetsFile_def sample_export_state_def SetupGenerator_simps)
  have new: "CMP0103 sample_env = NEW" and old: "CMP0103 (sample_env\<lparr>CMP0103 := OLD\<rparr>) = OLD"
    by (simp_all add: sample_env_def)
  from duplicate_export_file [OF len m1 m2 sample_targets_parse rf collected bound, of sample_unix]
    duplicate_export_file [OF len m1 m2 parse' rf' collected' bound, of sample_unix]
  show ?thesis
    using first new old by (simp add: sample_export_arguments_def)
qed

subsection \<open>The ENABLED value of a package dependency\<close>

lemma SetupPackageDependencies_append:
  "SetupPackageDependencies e groups exportSet = (None, exportSet1) \<Longrightarrow>
   SetupPackageDependencies e (groups @ later) exportSet =
     SetupPackageDependencies e later exportSet1"
  by (induction e groups exportSet rule: SetupPackageDependencies.induct)
     (auto simp add: Let_def split: prod.splits list.splits sum.splits)

lemma ApplyEnabled_cases:
  "ApplyEnabled e [] pd = Inr pd"
  "ApplyEnabled e ''AUTO'' pd = Inr (pd\<lparr>Enabled := Auto\<rparr>)"
  "v \<noteq> [] \<Longrightarrow> v \<noteq> ''AUTO'' \<Longrightarrow> cmIsOff e v \<Longrightarrow> ApplyEnabled e v pd = Inr (pd\<lparr>Enabled := Off\<rparr>)"
  "v \<noteq> [] \<Longrightarrow> v \<noteq> ''AUTO'' \<Longrightarrow> \<not> cmIsOff e v \<Longrightarrow> cmIsOn e v \<Longrightarrow>
     ApplyEnabled e v pd = Inr (pd\<lparr>Enabled := On\<rparr>)"
  "v \<noteq> [] \<Longrightarrow> v \<noteq> ''AUTO'' \<Longrightarrow> \<not> cmIsOff e v \<Longrightarrow> \<not> cmIsOn e v \<Longrightarrow>
     ApplyEnabled e v pd =
       Inl (''Invalid enable setting for package dependency: '' @ [CHR 0x22] @ v @ [CHR 0x22])"
  by (simp_all add: ApplyEnabled_def)

lemma group_step:
  assumes "packageDependencyParser e others = (parsed, [])"
  shows "SetupPackageDependencies e ((front # others) # rest) exportSet =
     (case ApplyEnabled e (EnabledArg parsed) (fst (GetPackageDependencyForSetup e front exportSet)) of
        Inl err \<Rightarrow> (Some err, snd (GetPackageDependencyForSetup e front exportSet))
      | Inr pd1 \<Rightarrow>
          SetupPackageDependencies e rest
            (exportSet\<lparr>PackageDependencies := (PackageDependencies exportSet)(front \<mapsto>
               pd1\<lparr>ExtraArguments := ExtraArguments pd1 @ ExtraArgs parsed\<rparr>)\<rparr>))"
  using assms
  by (auto simp add: Let_def GetPackageDependencyForSetup_def split: prod.splits sum.splits option.splits)


lemma cmExportCommand_setup:
  assumes "2 \<le> length args" "hd args = ''SETUP''" "Parse e args = (arguments, [])"
  shows "cmExportCommand e r args s = Setup e arguments s"
  using assms by (simp add: cmExportCommand_def)

text \<open>
  Claim C10. In the SETUP form, take a PACKAGE_DEPENDENCY group whose own arguments
  parse, reached after the groups before it went through. The value AUTO sets the record
  to Auto; another non-empty value that cmIsOff accepts sets it to Off; one that cmIsOff
  rejects and cmIsOn accepts sets it to On; an empty value leaves the state as it was;
  in these four cases the EXTRA_ARGS of the group are appended to the extra arguments of
  the record, in order and with repetitions, and the loop goes on with the groups after
  it. The command then ends as they decide: when the group is the last one and there is
  no TARGET group, the command succeeds and the export set stored under the given name
  holds the record so updated; when the groups after it and the TARGET groups go
  through, the command succeeds and stores the export set they produce; when a later
  PACKAGE_DEPENDENCY group fails, the command fails with its error. Any other value
  makes the command fail with "Invalid enable setting for package dependency", and the
  export set stays as the groups before left it, with the record of this group looked
  up or created but not changed, and the groups after it not applied.
\<close>

theorem package_dependency_enabled:
  assumes len: "2 \<le> length args"
      and mode: "hd args = ''SETUP''"
      and parse: "Parse e args = (arguments, [])"
      and groups: "PackageDependencyArgs arguments = before @ (front # others) # rest"
      and before: "SetupPackageDependencies e before
                     (case ExportSets s (ExportSetName arguments) of
                        Some es \<Rightarrow> es | None \<Rightarrow> new_cmExportSet) = (None, exportSet)"
      and parsed: "packageDependencyParser e others = (parsed, [])"
      and found: "GetPackageDependencyForSetup e front exportSet = (packageDependency, exportSet1)"
  shows
   "(let v = EnabledArg parsed;
         extended = (\<lambda>state.
           exportSet\<lparr>PackageDependencies := (PackageDependencies exportSet)(front \<mapsto>
             packageDependency\<lparr>Enabled := state,
               ExtraArguments := ExtraArguments packageDependency @ ExtraArgs parsed\<rparr>)\<rparr>);
         stored = (\<lambda>exportSet2. s\<lparr>ExportSets := (ExportSets s)(ExportSetName arguments \<mapsto> exportSet2)\<rparr>);
         applied = (\<lambda>state.
           SetupPackageDependencies e ((front # others) # rest) exportSet =
             SetupPackageDependencies e rest (extended state) \<and>
           (rest = [] \<and> TargetArgs arguments = [] \<longrightarrow>
              cmExportCommand e r args s = (True, stored (extended state))) \<and>
           (\<forall>exportSet2 exportSet3.
              SetupPackageDependencies e rest (extended state) = (None, exportSet2) \<and>
              SetupTargets e (TargetArgs arguments) exportSet2 = (None, exportSet3) \<longrightarrow>
              cmExportCommand e r args s = (True, stored exportSet3)) \<and>
           (\<forall>err exportSet2.
              SetupPackageDependencies e rest (extended state) = (Some err, exportSet2) \<longrightarrow>
              cmExportCommand e r args s = (False, SetError err (stored exportSet2))))
     in (v = ''AUTO'' \<longrightarrow> applied Auto) \<and>
        (v \<noteq> [] \<and> v \<noteq> ''AUTO'' \<and> cmIsOff e v \<longrightarrow> applied Off) \<and>
        (v \<noteq> [] \<and> v \<noteq> ''AUTO'' \<and> \<not> cmIsOff e v \<and> cmIsOn e v \<longrightarrow> applied On) \<and>
        (v = [] \<longrightarrow> applied (Enabled packageDependency)) \<and>
        (v \<noteq> [] \<and> v \<noteq> ''AUTO'' \<and> \<not> cmIsOff e v \<and> \<not> cmIsOn e v \<longrightarrow>
           cmExportCommand e r args s =
             (False,
              SetError (''Invalid enable setting for package dependency: '' @ [CHR 0x22] @ v @
                        [CHR 0x22])
                (stored exportSet1))))"
proof -
  note step = group_step [OF parsed, of front rest exportSet, unfolded found fst_conv snd_conv]
  have whole: "SetupPackageDependencies e (PackageDependencyArgs arguments)
                 (case ExportSets s (ExportSetName arguments) of
                    Some es \<Rightarrow> es | None \<Rightarrow> new_cmExportSet) =
               SetupPackageDependencies e ((front # others) # rest) exportSet"
    unfolding groups by (rule SetupPackageDependencies_append [OF before])
  have cmd: "cmExportCommand e r args s = Setup e arguments s"
    by (rule cmExportCommand_setup [OF len mode parse])
  let ?ext = "\<lambda>state.
           exportSet\<lparr>PackageDependencies := (PackageDependencies exportSet)(front \<mapsto>
             packageDependency\<lparr>Enabled := state,
               ExtraArguments := ExtraArguments packageDependency @ ExtraArgs parsed\<rparr>)\<rparr>"
  let ?stored = "\<lambda>exportSet2. s\<lparr>ExportSets := (ExportSets s)(ExportSetName arguments \<mapsto> exportSet2)\<rparr>"
  let ?applied = "\<lambda>state.
           SetupPackageDependencies e ((front # others) # rest) exportSet =
             SetupPackageDependencies e rest (?ext state) \<and>
           (rest = [] \<and> TargetArgs arguments = [] \<longrightarrow>
              cmExportCommand e r args s = (True, ?stored (?ext state))) \<and>
           (\<forall>exportSet2 exportSet3.
              SetupPackageDependencies e rest (?ext state) = (None, exportSet2) \<and>
              SetupTargets e (TargetArgs arguments) exportSet2 = (None, exportSet3) \<longrightarrow>
              cmExportCommand e r args s = (True, ?stored exportSet3)) \<and>
           (\<forall>err exportSet2.
              SetupPackageDependencies e rest (?ext state) = (Some err, exportSet2) \<longrightarrow>
              cmExportCommand e r args s = (False, SetError err (?stored exportSet2)))"
  have applied: "?applied state"
    if eq: "SetupPackageDependencies e ((front # others) # rest) exportSet =
          SetupPackageDependencies e rest (?ext state)" for state
  proof -
    have run: "cmExportCommand e r args s =
       (case SetupPackageDependencies e rest (?ext state) of
           (Some err, exportSet2) \<Rightarrow> (False, SetError err (?stored exportSet2))
         | (None, exportSet2) \<Rightarrow>
             (case SetupTargets e (TargetArgs arguments) exportSet2 of
                (Some err, exportSet3) \<Rightarrow> (False, SetError err (?stored exportSet3))
              | (None, exportSet3) \<Rightarrow> (True, ?stored exportSet3)))"
      by (simp add: cmd Setup_def Let_def whole eq del: SetupPackageDependencies.simps)
    have a: "rest = [] \<and> TargetArgs arguments = [] \<longrightarrow>
              cmExportCommand e r args s = (True, ?stored (?ext state))"
      by (simp add: run)
    have b: "\<forall>exportSet2 exportSet3.
              SetupPackageDependencies e rest (?ext state) = (None, exportSet2) \<and>
              SetupTargets e (TargetArgs arguments) exportSet2 = (None, exportSet3) \<longrightarrow>
              cmExportCommand e r args s = (True, ?stored exportSet3)"
      by (simp add: run del: SetupPackageDependencies.simps)
    have c: "\<forall>err exportSet2.
              SetupPackageDependencies e rest (?ext state) = (Some err, exportSet2) \<longrightarrow>
              cmExportCommand e r args s = (False, SetError err (?stored exportSet2))"
      by (simp add: run del: SetupPackageDependencies.simps)
    from eq a b c show ?thesis by (intro conjI)
  qed
  have A: "EnabledArg parsed = ''AUTO'' \<longrightarrow> ?applied Auto"
  proof
    assume "EnabledArg parsed = ''AUTO''"
    then have "SetupPackageDependencies e ((front # others) # rest) exportSet =
        SetupPackageDependencies e rest (?ext Auto)"
      by (simp add: step ApplyEnabled_cases del: SetupPackageDependencies.simps)
    then show "?applied Auto" by (rule applied)
  qed
  have B: "EnabledArg parsed \<noteq> [] \<and> EnabledArg parsed \<noteq> ''AUTO'' \<and>
      cmIsOff e (EnabledArg parsed) \<longrightarrow> ?applied Off"
  proof
    assume "EnabledArg parsed \<noteq> [] \<and> EnabledArg parsed \<noteq> ''AUTO'' \<and>
      cmIsOff e (EnabledArg parsed)"
    then have "SetupPackageDependencies e ((front # others) # rest) exportSet =
        SetupPackageDependencies e rest (?ext Off)"
      by (simp add: step ApplyEnabled_cases del: SetupPackageDependencies.simps)
    then show "?applied Off" by (rule applied)
  qed
  have C: "EnabledArg parsed \<noteq> [] \<and> EnabledArg parsed \<noteq> ''AUTO'' \<and>
      \<not> cmIsOff e (EnabledArg parsed) \<and> cmIsOn e (EnabledArg parsed) \<longrightarrow> ?applied On"
  proof
    assume "EnabledArg parsed \<noteq> [] \<and> EnabledArg parsed \<noteq> ''AUTO'' \<and>
      \<not> cmIsOff e (EnabledArg parsed) \<and> cmIsOn e (EnabledArg parsed)"
    then have "SetupPackageDependencies e ((front # others) # rest) exportSet =
        SetupPackageDependencies e rest (?ext On)"
      by (simp add: step ApplyEnabled_cases del: SetupPackageDependencies.simps)
    then show "?applied On" by (rule applied)
  qed
  have D: "EnabledArg parsed = [] \<longrightarrow> ?applied (Enabled packageDependency)"
  proof
    assume "EnabledArg parsed = []"
    then have "SetupPackageDependencies e ((front # others) # rest) exportSet =
        SetupPackageDependencies e rest (?ext (Enabled packageDependency))"
      by (simp add: step ApplyEnabled_cases del: SetupPackageDependencies.simps)
    then show "?applied (Enabled packageDependency)" by (rule applied)
  qed
  have E: "EnabledArg parsed \<noteq> [] \<and> EnabledArg parsed \<noteq> ''AUTO'' \<and>
      \<not> cmIsOff e (EnabledArg parsed) \<and> \<not> cmIsOn e (EnabledArg parsed) \<longrightarrow>
      cmExportCommand e r args s =
        (False,
         SetError (''Invalid enable setting for package dependency: '' @ [CHR 0x22] @
                   EnabledArg parsed @ [CHR 0x22])
           (?stored exportSet1))"
    by (simp add: step ApplyEnabled_cases cmd Setup_def Let_def whole
        del: SetupPackageDependencies.simps)
  show ?thesis
    unfolding Let_def by (rule conjI [OF A conjI [OF B conjI [OF C conjI [OF D E]]]])
qed

theorem package_dependency_enabled_witness:
  \<open>cmExportCommand sample_env sample_unix
     [''SETUP'', ''myset'', ''PACKAGE_DEPENDENCY'', ''Foo'', ''ENABLED'', ''MAYBE'',
      ''EXTRA_ARGS'', ''a'', ''a'']
     sample_export_state =
     (False,
      SetError ''Invalid enable setting for package dependency: "MAYBE"''
        (sample_export_state\<lparr>ExportSets :=
           [''myset'' \<mapsto> new_cmExportSet\<lparr>PackageDependencies :=
                          [''Foo'' \<mapsto> \<lparr>Enabled = Auto, ExtraArguments = []\<rparr>]\<rparr>]\<rparr>)) \<and>
   cmExportCommand sample_env sample_unix
     [''SETUP'', ''myset'', ''PACKAGE_DEPENDENCY'', ''Foo'', ''ENABLED'', ''OFF'',
      ''EXTRA_ARGS'', ''a'', ''a'']
     sample_export_state =
     (True,
      sample_export_state\<lparr>ExportSets :=
         [''myset'' \<mapsto> new_cmExportSet\<lparr>PackageDependencies :=
                        [''Foo'' \<mapsto> \<lparr>Enabled = Off, ExtraArguments = [''a'', ''a'']\<rparr>]\<rparr>]\<rparr>) \<and>
   cmExportCommand sample_env sample_unix
     [''SETUP'', ''myset'', ''PACKAGE_DEPENDENCY'', ''Foo'', ''ENABLED'', ''AUTO'',
      ''EXTRA_ARGS'', ''a'', ''a'']
     sample_export_state =
     (True,
      sample_export_state\<lparr>ExportSets :=
         [''myset'' \<mapsto> new_cmExportSet\<lparr>PackageDependencies :=
                        [''Foo'' \<mapsto> \<lparr>Enabled = Auto, ExtraArguments = [''a'', ''a'']\<rparr>]\<rparr>]\<rparr>)\<close>
proof -
  let ?args = "\<lambda>v. [''SETUP'', ''myset'', ''PACKAGE_DEPENDENCY'', ''Foo'', ''ENABLED'', v,
      ''EXTRA_ARGS'', ''a'', ''a'']"
  let ?others = "\<lambda>v. [''ENABLED'', v, ''EXTRA_ARGS'', ''a'', ''a'']"
  let ?arguments = "\<lambda>v. sample_export_arguments\<lparr>ExportSetName := ''myset'',
      PackageDependencyArgs := [''Foo'' # ?others v]\<rparr>"
  let ?parsed = "\<lambda>v. \<lparr>EnabledArg = v, ExtraArgs = [''a'', ''a'']\<rparr>"
  let ?set1 = "new_cmExportSet\<lparr>PackageDependencies :=
                          [''Foo'' \<mapsto> \<lparr>Enabled = Auto, ExtraArguments = []\<rparr>]\<rparr>"
  have found: "GetPackageDependencyForSetup sample_env ''Foo'' new_cmExportSet =
                 (\<lparr>Enabled = Auto, ExtraArguments = []\<rparr>, ?set1)"
    by (simp add: GetPackageDependencyForSetup_def new_cmExportSet_def sample_env_def)
  have off: "\<not> cmIsOff sample_env ''MAYBE''" "cmIsOff sample_env ''OFF''"
    and on: "\<not> cmIsOn sample_env ''MAYBE''"
    by (simp_all add: sample_env_def sample_cmIsOff_def sample_cmIsOn_def)
  have none: "ExportSets sample_export_state = Map.empty"
    by (simp add: sample_export_state_def)
  have targets: "TargetArgs sample_export_arguments = []"
    by (simp add: sample_export_arguments_def)
  have pd: "PackageDependencies new_cmExportSet = Map.empty"
    by (simp add: new_cmExportSet_def)
  have len1: "2 \<le> length (?args ''MAYBE'')" and mode1: "hd (?args ''MAYBE'') = ''SETUP''"
    by simp_all
  have parse1: "Parse sample_env (?args ''MAYBE'') = (?arguments ''MAYBE'', [])"
    by (simp add: sample_export_defs)
  have groups1: "PackageDependencyArgs (?arguments ''MAYBE'') =
      [] @ (''Foo'' # ?others ''MAYBE'') # []"
    by simp
  have before1: "SetupPackageDependencies sample_env []
      (case ExportSets sample_export_state (ExportSetName (?arguments ''MAYBE'')) of
         Some es \<Rightarrow> es | None \<Rightarrow> new_cmExportSet) = (None, new_cmExportSet)"
    by (simp add: sample_export_state_def)
  have parsed1: "packageDependencyParser sample_env (?others ''MAYBE'') = (?parsed ''MAYBE'', [])"
    by (simp add: sample_export_defs)
  note maybe = package_dependency_enabled [where r = sample_unix,
      OF len1 mode1 parse1 groups1 before1 parsed1 found, unfolded Let_def]
  have len2: "2 \<le> length (?args ''OFF'')" and mode2: "hd (?args ''OFF'') = ''SETUP''"
    by simp_all
  have parse2: "Parse sample_env (?args ''OFF'') = (?arguments ''OFF'', [])"
    by (simp add: sample_export_defs)
  have groups2: "PackageDependencyArgs (?arguments ''OFF'') =
      [] @ (''Foo'' # ?others ''OFF'') # []"
    by simp
  have before2: "SetupPackageDependencies sample_env []
      (case ExportSets sample_export_state (ExportSetName (?arguments ''OFF'')) of
         Some es \<Rightarrow> es | None \<Rightarrow> new_cmExportSet) = (None, new_cmExportSet)"
    by (simp add: sample_export_state_def)
  have parsed2: "packageDependencyParser sample_env (?others ''OFF'') = (?parsed ''OFF'', [])"
    by (simp add: sample_export_defs)
  note is_off = package_dependency_enabled [where r = sample_unix,
      OF len2 mode2 parse2 groups2 before2 parsed2 found, unfolded Let_def]
  have len3: "2 \<le> length (?args ''AUTO'')" and mode3: "hd (?args ''AUTO'') = ''SETUP''"
    by simp_all
  have parse3: "Parse sample_env (?args ''AUTO'') = (?arguments ''AUTO'', [])"
    by (simp add: sample_export_defs)
  have groups3: "PackageDependencyArgs (?arguments ''AUTO'') =
      [] @ (''Foo'' # ?others ''AUTO'') # []"
    by simp
  have before3: "SetupPackageDependencies sample_env []
      (case ExportSets sample_export_state (ExportSetName (?arguments ''AUTO'')) of
         Some es \<Rightarrow> es | None \<Rightarrow> new_cmExportSet) = (None, new_cmExportSet)"
    by (simp add: sample_export_state_def)
  have parsed3: "packageDependencyParser sample_env (?others ''AUTO'') = (?parsed ''AUTO'', [])"
    by (simp add: sample_export_defs)
  note is_auto = package_dependency_enabled [where r = sample_unix,
      OF len3 mode3 parse3 groups3 before3 parsed3 found, unfolded Let_def]
  have a: "cmExportCommand sample_env sample_unix (?args ''MAYBE'') sample_export_state =
     (False,
      SetError (''Invalid enable setting for package dependency: '' @ [CHR 0x22] @ ''MAYBE'' @
                [CHR 0x22])
        (sample_export_state\<lparr>ExportSets := [''myset'' \<mapsto> ?set1]\<rparr>))"
    using maybe off on by (simp add: none)
  have b: "cmExportCommand sample_env sample_unix (?args ''OFF'') sample_export_state =
     (True,
      sample_export_state\<lparr>ExportSets :=
         [''myset'' \<mapsto> new_cmExportSet\<lparr>PackageDependencies :=
                        [''Foo'' \<mapsto> \<lparr>Enabled = Off, ExtraArguments = [''a'', ''a'']\<rparr>]\<rparr>]\<rparr>)"
    using is_off off by (simp add: none targets pd)
  have c: "cmExportCommand sample_env sample_unix (?args ''AUTO'') sample_export_state =
     (True,
      sample_export_state\<lparr>ExportSets :=
         [''myset'' \<mapsto> new_cmExportSet\<lparr>PackageDependencies :=
                        [''Foo'' \<mapsto> \<lparr>Enabled = Auto, ExtraArguments = [''a'', ''a'']\<rparr>]\<rparr>]\<rparr>)"
    using is_auto by (simp add: none targets pd)
  from a b c show ?thesis by simp
qed

subsection \<open>Storing a package twice\<close>

lemma Win32_simps:
  "Files (StorePackageRegistry_Win32 r package content hash s) = Files s"
  "Registry (StorePackageRegistry_Win32 r package content hash s) =
     (if RegCreateKeyExW r (RegistryKey package) \<noteq> 0 then Registry s
      else if RegSetValueExW r (RegistryKey package) hash \<noteq> 0 then
        (Registry s)(RegistryKey package \<mapsto>
          (case Registry s (RegistryKey package) of None \<Rightarrow> Map.empty | Some vs \<Rightarrow> vs))
      else
        (Registry s)(RegistryKey package \<mapsto>
          (case Registry s (RegistryKey package) of None \<Rightarrow> Map.empty | Some vs \<Rightarrow> vs)
            (hash \<mapsto> content)))"
  by (simp_all add: StorePackageRegistry_Win32_def ReportRegistryError_def IssueMessage_def
      RegistryKey_def Let_def)

lemma Posix_simps:
  "Registry (StorePackageRegistry_Posix r package content hash s) = Registry s"
  "Files (StorePackageRegistry_Posix r package content hash s) =
     (case PackageDirectory r package of
        None \<Rightarrow> Files s
      | Some dir \<Rightarrow>
          (let fs = (case Files s dir of None \<Rightarrow> (Files s)(dir \<mapsto> Directory) | Some n \<Rightarrow> Files s)
           in if fs (dir @ ''/'' @ hash) = None \<and> CanCreateFile r (dir @ ''/'' @ hash) then
                fs(dir @ ''/'' @ hash \<mapsto> RegularFile (content @ ''\<newline>''))
              else fs))"
  by (auto simp add: StorePackageRegistry_Posix_def MakeDirectory_def FileExists_def
      IssueMessage_def Let_def split: option.splits)



lemma Posix_twice:
  "Files (StorePackageRegistry_Posix r package content hash
            (StorePackageRegistry_Posix r package content hash s)) =
   Files (StorePackageRegistry_Posix r package content hash s)"
proof (cases "PackageDirectory r package")
  case None
  then show ?thesis by (simp add: Posix_simps)
next
  case (Some dir)
  define entry where "entry = dir @ ''/'' @ hash"
  define fs where "fs = (case Files s dir of None \<Rightarrow> (Files s)(dir \<mapsto> Directory) | Some n \<Rightarrow> Files s)"
  define once where "once = (if fs entry = None \<and> CanCreateFile r entry then
       fs(entry \<mapsto> RegularFile (content @ ''\<newline>'')) else fs)"
  have ne: "dir \<noteq> entry" by (simp add: entry_def)
  have first: "Files (StorePackageRegistry_Posix r package content hash s) = once"
    by (simp add: Posix_simps Some Let_def once_def fs_def entry_def)
  have dir: "fs dir \<noteq> None" by (simp add: fs_def split: option.splits)
  then have dir1: "once dir \<noteq> None" using ne by (simp add: once_def)
  then have keep: "(case once dir of None \<Rightarrow> once(dir \<mapsto> Directory) | Some n \<Rightarrow> once) = once"
    by (cases "once dir") simp_all
  have "\<not> (once entry = None \<and> CanCreateFile r entry)"
    by (simp add: once_def)
  then show ?thesis
    unfolding Posix_simps(2) [of r package content hash "StorePackageRegistry_Posix r package content hash s"]
    unfolding first Some option.case Let_def keep entry_def [symmetric]
    by auto
qed

lemma Win32_twice:
  "Registry (StorePackageRegistry_Win32 r package content hash
            (StorePackageRegistry_Win32 r package content hash s)) =
   Registry (StorePackageRegistry_Win32 r package content hash s)"
proof (cases "RegCreateKeyExW r (RegistryKey package) = 0")
  case False
  then show ?thesis by (simp add: Win32_simps)
next
  case True
  show ?thesis
  proof (cases "RegSetValueExW r (RegistryKey package) hash = 0")
    case False
    with True show ?thesis by (simp add: Win32_simps)
  next
    case set: True
    with True show ?thesis by (simp add: Win32_simps)
  qed
qed

text \<open>
  Claim C4, as amended. For every variant of StorePackageRegistry, a second call with
  the same package, content and digest leaves the files and the registry as the first
  call left them. The file variant looks for the entry first: an entry that exists is
  kept as it is, and one that does not exist is written when the file can be created.
  The Windows variant does not look: when both registry calls succeed, the value named
  by the digest holds the content afterwards, whatever it held before.
\<close>

theorem store_idempotent:
  "(let once = StorePackageRegistry r package content hash s;
        twice = StorePackageRegistry r package content hash once
    in Files twice = Files once \<and> Registry twice = Registry once \<and>
       (platform r \<noteq> Win32 \<longrightarrow>
          (\<forall>dir. PackageDirectory r package = Some dir \<longrightarrow>
             (\<forall>node. Files s (dir @ ''/'' @ hash) = Some node \<longrightarrow>
                       Files once (dir @ ''/'' @ hash) = Some node) \<and>
             (Files s (dir @ ''/'' @ hash) = None \<and> CanCreateFile r (dir @ ''/'' @ hash) \<longrightarrow>
                Files once (dir @ ''/'' @ hash) = Some (RegularFile (content @ ''\<newline>''))))) \<and>
       (platform r = Win32 \<and> RegCreateKeyExW r (RegistryKey package) = 0 \<and>
        RegSetValueExW r (RegistryKey package) hash = 0 \<longrightarrow>
          RegQueryValue once (RegistryKey package) hash = Some content))"
proof (cases "platform r = Win32")
  case True
  then show ?thesis
    by (simp add: StorePackageRegistry_def Let_def Win32_twice Win32_simps(1) RegQueryValue_def
        Win32_simps(2) [of r package content hash s])
next
  case False
  have "\<And>dir node. PackageDirectory r package = Some dir \<Longrightarrow>
          Files s (dir @ ''/'' @ hash) = Some node \<Longrightarrow>
          Files (StorePackageRegistry_Posix r package content hash s) (dir @ ''/'' @ hash) = Some node"
    by (simp add: Posix_simps Let_def split: option.splits)
  moreover have "\<And>dir. PackageDirectory r package = Some dir \<Longrightarrow>
          Files s (dir @ ''/'' @ hash) = None \<Longrightarrow> CanCreateFile r (dir @ ''/'' @ hash) \<Longrightarrow>
          Files (StorePackageRegistry_Posix r package content hash s) (dir @ ''/'' @ hash) =
            Some (RegularFile (content @ ''\<newline>''))"
    by (simp add: Posix_simps Let_def split: option.splits)
  ultimately show ?thesis
    using False
    by (simp add: StorePackageRegistry_def Let_def Posix_twice Posix_simps(1))
qed

theorem store_idempotent_witness:
  "platform sample_unix \<noteq> Win32 \<and>
   PackageDirectory sample_unix ''Foo'' = Some ''/home/user/.cmake/packages/Foo'' \<and>
   Files sample_export_state ''/home/user/.cmake/packages/Foo/d41d8cd9'' = None \<and>
   Files (StorePackageRegistry sample_unix ''Foo'' ''/build'' ''d41d8cd9'' sample_export_state)
     ''/home/user/.cmake/packages/Foo/d41d8cd9'' = Some (RegularFile ''/build\<newline>'') \<and>
   Files (StorePackageRegistry sample_unix ''Foo'' ''/build'' ''d41d8cd9''
            (StorePackageRegistry sample_unix ''Foo'' ''/build'' ''d41d8cd9'' sample_export_state)) =
   Files (StorePackageRegistry sample_unix ''Foo'' ''/build'' ''d41d8cd9'' sample_export_state)"
proof -
  have p: "platform sample_unix \<noteq> Win32" by (simp add: sample_unix_def)
  have d: "PackageDirectory sample_unix ''Foo'' = Some ''/home/user/.cmake/packages/Foo''"
    by (simp add: PackageDirectory_def sample_unix_def)
  have n: "Files sample_export_state (''/home/user/.cmake/packages/Foo'' @ ''/'' @ ''d41d8cd9'') = None"
    by (simp add: sample_export_state_def)
  have c: "CanCreateFile sample_unix (''/home/user/.cmake/packages/Foo'' @ ''/'' @ ''d41d8cd9'')"
    by (simp add: sample_unix_def sample_CanCreateFile_def)
  from store_idempotent [of sample_unix "''Foo''" "''/build''" "''d41d8cd9''" sample_export_state]
  show ?thesis
    unfolding Let_def using p d n c by simp
qed

text \<open>
  The claim as it was written says that every variant checks for an existing entry
  before it writes. The Windows variant writes over an entry that exists.
\<close>

theorem registry_overwrite_counterexample:
  "RegQueryValue sample_registered_state (RegistryKey ''Foo'') ''d41d8cd9'' = Some ''/elsewhere'' \<and>
   RegQueryValue
     (StorePackageRegistry sample_win32 ''Foo'' ''/build'' ''d41d8cd9'' sample_registered_state)
     (RegistryKey ''Foo'') ''d41d8cd9'' = Some ''/build''"
  by (simp add: RegQueryValue_def StorePackageRegistry_def Win32_simps sample_registered_state_def
      sample_win32_def sample_unix_def sample_no_error_def sample_no_error2_def)

end
